theory Spec2Isabelle
  imports Complex_Main
begin

section \<open>Avatar viewer: data model\<close>

text \<open>
  Shallow embedding of \<^verbatim>\<open>src/assets/avatar.js\<close> (class \<^verbatim>\<open>HytaleAvatarViewer\<close>).
  On the animation path a number is a finite IEEE 754 double and every operation of the
  code rounds its exact result to the nearest double; \<^verbatim>\<open>NaN\<close> is \<open>None\<close>. The
  geometry of the rest pose, the rectangles of the texture atlas and the channel
  products of the tinting are computed in exact real arithmetic.
\<close>

subsection \<open>Vectors, quaternions and the scene graph\<close>

datatype vec3 = Vector3 (vx: real) (vy: real) (vz: real)

datatype quat = Quaternion (qx: real) (qy: real) (qz: real) (qw: real)

text \<open>A fresh \<^verbatim>\<open>THREE.Group\<close> has position (0,0,0) and the identity quaternion.\<close>

definition zeroVec :: vec3 where
  "zeroVec = Vector3 0 0 0"

definition identityQuat :: quat where
  "identityQuat = Quaternion 0 0 0 1"

text \<open>
  An \<^verbatim>\<open>Object3D\<close> of the scene graph: its name, whether it is a mesh, its local
  position and quaternion, and its children in insertion order.
\<close>

datatype object3d =
  Object3D (name: string) (isMesh: bool) (position: vec3) (quaternion: quat)
    (children: "object3d list")

text \<open>
  A reference to an object of the graph is the list of child indices that leads to it
  from the root. \<^verbatim>\<open>add\<close> appends to the end of a child list and nothing is ever
  removed while a character is assembled or animated, so such a reference stays valid.
\<close>

type_synonym path = "nat list"

fun getAt :: "path \<Rightarrow> object3d \<Rightarrow> object3d option" where
  "getAt [] obj = Some obj"
| "getAt (i # p) obj =
     (if i < length (children obj) then getAt p (children obj ! i) else None)"

fun updateAt :: "path \<Rightarrow> (object3d \<Rightarrow> object3d) \<Rightarrow> object3d \<Rightarrow> object3d" where
  "updateAt [] f obj = f obj"
| "updateAt (i # p) f (Object3D n m pos q cs) =
     (if i < length cs then Object3D n m pos q (cs[i := updateAt p f (cs ! i)])
      else Object3D n m pos q cs)"

text \<open>\<^verbatim>\<open>parent.add(child)\<close> for a child that has no parent yet.\<close>

definition add :: "object3d \<Rightarrow> object3d \<Rightarrow> object3d" where
  "add child parent =
     Object3D (name parent) (isMesh parent) (position parent) (quaternion parent)
       (children parent @ [child])"

definition addAt :: "path \<Rightarrow> object3d \<Rightarrow> object3d \<Rightarrow> object3d" where
  "addAt p child scene = updateAt p (add child) scene"

text \<open>
  \<^verbatim>\<open>traverse\<close> and \<^verbatim>\<open>getObjectByName\<close> of three.js visit an object before its
  children, the children in order: the first object with the name in that order.
\<close>

fun findPath :: "string \<Rightarrow> object3d \<Rightarrow> path option"
  and findPathList :: "string \<Rightarrow> nat \<Rightarrow> object3d list \<Rightarrow> path option" where
  "findPath nm (Object3D n m pos q cs) =
     (if n = nm then Some [] else findPathList nm 0 cs)"
| "findPathList nm i [] = None"
| "findPathList nm i (c # cs) =
     (case findPath nm c of
        Some p \<Rightarrow> Some (i # p)
      | None \<Rightarrow> findPathList nm (Suc i) cs)"

definition getObjectByName :: "object3d \<Rightarrow> string \<Rightarrow> path option" where
  "getObjectByName obj nm = findPath nm obj"

text \<open>\<^verbatim>\<open>_findBoneByName\<close>: no bone for an empty name, else the first match of a traversal.\<close>

definition findBoneByName :: "object3d \<Rightarrow> string \<Rightarrow> path option" where
  "findBoneByName parent nm = (if nm = [] then None else findPath nm parent)"

text \<open>
  What an object is apart from its children, and the relation between two states of the
  graph in which every object of the first is still at its path in the second, with
  the same name, kind, position and quaternion.
\<close>

definition label :: "object3d \<Rightarrow> string \<times> bool \<times> vec3 \<times> quat" where
  "label obj = (name obj, isMesh obj, position obj, quaternion obj)"

definition keeps :: "object3d \<Rightarrow> object3d \<Rightarrow> bool" where
  "keeps scene scene' =
     (\<forall>r obj. getAt r scene = Some obj \<longrightarrow>
        (\<exists>obj'. getAt r scene' = Some obj' \<and> label obj' = label obj))"

subsection \<open>Avatar descriptor and viewer state\<close>

text \<open>
  A colour value as the code receives it: a number, a string or an array of such
  (\<^verbatim>\<open>_parseColor\<close> distinguishes exactly these); \<open>JOther\<close> is a colour that is
  absent (\<^verbatim>\<open>undefined\<close> or \<^verbatim>\<open>null\<close>).
\<close>

datatype jsval = JNum int | JStr string | JArr "jsval list" | JOther

record cosmeticPart =
  part_model :: "string option"
  part_texture :: "string option"
  part_greyscaleTexture :: "string option"
  part_gradientTexture :: "string option"
  part_baseColor :: "jsval option"
  part_gradientSet :: "string option"

text \<open>
  The avatar descriptor. \<open>parts = None\<close> is a descriptor without a \<^verbatim>\<open>parts\<close> field
  (the code reads it with \<^verbatim>\<open>data.parts?.slot\<close>); a slot maps to a part when its value
  is an object, and to \<open>None\<close> when it is absent or falsy.
\<close>

record modelData =
  skinTone :: string
  bodyType :: string
  parts :: "(string \<rightharpoonup> cosmeticPart) option"

definition part :: "modelData \<Rightarrow> string \<Rightarrow> cosmeticPart option" where
  "part data slot = (case parts data of None \<Rightarrow> None | Some ps \<Rightarrow> ps slot)"

definition equipped :: "modelData \<Rightarrow> string \<Rightarrow> bool" where
  "equipped data slot = (part data slot \<noteq> None)"

subsection \<open>Animation document\<close>

text \<open>
  A keyframe of a track. \<open>delta\<close> is the object \<^verbatim>\<open>{x, y, z, w}\<close>; a position track
  reads its \<open>x\<close>, \<open>y\<close> and \<open>z\<close> only.
\<close>

record keyframe =
  time :: real
  delta :: quat
  interpolationType :: string

text \<open>A track that the document does not have is \<open>None\<close>.\<close>

record nodeAnimation =
  positionTrack :: "keyframe list option"
  orientationTrack :: "keyframe list option"

text \<open>
  \<open>nodeAnimations\<close> lists the entries of the object in the order of
  \<^verbatim>\<open>Object.entries\<close>.
\<close>

record animation =
  duration :: real
  holdLastKeyframe :: bool
  nodeAnimations :: "(string \<times> nodeAnimation) list option"

subsection \<open>Images\<close>

text \<open>
  A decoded image, as \<^verbatim>\<open>getImageData\<close> returns it after \<^verbatim>\<open>drawImage\<close>: its size and
  its bytes, four (red, green, blue, alpha) per pixel, row by row. A loaded texture is
  modelled by its image.
\<close>

record image =
  img_width :: nat
  img_height :: nat
  img_data :: "nat list"

subsection \<open>Viewer state\<close>

record transform =
  t_position :: vec3
  t_quaternion :: quat

text \<open>
  The mutable state of one viewer that loading and animating touch. \<open>character\<close> is
  \<open>None\<close> until \<^verbatim>\<open>init\<close> has run. \<open>originalTransforms\<close> is a JavaScript
  \<^verbatim>\<open>Map\<close>: an association list in insertion order, with one entry per key.
\<close>

record viewer =
  character :: "object3d option"
  hiddenBodyParts :: "string set"
  polygonOffsetParts :: "string set"
  originalTransforms :: "(string \<times> transform) list"
  textureCache :: "string \<rightharpoonup> image"
  currentAnimation :: "animation option"
  currentAnimationPath :: "string option"
  animationTime :: real
  lastFrameTime :: real
  animationEnabled :: bool

text \<open>
  The state after the constructor, and after \<^verbatim>\<open>init\<close>: the character is an empty
  group turned by \<^verbatim>\<open>rotation.y = Math.PI\<close> to face the camera, which is the
  quaternion (0, 1, 0, 0).
\<close>

definition newViewer :: viewer where
  "newViewer =
     \<lparr>character = None, hiddenBodyParts = {}, polygonOffsetParts = {},
      originalTransforms = [], textureCache = Map.empty, currentAnimation = None,
      currentAnimationPath = Some ''Default/Idle'', animationTime = 0,
      lastFrameTime = 0, animationEnabled = True\<rparr>"

definition init :: "viewer \<Rightarrow> viewer" where
  "init st = st\<lparr>character := Some (Object3D [] False zeroVec (Quaternion 0 1 0 0) [])\<rparr>"

subsection \<open>Hidden and offset body parts\<close>

definition determineHiddenParts :: "modelData \<Rightarrow> viewer \<Rightarrow> viewer" where
  "determineHiddenParts data st =
    (let st1 = (if equipped data ''pants'' \<or> equipped data ''overpants''
                then st\<lparr>hiddenBodyParts := hiddenBodyParts st \<union>
                       {''Pelvis'', ''L-Thigh'', ''R-Thigh'', ''L-Calf'', ''R-Calf''}\<rparr>
                else st);
         st2 = (if equipped data ''overtop'' \<or> equipped data ''undertop''
                then st1\<lparr>hiddenBodyParts := hiddenBodyParts st1 \<union> {''Belly'', ''Chest''},
                        polygonOffsetParts := polygonOffsetParts st1 \<union>
                          {''L-Arm'', ''R-Arm'', ''L-Forearm'', ''R-Forearm''}\<rparr>
                else st1);
         st3 = (if equipped data ''shoes''
                then st2\<lparr>hiddenBodyParts := hiddenBodyParts st2 \<union> {''L-Foot'', ''R-Foot''}\<rparr>
                else st2);
         st4 = (if equipped data ''haircut''
                then st3\<lparr>hiddenBodyParts := hiddenBodyParts st3 \<union> {''HeadTop'', ''HairBase''}\<rparr>
                else st3)
     in st4)"

section \<open>Animation sampler\<close>

definition SCALE :: real where
  "SCALE = 1 / 100"

definition FPS :: real where
  "FPS = 60"

subsection \<open>Double precision\<close>

text \<open>
  A finite double is a real number of the form \<open>m * 2 ^ (e - 52)\<close> with an integer
  \<open>m\<close> below \<open>2 ^ 53\<close> in magnitude and an exponent \<open>e\<close> from -1022 to 1023.
  \<open>expo x\<close> is the exponent of the binade of a real \<open>x\<close> other than 0, the integer
  \<open>e\<close> with \<open>2 ^ e \<le> \<bar>x\<bar> < 2 ^ (e + 1)\<close>, and \<open>rnd x\<close> is the double nearest to
  \<open>x\<close>, the one with the even \<open>m\<close> when two are equally near: what an arithmetic
  operation of the code returns for the exact result \<open>x\<close>. Below \<open>2 ^ - 1022\<close> the
  doubles are equally spaced.

  A result of magnitude \<open>2 ^ 1024\<close> is infinite in JavaScript, which has no
  counterpart here: \<open>loopTime\<close> says what the code makes of such a sum, and apart from
  that the times of a document are taken to be small enough for finite results.
\<close>

fun ilog2 :: "nat \<Rightarrow> nat" where
  "ilog2 n = (if n < 2 then 0 else Suc (ilog2 (n div 2)))"

declare ilog2.simps [simp del]

definition expo :: "real \<Rightarrow> int" where
  "expo x =
     (if 1 \<le> \<bar>x\<bar> then int (ilog2 (nat \<lfloor>\<bar>x\<bar>\<rfloor>))
      else (let k = ilog2 (nat \<lfloor>1 / \<bar>x\<bar>\<rfloor>)
            in if \<bar>x\<bar> * 2 ^ k = 1 then - int k else - int k - 1))"

definition pow2 :: "int \<Rightarrow> real" where
  "pow2 e = (if 0 \<le> e then 2 ^ nat e else 1 / 2 ^ nat (- e))"

definition roundEven :: "real \<Rightarrow> int" where
  "roundEven y =
     (let f = \<lfloor>y\<rfloor>; r = y - of_int f
      in if r < 1 / 2 then f else if 1 / 2 < r then f + 1 else if even f then f else f + 1)"

definition rnd :: "real \<Rightarrow> real" where
  "rnd x =
     (if x = 0 then 0
      else (let u = pow2 (max (expo x) (- 1022) - 52) in of_int (roundEven (x / u)) * u))"

text \<open>The four operations on doubles.\<close>

definition fadd :: "real \<Rightarrow> real \<Rightarrow> real" where
  "fadd a b = rnd (a + b)"

definition fsub :: "real \<Rightarrow> real \<Rightarrow> real" where
  "fsub a b = rnd (a - b)"

definition fmul :: "real \<Rightarrow> real \<Rightarrow> real" where
  "fmul a b = rnd (a * b)"

definition fdiv :: "real \<Rightarrow> real \<Rightarrow> real" where
  "fdiv a b = rnd (a / b)"

subsection \<open>Numbers that may be NaN\<close>

text \<open>
  \<^verbatim>\<open>a % b\<close> on finite numbers: the remainder has the sign of the dividend, and is
  \<^verbatim>\<open>NaN\<close> (\<open>None\<close>) for a zero divisor. The remainder of two doubles is a double, so
  nothing is rounded.
\<close>

definition trunc :: "real \<Rightarrow> int" where
  "trunc x = (if 0 \<le> x then \<lfloor>x\<rfloor> else \<lceil>x\<rceil>)"

definition jsmod :: "real \<Rightarrow> real \<Rightarrow> real option" where
  "jsmod a b = (if b = 0 then None else Some (a - b * of_int (trunc (a / b))))"

text \<open>A comparison with \<^verbatim>\<open>NaN\<close> is false; arithmetic with it gives \<^verbatim>\<open>NaN\<close>.\<close>

fun jsle :: "real \<Rightarrow> real option \<Rightarrow> bool" where
  "jsle a None = False"
| "jsle a (Some b) = (a \<le> b)"

definition jsadd :: "real option \<Rightarrow> real \<Rightarrow> real option" where
  "jsadd a b = map_option (\<lambda>x. fadd x b) a"

definition jssub :: "real option \<Rightarrow> real \<Rightarrow> real option" where
  "jssub a b = map_option (\<lambda>x. fsub x b) a"

definition jsdiv :: "real option \<Rightarrow> real \<Rightarrow> real option" where
  "jsdiv a b = map_option (\<lambda>x. fdiv x b) a"

text \<open>\<^verbatim>\<open>Math.max(0, Math.min(1, t))\<close>.\<close>

definition clamp01 :: "real option \<Rightarrow> real option" where
  "clamp01 t = map_option (\<lambda>x. max 0 (min 1 x)) t"

text \<open>\<^verbatim>\<open>t * t * (3 - 2 * t)\<close>.\<close>

definition smoothstep :: "real option \<Rightarrow> real option" where
  "smoothstep t = map_option (\<lambda>x. fmul (fmul x x) (fsub 3 (fmul 2 x))) t"

text \<open>
  \<^verbatim>\<open>((time % duration) + duration) % duration\<close>. The sum is rounded; when it is
  infinite its remainder is \<^verbatim>\<open>NaN\<close>.
\<close>

definition loopTime :: "real \<Rightarrow> real \<Rightarrow> real option" where
  "loopTime tm dur =
     (case jsmod tm dur of
        None \<Rightarrow> None
      | Some r \<Rightarrow>
          (let s = fadd r dur in if 2 ^ 1024 \<le> \<bar>s\<bar> then None else jsmod s dur))"

subsection \<open>Keyframe bracketing\<close>

record found =
  kf_k1 :: keyframe
  kf_k2 :: keyframe
  kf_t :: "real option"
  kf_smooth :: bool

text \<open>
  The loop that finds \<^verbatim>\<open>idx1\<close>: the index of the last keyframe of the leading run
  whose time is at most \<open>tm\<close>, started with index 0 and \<^verbatim>\<open>idx1 = -1\<close>.
\<close>

fun scanIdx :: "keyframe list \<Rightarrow> real option \<Rightarrow> int \<Rightarrow> int \<Rightarrow> int" where
  "scanIdx [] tm i idx1 = idx1"
| "scanIdx (k # ks) tm i idx1 =
     (if jsle (time k) tm then scanIdx ks tm (i + 1) i else idx1)"

text \<open>The part of \<^verbatim>\<open>_findKeyframes\<close> that follows the sort, on two or more keyframes.\<close>

definition bracket :: "keyframe list \<Rightarrow> real option \<Rightarrow> real \<Rightarrow> found" where
  "bracket sortedKs tm dur =
    (let idx1 = scanIdx sortedKs tm 0 (- 1) in
     if idx1 = - 1 then
       (let k1 = sortedKs ! (length sortedKs - 1);
            k2 = sortedKs ! 0;
            t1 = time k1;
            t2 = fadd (time k2) dur;
            currentTime = jsadd tm dur;
            t = (if fsub t2 t1 > 0 then jsdiv (jssub currentTime t1) (fsub t2 t1) else Some 0)
        in \<lparr>kf_k1 = k1, kf_k2 = k2, kf_t = clamp01 t, kf_smooth = (interpolationType k1 = ''smooth'')\<rparr>)
     else if idx1 = int (length sortedKs) - 1 then
       (let k1 = sortedKs ! nat idx1;
            k2 = sortedKs ! 0;
            timeSpan = fadd (fsub dur (time k1)) (time k2);
            elapsed = jssub tm (time k1);
            t = (if timeSpan > 0 then jsdiv elapsed timeSpan else Some 0)
        in \<lparr>kf_k1 = k1, kf_k2 = k2, kf_t = clamp01 t, kf_smooth = (interpolationType k1 = ''smooth'')\<rparr>)
     else
       (let k1 = sortedKs ! nat idx1;
            k2 = sortedKs ! nat (idx1 + 1);
            timeSpan = fsub (time k2) (time k1);
            t = (if timeSpan > 0 then jsdiv (jssub tm (time k1)) timeSpan else Some 0)
        in \<lparr>kf_k1 = k1, kf_k2 = k2, kf_t = clamp01 t, kf_smooth = (interpolationType k1 = ''smooth'')\<rparr>))"

text \<open>
  \<^verbatim>\<open>_findKeyframes\<close>. \<^verbatim>\<open>[...keyframes].sort((a, b) => a.time - b.time)\<close> is a stable
  sort of a copy by time. The result \<^verbatim>\<open>null\<close> is \<open>None\<close>; the single-keyframe result has
  no \<^verbatim>\<open>smooth\<close> field, which reads as false.
\<close>

definition findKeyframes :: "keyframe list option \<Rightarrow> real option \<Rightarrow> real \<Rightarrow> found option" where
  "findKeyframes keyframes tm dur =
    (case keyframes of
       None \<Rightarrow> None
     | Some ks \<Rightarrow>
         if length ks = 0 then None
         else if length ks = 1
           then Some \<lparr>kf_k1 = ks ! 0, kf_k2 = ks ! 0, kf_t = Some 0, kf_smooth = False\<rparr>
         else Some (bracket (sort_key time ks) tm dur))"

subsection \<open>Keyframe arrays as mutable objects\<close>

text \<open>
  \<^verbatim>\<open>Array.prototype.sort\<close> sorts the array it is called on in place. To say what
  \<^verbatim>\<open>_findKeyframes\<close> does to the arrays of the animation document, the arrays live in a
  store, a reference being an index into it: \<open>spread\<close> is \<^verbatim>\<open>[...keyframes]\<close>, a new
  array with the same elements, and \<open>sortInPlace\<close> is \<^verbatim>\<open>sort\<close> on a reference.
\<close>

type_synonym arrays = "keyframe list list"

definition spread :: "nat \<Rightarrow> arrays \<Rightarrow> nat \<times> arrays" where
  "spread a h = (length h, h @ [h ! a])"

definition sortInPlace :: "nat \<Rightarrow> arrays \<Rightarrow> arrays" where
  "sortInPlace a h = h[a := sort_key time (h ! a)]"

definition findKeyframesIn :: "nat \<Rightarrow> real option \<Rightarrow> real \<Rightarrow> arrays \<Rightarrow> found option \<times> arrays" where
  "findKeyframesIn keyframes tm dur h =
    (if length (h ! keyframes) = 0 then (None, h)
     else if length (h ! keyframes) = 1
       then (Some \<lparr>kf_k1 = h ! keyframes ! 0, kf_k2 = h ! keyframes ! 0, kf_t = Some 0,
               kf_smooth = False\<rparr>, h)
     else
       (let (c, h1) = spread keyframes h;
            h2 = sortInPlace c h1
        in (Some (bracket (h2 ! c) tm dur), h2)))"

subsection \<open>Interpolation\<close>

text \<open>
  The functions of three.js whose result depends on the library's version or on
  irrational arithmetic are parameters of the model: spherical and linear interpolation
  (with a fraction that may be \<^verbatim>\<open>NaN\<close>) and the rotation of a vector by a quaternion.
\<close>

record three =
  slerpQuaternions :: "quat \<Rightarrow> quat \<Rightarrow> real option \<Rightarrow> quat"
  lerpVectors :: "vec3 \<Rightarrow> vec3 \<Rightarrow> real option \<Rightarrow> vec3"
  applyQuaternion :: "vec3 \<Rightarrow> quat \<Rightarrow> vec3"

text \<open>
  \<^verbatim>\<open>Quaternion.multiply\<close>, \<^verbatim>\<open>Vector3.add\<close> and \<^verbatim>\<open>Vector3.multiplyScalar\<close>, each
  sum and product from left to right.
\<close>

definition multiply :: "quat \<Rightarrow> quat \<Rightarrow> quat" where
  "multiply a b =
     Quaternion
       (fsub (fadd (fadd (fmul (qx a) (qw b)) (fmul (qw a) (qx b))) (fmul (qy a) (qz b)))
          (fmul (qz a) (qy b)))
       (fsub (fadd (fadd (fmul (qy a) (qw b)) (fmul (qw a) (qy b))) (fmul (qz a) (qx b)))
          (fmul (qx a) (qz b)))
       (fsub (fadd (fadd (fmul (qz a) (qw b)) (fmul (qw a) (qz b))) (fmul (qx a) (qy b)))
          (fmul (qy a) (qx b)))
       (fsub (fsub (fsub (fmul (qw a) (qw b)) (fmul (qx a) (qx b))) (fmul (qy a) (qy b)))
          (fmul (qz a) (qz b)))"

definition addVec :: "vec3 \<Rightarrow> vec3 \<Rightarrow> vec3" where
  "addVec a b = Vector3 (fadd (vx a) (vx b)) (fadd (vy a) (vy b)) (fadd (vz a) (vz b))"

definition multiplyScalar :: "vec3 \<Rightarrow> real \<Rightarrow> vec3" where
  "multiplyScalar a s = Vector3 (fmul (vx a) s) (fmul (vy a) s) (fmul (vz a) s)"

text \<open>
  \<^verbatim>\<open>_interpolateQuaternion\<close> and \<^verbatim>\<open>_interpolatePosition\<close>. The factor of the
  latter is the constant \<^verbatim>\<open>SCALE\<close>, the double of the literal \<^verbatim>\<open>0.01\<close>.
\<close>

definition interpolateQuaternion ::
    "three \<Rightarrow> keyframe list option \<Rightarrow> real option \<Rightarrow> real \<Rightarrow> quat option" where
  "interpolateQuaternion ops keyframes tm dur =
    (case findKeyframes keyframes tm dur of
       None \<Rightarrow> None
     | Some kf \<Rightarrow>
         (let q1 = delta (kf_k1 kf);
              q2 = delta (kf_k2 kf);
              t' = (if kf_smooth kf then smoothstep (kf_t kf) else kf_t kf)
          in Some (slerpQuaternions ops q1 q2 t')))"

definition interpolatePosition ::
    "three \<Rightarrow> keyframe list option \<Rightarrow> real option \<Rightarrow> real \<Rightarrow> vec3 option" where
  "interpolatePosition ops keyframes tm dur =
    (case findKeyframes keyframes tm dur of
       None \<Rightarrow> None
     | Some kf \<Rightarrow>
         (let t' = (if kf_smooth kf then smoothstep (kf_t kf) else kf_t kf);
              v1 = Vector3 (qx (delta (kf_k1 kf))) (qy (delta (kf_k1 kf))) (qz (delta (kf_k1 kf)));
              v2 = Vector3 (qx (delta (kf_k2 kf))) (qy (delta (kf_k2 kf))) (qz (delta (kf_k2 kf)))
          in Some (multiplyScalar (lerpVectors ops v1 v2 t') (rnd SCALE))))"

subsection \<open>Applying a frame\<close>

definition setQuaternion :: "quat \<Rightarrow> object3d \<Rightarrow> object3d" where
  "setQuaternion q obj = Object3D (name obj) (isMesh obj) (position obj) q (children obj)"

definition setPosition :: "vec3 \<Rightarrow> object3d \<Rightarrow> object3d" where
  "setPosition p obj = Object3D (name obj) (isMesh obj) p (quaternion obj) (children obj)"

text \<open>
  The body of the loop of \<^verbatim>\<open>_applyAnimation\<close> for one entry of \<^verbatim>\<open>nodeAnimations\<close>:
  \<^verbatim>\<open>continue\<close> when no object has the name; else the rest pose is cached on first
  touch, and each track that is present and not empty sets the node's quaternion or
  position from the cached rest pose and the interpolated delta.
\<close>

definition applyNode ::
    "three \<Rightarrow> real option \<Rightarrow> real \<Rightarrow> string \<times> nodeAnimation \<Rightarrow> viewer \<Rightarrow> viewer" where
  "applyNode ops lt dur entry st =
    (let nodeName = fst entry; nodeAnim = snd entry in
     case character st of
       None \<Rightarrow> st
     | Some ch \<Rightarrow>
        (case getObjectByName ch nodeName of
           None \<Rightarrow> st
         | Some p \<Rightarrow>
            (case getAt p ch of
               None \<Rightarrow> st
             | Some node \<Rightarrow>
                (let cache =
                       (case map_of (originalTransforms st) nodeName of
                          Some tr \<Rightarrow> originalTransforms st
                        | None \<Rightarrow> originalTransforms st @
                            [(nodeName, \<lparr>t_position = position node,
                                          t_quaternion = quaternion node\<rparr>)]);
                     original =
                       (case map_of (originalTransforms st) nodeName of
                          Some tr \<Rightarrow> tr
                        | None \<Rightarrow> \<lparr>t_position = position node,
                                    t_quaternion = quaternion node\<rparr>);
                     ch1 =
                       (case orientationTrack nodeAnim of
                          None \<Rightarrow> ch
                        | Some ks \<Rightarrow>
                            if length ks > 0 then
                              (case interpolateQuaternion ops (Some ks) lt dur of
                                 None \<Rightarrow> ch
                               | Some animQuat \<Rightarrow>
                                   updateAt p
                                     (setQuaternion (multiply (t_quaternion original) animQuat)) ch)
                            else ch);
                     ch2 =
                       (case positionTrack nodeAnim of
                          None \<Rightarrow> ch1
                        | Some ks \<Rightarrow>
                            if length ks > 0 then
                              (case interpolatePosition ops (Some ks) lt dur of
                                 None \<Rightarrow> ch1
                               | Some animPos \<Rightarrow>
                                   updateAt p
                                     (setPosition (addVec (t_position original) animPos)) ch1)
                            else ch1)
                 in st\<lparr>character := Some ch2, originalTransforms := cache\<rparr>))))"

text \<open>\<^verbatim>\<open>_applyAnimation\<close>: nothing without an animation, its entries or a character.\<close>

definition applyAnimation :: "three \<Rightarrow> animation option \<Rightarrow> real \<Rightarrow> viewer \<Rightarrow> viewer" where
  "applyAnimation ops anim tm st =
    (case anim of
       None \<Rightarrow> st
     | Some a \<Rightarrow>
        (case nodeAnimations a of
           None \<Rightarrow> st
         | Some entries \<Rightarrow>
            if character st = None then st
            else foldl (\<lambda>s e. applyNode ops (loopTime tm (duration a)) (duration a) e s)
                   st entries))"

text \<open>
  The animation part of one \<^verbatim>\<open>_animate\<close> frame at clock reading \<open>now\<close> (milliseconds):
  the time advances by the elapsed seconds, at most 0.1, times \<open>FPS\<close>; with
  \<open>holdLastKeyframe\<close> it stops at the duration. The literal \<^verbatim>\<open>0.1\<close> is the double
  \<open>rnd (1 / 10)\<close>. Auto-rotation of the root and the draw call are not part of the
  model.
\<close>

definition frameTime :: "animation \<Rightarrow> real \<Rightarrow> real" where
  "frameTime a tm = (if holdLastKeyframe a then min tm (duration a) else tm)"

definition animate :: "three \<Rightarrow> real \<Rightarrow> viewer \<Rightarrow> viewer" where
  "animate ops now st =
    (let deltaTime = fdiv (fsub now (lastFrameTime st)) 1000;
         st1 = st\<lparr>lastFrameTime := now\<rparr>
     in case currentAnimation st1 of
          None \<Rightarrow> st1
        | Some a \<Rightarrow>
            if animationEnabled st1 then
              (let clampedDelta = min deltaTime (rnd (1 / 10));
                   st2 = st1\<lparr>animationTime :=
                            frameTime a (fadd (animationTime st1) (fmul clampedDelta FPS))\<rparr>
               in applyAnimation ops (Some a) (animationTime st2) st2)
            else st1)"

text \<open>
  \<open>sample\<close> is the pose that a frame applies when the accumulated time is \<open>tm\<close>: the
  clamp of \<^verbatim>\<open>_animate\<close> followed by \<^verbatim>\<open>_applyAnimation\<close>.
\<close>

definition sample :: "three \<Rightarrow> animation \<Rightarrow> real \<Rightarrow> viewer \<Rightarrow> viewer" where
  "sample ops a tm st = applyAnimation ops (Some a) (frameTime a tm) st"

section \<open>Texture synthesizer\<close>

subsection \<open>Loading through the cache\<close>

text \<open>\<^verbatim>\<open>s.startsWith(p)\<close> and \<^verbatim>\<open>s.replace(p, r)\<close> (the first occurrence only).\<close>

definition startsWith :: "string \<Rightarrow> string \<Rightarrow> bool" where
  "startsWith s p = (take (length p) s = p)"

fun replaceFirst :: "string \<Rightarrow> string \<Rightarrow> string \<Rightarrow> string" where
  "replaceFirst p r [] = (if p = [] then r else [])"
| "replaceFirst p r (c # cs) =
     (if startsWith (c # cs) p then r @ drop (length p) (c # cs)
      else c # replaceFirst p r cs)"

text \<open>\<^verbatim>\<open>[...new Set(xs)]\<close>: the first occurrence of each element, in order.\<close>

fun uniq :: "'a list \<Rightarrow> 'a list" where
  "uniq [] = []"
| "uniq (x # xs) = x # uniq (filter (\<lambda>y. y \<noteq> x) xs)"

text \<open>
  The loop of \<^verbatim>\<open>_loadTexture\<close> over the candidate URLs: the first that loads.
  \<open>ld\<close> is the texture loader, \<open>None\<close> when the load of a URL fails.
\<close>

fun firstLoaded :: "(string \<Rightarrow> image option) \<Rightarrow> string list \<Rightarrow> image option" where
  "firstLoaded ld [] = None"
| "firstLoaded ld (tryPath # ps) =
     (case ld tryPath of Some tex \<Rightarrow> Some tex | None \<Rightarrow> firstLoaded ld ps)"

definition pathsToTry :: "string \<Rightarrow> string list" where
  "pathsToTry path =
     [if startsWith path ''Common/'' then ''/asset/'' @ path else ''/asset/Common/'' @ path,
      ''/asset/'' @ path,
      ''/asset/'' @ replaceFirst ''Common/'' [] path,
      ''/asset/Common/'' @ replaceFirst ''Common/'' [] path]"

text \<open>
  \<^verbatim>\<open>_loadTexture\<close>: a cached texture is returned as it is; else the first candidate
  that loads is stored under \<open>path\<close> and returned. The result is paired with the cache
  after the call.
\<close>

definition loadTexture ::
    "(string \<Rightarrow> image option) \<Rightarrow> string \<Rightarrow> (string \<rightharpoonup> image)
      \<Rightarrow> image option \<times> (string \<rightharpoonup> image)" where
  "loadTexture ld path cache =
    (case cache path of
       Some tex \<Rightarrow> (Some tex, cache)
     | None \<Rightarrow>
        (case firstLoaded ld (uniq (pathsToTry path)) of
           Some tex \<Rightarrow> (Some tex, cache(path \<mapsto> tex))
         | None \<Rightarrow> (None, cache)))"

text \<open>
  \<^verbatim>\<open>_loadGradientData\<close>: no data without a path (absent or empty); else the pixels of
  the texture loaded through the cache. \<^verbatim>\<open>getImageData\<close> throws on an empty rectangle,
  which the function catches and turns into \<^verbatim>\<open>null\<close>.
\<close>

definition loadGradientData ::
    "(string \<Rightarrow> image option) \<Rightarrow> string option \<Rightarrow> (string \<rightharpoonup> image)
      \<Rightarrow> image option \<times> (string \<rightharpoonup> image)" where
  "loadGradientData ld gradientTexturePath cache =
    (case gradientTexturePath of
       None \<Rightarrow> (None, cache)
     | Some gp \<Rightarrow>
        if gp = [] then (None, cache)
        else
          (case loadTexture ld gp cache of
             (Some gtex, cache') \<Rightarrow>
               if img_width gtex = 0 \<or> img_height gtex = 0 then (None, cache')
               else (Some gtex, cache')
           | (None, cache') \<Rightarrow> (None, cache')))"

subsection \<open>Colours\<close>

text \<open>
  A parsed colour; a channel is \<open>None\<close> when \<^verbatim>\<open>parseInt\<close> gave \<^verbatim>\<open>NaN\<close>.
\<close>

record rgb =
  c_r :: "int option"
  c_g :: "int option"
  c_b :: "int option"

text \<open>
  \<^verbatim>\<open>parseInt(s, 16)\<close>: leading white space, a sign and a prefix \<^verbatim>\<open>0x\<close> are
  skipped, then the longest run of hexadecimal digits is read; \<^verbatim>\<open>NaN\<close> when that run
  is empty. A string is a list of code units below 256, and \<open>isSpace\<close> holds of the
  white space and line terminators of JavaScript among them: tab, line feed, vertical
  tab, form feed, carriage return, space and the no-break space U+00A0.
\<close>

definition isSpace :: "char \<Rightarrow> bool" where
  "isSpace c =
     (c \<in> {CHR '' '', CHR 0x09, CHR 0x0A, CHR 0x0B, CHR 0x0C, CHR 0x0D, CHR 0xA0})"

definition hexDigit :: "char \<Rightarrow> int option" where
  "hexDigit c =
     (let n = of_char c :: nat in
      if 48 \<le> n \<and> n \<le> 57 then Some (int n - 48)
      else if 97 \<le> n \<and> n \<le> 102 then Some (int n - 87)
      else if 65 \<le> n \<and> n \<le> 70 then Some (int n - 55)
      else None)"

fun hexValue :: "int option \<Rightarrow> string \<Rightarrow> int option" where
  "hexValue acc [] = acc"
| "hexValue acc (c # cs) =
     (case hexDigit c of
        None \<Rightarrow> acc
      | Some d \<Rightarrow> hexValue (Some ((case acc of None \<Rightarrow> 0 | Some a \<Rightarrow> a) * 16 + d)) cs)"

definition parseInt16 :: "string \<Rightarrow> int option" where
  "parseInt16 s =
    (let s1 = dropWhile isSpace s;
         sign = (if startsWith s1 ''-'' then - 1 else 1 :: int);
         s2 = (if startsWith s1 ''-'' \<or> startsWith s1 ''+'' then drop 1 s1 else s1);
         s3 = (if startsWith s2 ''0x'' \<or> startsWith s2 ''0X'' then drop 2 s2 else s2)
     in map_option (\<lambda>v. sign * v) (hexValue None s3))"

text \<open>\<^verbatim>\<open>s.substr(start, len)\<close> for a start within the non-negative range.\<close>

definition substr :: "string \<Rightarrow> nat \<Rightarrow> nat \<Rightarrow> string" where
  "substr s start len = take len (drop start s)"

text \<open>
  \<^verbatim>\<open>_parseColor\<close>. A number is an integer here, and \<^verbatim>\<open>(c >> 16) & 255\<close> of the
  32-bit integer that JavaScript makes of it is \<open>(c div 65536) mod 256\<close>. Every path
  returns an object: the result is never \<^verbatim>\<open>null\<close>.
\<close>

fun parseColor :: "jsval \<Rightarrow> rgb option" where
  "parseColor (JNum c) =
     Some \<lparr>c_r = Some ((c div 65536) mod 256), c_g = Some ((c div 256) mod 256),
           c_b = Some (c mod 256)\<rparr>"
| "parseColor (JStr s) =
     (if startsWith s ''#''
      then (let hex = drop 1 s in
            Some \<lparr>c_r = parseInt16 (substr hex 0 2), c_g = parseInt16 (substr hex 2 2),
                  c_b = parseInt16 (substr hex 4 2)\<rparr>)
      else Some \<lparr>c_r = Some 200, c_g = Some 200, c_b = Some 200\<rparr>)"
| "parseColor (JArr []) = Some \<lparr>c_r = Some 200, c_g = Some 200, c_b = Some 200\<rparr>"
| "parseColor (JArr (c0 # cs)) = parseColor c0"
| "parseColor JOther = Some \<lparr>c_r = Some 200, c_g = Some 200, c_b = Some 200\<rparr>"

subsection \<open>Tinting\<close>

text \<open>
  \<^verbatim>\<open>Math.round\<close> rounds to the nearest integer, a half upwards. A store into the
  \<^verbatim>\<open>Uint8ClampedArray\<close> of the image clamps an integer to 0..255 and turns \<^verbatim>\<open>NaN\<close>
  and \<^verbatim>\<open>undefined\<close> into 0.
\<close>

definition jsround :: "real \<Rightarrow> int" where
  "jsround v = \<lfloor>v + 1 / 2\<rfloor>"

definition toUint8Clamped :: "int \<Rightarrow> nat" where
  "toUint8Clamped i = nat (max 0 (min 255 i))"

text \<open>
  \<^verbatim>\<open>Math.round(Math.min(255, color.r * t * 2))\<close> with \<^verbatim>\<open>t = grey / 255\<close>, as stored.
\<close>

definition tintChannel :: "int option \<Rightarrow> nat \<Rightarrow> nat" where
  "tintChannel ch grey =
     (case ch of
        None \<Rightarrow> 0
      | Some c \<Rightarrow> toUint8Clamped (jsround (min 255 (of_int c * (real grey / 255) * 2))))"

text \<open>\<^verbatim>\<open>gradientData.data[i]\<close>, as stored: 0 when the index is out of range.\<close>

definition gradientByte :: "image \<Rightarrow> int \<Rightarrow> nat" where
  "gradientByte gd i =
     (if 0 \<le> i \<and> i < int (length (img_data gd)) then img_data gd ! nat i else 0)"

text \<open>The body of the pixel loop of \<^verbatim>\<open>_createTintedTexture\<close>, on the four bytes of a pixel.\<close>

definition tintPixel ::
    "image option \<Rightarrow> rgb option \<Rightarrow> nat \<Rightarrow> nat \<Rightarrow> nat \<Rightarrow> nat \<Rightarrow> nat list" where
  "tintPixel gradientData color origR origG origB alpha =
    (if alpha > 0 then
       (let isGreyscale = (origR = origG \<and> origG = origB) in
        if isGreyscale then
          (let grey = origR in
           case gradientData of
             Some gd \<Rightarrow>
               (let gradX = min (int grey) (int (img_width gd) - 1);
                    gradIdx = gradX * 4
                in [gradientByte gd gradIdx, gradientByte gd (gradIdx + 1),
                    gradientByte gd (gradIdx + 2), alpha])
           | None \<Rightarrow>
               (case color of
                  Some c \<Rightarrow>
                    [tintChannel (c_r c) grey, tintChannel (c_g c) grey,
                     tintChannel (c_b c) grey, alpha]
                | None \<Rightarrow> [grey, grey, grey, alpha]))
        else [origR, origG, origB, alpha])
     else [origR, origG, origB, alpha])"

text \<open>The loop \<^verbatim>\<open>for (i = 0; i < data.length; i += 4)\<close>.\<close>

fun tintData :: "image option \<Rightarrow> rgb option \<Rightarrow> nat list \<Rightarrow> nat list" where
  "tintData gradientData color (origR # origG # origB # alpha # rest) =
     tintPixel gradientData color origR origG origB alpha @ tintData gradientData color rest"
| "tintData gradientData color rest = rest"

text \<open>The four bytes of pixel \<open>i\<close> of image data.\<close>

definition pixelAt :: "nat list \<Rightarrow> nat \<Rightarrow> nat list" where
  "pixelAt d i = take 4 (drop (4 * i) d)"

datatype error = IndexSizeError | TypeError | LoadError

text \<open>
  \<^verbatim>\<open>_createTintedTexture\<close>: \<^verbatim>\<open>null\<close> when the greyscale texture does not load; an
  uncaught \<^verbatim>\<open>IndexSizeError\<close> of \<^verbatim>\<open>getImageData\<close> for an image without pixels; else a
  new canvas texture with the tinted pixels. The texture cache is only touched by the
  two loads.
\<close>

definition createTintedTexture ::
    "(string \<Rightarrow> image option) \<Rightarrow> string \<Rightarrow> jsval \<Rightarrow> string option \<Rightarrow> (string \<rightharpoonup> image)
      \<Rightarrow> (error + image option) \<times> (string \<rightharpoonup> image)" where
  "createTintedTexture ld greyscalePath baseColor gradientTexturePath cache =
    (case loadTexture ld greyscalePath cache of
       (None, cache1) \<Rightarrow> (Inr None, cache1)
     | (Some tex, cache1) \<Rightarrow>
         if img_width tex = 0 \<or> img_height tex = 0 then (Inl IndexSizeError, cache1)
         else
           (case loadGradientData ld gradientTexturePath cache1 of
              (gradientData, cache2) \<Rightarrow>
                (let color = parseColor baseColor
                 in (Inr (Some \<lparr>img_width = img_width tex, img_height = img_height tex,
                           img_data = tintData gradientData color (img_data tex)\<rparr>),
                     cache2))))"

section \<open>UV layout resolver\<close>

text \<open>
  The layout of one face in the texture atlas. \<open>l_offset\<close> is \<open>None\<close> when the layout
  has no \<^verbatim>\<open>offset\<close>; the code reads the angle as \<^verbatim>\<open>layout.angle || 0\<close> and a mirror
  flag as \<^verbatim>\<open>layout.mirror?.x ? -1 : 1\<close>.
\<close>

record layout =
  l_offset :: "(real \<times> real) option"
  l_angle :: "real option"
  l_mirror :: "(bool \<times> bool) option"

definition layoutAngle :: "layout \<Rightarrow> real" where
  "layoutAngle l = (case l_angle l of None \<Rightarrow> 0 | Some a \<Rightarrow> a)"

definition layoutMirror :: "layout \<Rightarrow> real \<times> real" where
  "layoutMirror l =
     (case l_mirror l of
        None \<Rightarrow> (1, 1)
      | Some (mx, my) \<Rightarrow> (if mx then - 1 else 1, if my then - 1 else 1))"

text \<open>
  The \<^verbatim>\<open>switch (angle)\<close>, the same in \<^verbatim>\<open>_createBoxMesh\<close> and
  \<^verbatim>\<open>_createQuadMesh\<close>: the rectangle \<^verbatim>\<open>result\<close> in pixels.
\<close>

definition uvResult ::
    "real \<Rightarrow> real \<times> real \<Rightarrow> real \<times> real \<Rightarrow> real \<times> real \<Rightarrow> real \<times> real \<times> real \<times> real" where
  "uvResult angle uv_size uv_mirror uv_offset =
    (let o0 = fst uv_offset; o1 = snd uv_offset in
     if angle = 90 then
       (let s0 = snd uv_size; s1 = fst uv_size;
            m0 = - snd uv_mirror; m1 = fst uv_mirror
        in (o0, o1 + s1 * m1, o0 + s0 * m0, o1))
     else if angle = 180 then
       (let s0 = fst uv_size; s1 = snd uv_size;
            m0 = - fst uv_mirror; m1 = - snd uv_mirror
        in (o0 + s0 * m0, o1 + s1 * m1, o0, o1))
     else if angle = 270 then
       (let s0 = snd uv_size; s1 = fst uv_size;
            m0 = snd uv_mirror; m1 = - fst uv_mirror
        in (o0 + s0 * m0, o1, o0, o1 + s1 * m1))
     else
       (let s0 = fst uv_size; s1 = snd uv_size;
            m0 = fst uv_mirror; m1 = snd uv_mirror
        in (o0, o1, o0 + s0 * m0, o1 + s1 * m1)))"

text \<open>
  The normalized corners with the vertical flip, and the eight numbers written for the
  four vertices of the face, in the order of the vertex slots (which the code names
  bottom-left, bottom-right, top-left, top-right).
\<close>

definition uvVertices :: "real \<Rightarrow> real \<times> real \<times> real \<times> real \<Rightarrow> real \<Rightarrow> real \<Rightarrow> real list" where
  "uvVertices angle result texW texH =
    (case result of (r0, r1, r2, r3) \<Rightarrow>
      (let u1 = r0 / texW; v1 = 1 - r1 / texH; u2 = r2 / texW; v2 = 1 - r3 / texH in
       if angle = 90 then [u1, v2, u1, v1, u2, v2, u2, v1]
       else if angle = 180 then [u2, v2, u1, v2, u2, v1, u1, v1]
       else if angle = 270 then [u2, v1, u2, v2, u1, v1, u1, v2]
       else [u1, v1, u2, v1, u1, v2, u2, v2]))"

text \<open>
  A shape of a model node. \<open>s_settings\<close> is \<open>None\<close> without \<^verbatim>\<open>settings\<close>, and its size
  is \<open>None\<close> without \<^verbatim>\<open>settings.size\<close>. The texture layout lists its faces by name.
  Stretch and \<^verbatim>\<open>doubleSided\<close> only reach the geometry's size and the material, which the
  model leaves out.
\<close>

datatype optvec = OptVec (ov_x: "real option") (ov_y: "real option") (ov_z: "real option")

datatype optquat =
  OptQuat (oq_x: "real option") (oq_y: "real option") (oq_z: "real option")
    (oq_w: "real option")

record settings =
  set_size :: "vec3 option"
  set_normal :: "string option"

record shape =
  s_type :: string
  s_visible :: "bool option"
  s_offset :: "optvec option"
  s_settings :: "settings option"
  s_textureLayout :: "(string \<times> layout) list option"

definition shapeSize :: "shape \<Rightarrow> vec3 option" where
  "shapeSize shp = (case s_settings shp of None \<Rightarrow> None | Some st \<Rightarrow> set_size st)"

text \<open>
  The texture coordinates that \<^verbatim>\<open>_createBoxMesh\<close> writes for the face \<open>faceName\<close>;
  \<open>None\<close> when it writes none for that face (or returns \<^verbatim>\<open>null\<close>).
\<close>

definition boxFaceUV :: "image option \<Rightarrow> shape \<Rightarrow> string \<Rightarrow> real list option" where
  "boxFaceUV tex shp faceName =
    (case shapeSize shp of
       None \<Rightarrow> None
     | Some sz \<Rightarrow>
        (let pixelW = vx sz; pixelH = vy sz; pixelD = vz sz in
         case (tex, s_textureLayout shp) of
           (Some img, Some tlay) \<Rightarrow>
             if tlay \<noteq> [] \<and> img_width img \<noteq> 0 \<and> img_height img \<noteq> 0 then
               (case map_of tlay faceName of
                  None \<Rightarrow> None
                | Some l \<Rightarrow>
                   (case l_offset l of
                      None \<Rightarrow> None
                    | Some uv_offset \<Rightarrow>
                       (let angle = layoutAngle l;
                            uv_size =
                              (if faceName = ''left'' \<or> faceName = ''right'' then (pixelD, pixelH)
                               else if faceName = ''top'' \<or> faceName = ''bottom''
                                 then (pixelW, pixelD)
                               else (pixelW, pixelH))
                        in Some (uvVertices angle
                             (uvResult angle uv_size (layoutMirror l) uv_offset)
                             (real (img_width img)) (real (img_height img))))))
             else None
         | _ \<Rightarrow> None))"

definition faceMap :: "string list" where
  "faceMap = [''right'', ''left'', ''top'', ''bottom'', ''front'', ''back'']"

text \<open>
  The texture coordinates that \<^verbatim>\<open>_createQuadMesh\<close> sets from the layout \<^verbatim>\<open>front\<close>;
  \<open>None\<close> when it sets none.
\<close>

definition quadUV :: "image option \<Rightarrow> shape \<Rightarrow> real list option" where
  "quadUV tex shp =
    (case shapeSize shp of
       None \<Rightarrow> None
     | Some sz \<Rightarrow>
        (let pixelW = vx sz; pixelH = vy sz in
         case (tex, s_textureLayout shp) of
           (Some img, Some tlay) \<Rightarrow>
             (case map_of tlay ''front'' of
                None \<Rightarrow> None
              | Some l \<Rightarrow>
                 if img_width img \<noteq> 0 \<and> img_height img \<noteq> 0 then
                   (case l_offset l of
                      None \<Rightarrow> None
                    | Some uv_offset \<Rightarrow>
                       (let angle = layoutAngle l;
                            uv_size = (pixelW, pixelH)
                        in Some (uvVertices angle
                             (uvResult angle uv_size (layoutMirror l) uv_offset)
                             (real (img_width img)) (real (img_height img)))))
                 else None)
         | _ \<Rightarrow> None))"

section \<open>Model assembler\<close>

subsection \<open>Model documents\<close>

text \<open>
  A node of a model document. A field that the node does not have is \<open>None\<close>; a node
  without \<^verbatim>\<open>children\<close> has the empty list.
\<close>

datatype modelNode =
  ModelNode (node_name: "string option") (node_id: "string option")
    (node_position: "optvec option") (node_orientation: "optquat option")
    (node_shape: "shape option") (node_children: "modelNode list")

text \<open>\<^verbatim>\<open>node.name || node.id || ''\<close>.\<close>

definition nodeNameOf :: "modelNode \<Rightarrow> string" where
  "nodeNameOf node =
     (case node_name node of
        Some n \<Rightarrow> if n \<noteq> [] then n else (case node_id node of Some i \<Rightarrow> i | None \<Rightarrow> [])
      | None \<Rightarrow> (case node_id node of Some i \<Rightarrow> i | None \<Rightarrow> []))"

text \<open>\<^verbatim>\<open>v || 0\<close> and \<^verbatim>\<open>v ?? 0\<close> on a number that may be absent.\<close>

definition orZero :: "real option \<Rightarrow> real" where
  "orZero v = (case v of None \<Rightarrow> 0 | Some r \<Rightarrow> r)"

text \<open>The arguments of \<^verbatim>\<open>quaternion.set\<close>: \<^verbatim>\<open>x ?? 0, y ?? 0, z ?? 0, w ?? 1\<close>.\<close>

definition orientationOf :: "optquat \<Rightarrow> quat" where
  "orientationOf orientation =
     Quaternion (orZero (oq_x orientation)) (orZero (oq_y orientation))
       (orZero (oq_z orientation)) (case oq_w orientation of None \<Rightarrow> 1 | Some r \<Rightarrow> r)"

definition newGroup :: "string \<Rightarrow> object3d" where
  "newGroup nm = Object3D nm False zeroVec identityQuat []"

text \<open>A mesh, as an object of the graph: it has no name and no children.\<close>

definition newMesh :: object3d where
  "newMesh = Object3D [] True zeroVec identityQuat []"

text \<open>
  \<^verbatim>\<open>_applyTransform\<close>: the node's orientation, and its position scaled to world units
  plus the shape's offset, scaled and turned by the group's quaternion.
\<close>

definition applyTransform :: "three \<Rightarrow> object3d \<Rightarrow> modelNode \<Rightarrow> object3d" where
  "applyTransform ops grp node =
    (let q = (case node_orientation node of
                Some orientation \<Rightarrow> orientationOf orientation
              | None \<Rightarrow> quaternion grp);
         posX = (case node_position node of None \<Rightarrow> 0 | Some np \<Rightarrow> orZero (ov_x np)) * SCALE;
         posY = (case node_position node of None \<Rightarrow> 0 | Some np \<Rightarrow> orZero (ov_y np)) * SCALE;
         posZ = (case node_position node of None \<Rightarrow> 0 | Some np \<Rightarrow> orZero (ov_z np)) * SCALE;
         shapeOffset = (case node_shape node of None \<Rightarrow> None | Some shp \<Rightarrow> s_offset shp);
         pos =
           (case shapeOffset of
              None \<Rightarrow> Vector3 posX posY posZ
            | Some off \<Rightarrow>
               (let offset = applyQuaternion ops
                      (Vector3 (orZero (ov_x off) * SCALE) (orZero (ov_y off) * SCALE)
                         (orZero (ov_z off) * SCALE)) q
                in Vector3 (posX + vx offset) (posY + vy offset) (posZ + vz offset)))
     in Object3D (name grp) (isMesh grp) pos q (children grp))"

text \<open>The number of children of the object at a path.\<close>

definition childCount :: "path \<Rightarrow> object3d \<Rightarrow> nat" where
  "childCount p scene = (case getAt p scene of None \<Rightarrow> 0 | Some obj \<Rightarrow> length (children obj))"

subsection \<open>The base skeleton\<close>

text \<open>
  Whether \<^verbatim>\<open>_renderPlayerNode\<close> gives the group of a node that is not hidden a mesh:
  a visible box or a quad, and \<^verbatim>\<open>_createBoxMesh\<close> or \<^verbatim>\<open>_createQuadMesh\<close> returns
  \<^verbatim>\<open>null\<close> for a shape without \<^verbatim>\<open>settings.size\<close>.
\<close>

definition playerMesh :: "shape option \<Rightarrow> bool" where
  "playerMesh shp =
     (case shp of
        None \<Rightarrow> False
      | Some sh \<Rightarrow>
          if s_visible sh \<noteq> Some False \<and> s_type sh = ''box'' then shapeSize sh \<noteq> None
          else if s_type sh = ''quad'' then shapeSize sh \<noteq> None
          else False)"

text \<open>
  \<^verbatim>\<open>_renderPlayerNode\<close>. The scene is the character, \<open>parent\<close> the path of the parent
  object in it. A hidden node gets a group without mesh; its children are rendered
  under the group in both cases.
\<close>

fun renderPlayerNode :: "three \<Rightarrow> string set \<Rightarrow> modelNode \<Rightarrow> path \<Rightarrow> object3d \<Rightarrow> object3d"
  and renderPlayerChildren ::
    "three \<Rightarrow> string set \<Rightarrow> modelNode list \<Rightarrow> path \<Rightarrow> object3d \<Rightarrow> object3d" where
  "renderPlayerNode ops hidden (ModelNode nm idn pos ori shp chs) parent scene =
    (let node = ModelNode nm idn pos ori shp chs;
         nodeName = nodeNameOf node;
         group0 = applyTransform ops (newGroup nodeName) node;
         grp = (if nodeName \<in> hidden then group0
                  else if playerMesh shp then add newMesh group0
                  else group0);
         groupPath = parent @ [childCount parent scene];
         scene1 = addAt parent grp scene
     in renderPlayerChildren ops hidden chs groupPath scene1)"
| "renderPlayerChildren ops hidden [] grp scene = scene"
| "renderPlayerChildren ops hidden (child # rest) grp scene =
     renderPlayerChildren ops hidden rest grp
       (renderPlayerNode ops hidden child grp scene)"

text \<open>\<^verbatim>\<open>_renderPlayerModel\<close>: nothing without nodes, else each node under \<open>parent\<close>.\<close>

definition renderPlayerModel ::
    "three \<Rightarrow> string set \<Rightarrow> modelNode list option \<Rightarrow> path \<Rightarrow> object3d \<Rightarrow> object3d" where
  "renderPlayerModel ops hidden nodes parent scene =
     (case nodes of None \<Rightarrow> scene | Some ns \<Rightarrow> renderPlayerChildren ops hidden ns parent scene)"

subsection \<open>Cosmetics\<close>

text \<open>\<^verbatim>\<open>s.includes(sub)\<close>.\<close>

fun includesStr :: "string \<Rightarrow> string \<Rightarrow> bool" where
  "includesStr [] sub = (sub = [])"
| "includesStr (c # cs) sub = (startsWith (c # cs) sub \<or> includesStr cs sub)"

text \<open>
  The mesh of a cosmetic node: whether the group gets one, or the \<^verbatim>\<open>TypeError\<close> of
  \<^verbatim>\<open>mesh.renderOrder = 100\<close> on a \<^verbatim>\<open>null\<close> mesh, which only the eye background with
  a shadow texture sets without a check. \<open>shadowTexture\<close> says whether there is a
  shadow texture.
\<close>

definition cosmeticMesh :: "string \<Rightarrow> bool \<Rightarrow> string \<Rightarrow> shape option \<Rightarrow> error + bool" where
  "cosmeticMesh partType shadowTexture nodeName shp =
     (case shp of
        None \<Rightarrow> Inr False
      | Some sh \<Rightarrow>
          if s_visible sh \<noteq> Some False \<and> s_type sh \<noteq> ''none'' then
            (if s_type sh = ''box'' then Inr (shapeSize sh \<noteq> None)
             else if s_type sh = ''quad'' then
               (if partType = ''eyes'' \<and> includesStr nodeName ''Background'' \<and> shadowTexture
                then (if shapeSize sh \<noteq> None then Inr True else Inl TypeError)
                else Inr (shapeSize sh \<noteq> None))
             else Inr False)
          else Inr False)"

text \<open>
  The group that \<^verbatim>\<open>_renderCosmeticNode\<close> makes for a node, before the mesh: attached
  to a bone it takes the node's orientation only, else the whole transform of the node;
  a \<open>zOffset\<close> other than 0 is added to its z.
\<close>

definition cosmeticGroup :: "three \<Rightarrow> modelNode \<Rightarrow> bool \<Rightarrow> real \<Rightarrow> object3d" where
  "cosmeticGroup ops node attachedToPlayerBone zOffset =
    (let group0 = newGroup (nodeNameOf node @ ''_cosmetic'');
         group1 =
           (if attachedToPlayerBone then
              (case node_orientation node of
                 Some orientation \<Rightarrow> setQuaternion (orientationOf orientation) group0
               | None \<Rightarrow> group0)
            else applyTransform ops group0 node)
     in if zOffset \<noteq> 0
        then setPosition
               (Vector3 (vx (position group1)) (vy (position group1))
                  (vz (position group1) + zOffset)) group1
        else group1)"

text \<open>
  \<^verbatim>\<open>_renderCosmeticNode\<close>. The scene is the character, in which the bones are looked
  up; \<open>parent\<close> is the path of the parent object. The result is \<open>Inl\<close> with the scene
  as it is when the \<^verbatim>\<open>TypeError\<close> is thrown, \<open>Inr\<close> with the scene after the node and
  its children. A child that matches a bone is rendered under that bone with the
  \<open>zOffset\<close> of this call, any other child under this node's group with 0.
\<close>

fun renderCosmeticNode ::
    "three \<Rightarrow> string \<Rightarrow> bool \<Rightarrow> modelNode \<Rightarrow> path \<Rightarrow> real \<Rightarrow> object3d
      \<Rightarrow> (error \<times> object3d) + object3d"
  and renderCosmeticChildren ::
    "three \<Rightarrow> string \<Rightarrow> bool \<Rightarrow> modelNode list \<Rightarrow> path \<Rightarrow> real \<Rightarrow> object3d
      \<Rightarrow> (error \<times> object3d) + object3d" where
  "renderCosmeticNode ops partType shadowTexture (ModelNode nm idn pos ori shp chs)
      parent zOffset scene =
    (let node = ModelNode nm idn pos ori shp chs;
         nodeName = nodeNameOf node;
         matchingBone = (if nodeName \<noteq> [] then findBoneByName scene nodeName else None);
         targetParent = (case matchingBone of Some bone \<Rightarrow> bone | None \<Rightarrow> parent);
         attachedToPlayerBone = (matchingBone \<noteq> None);
         group0 = cosmeticGroup ops node attachedToPlayerBone zOffset
     in case cosmeticMesh partType shadowTexture nodeName shp of
          Inl e \<Rightarrow> Inl (e, scene)
        | Inr hasMesh \<Rightarrow>
           (let grp = (if hasMesh then add newMesh group0 else group0);
                groupPath = targetParent @ [childCount targetParent scene];
                scene1 = addAt targetParent grp scene
            in renderCosmeticChildren ops partType shadowTexture chs groupPath zOffset
                 scene1))"
| "renderCosmeticChildren ops partType shadowTexture [] grp zOffset scene = Inr scene"
| "renderCosmeticChildren ops partType shadowTexture (child # rest) grp zOffset scene =
    (case (case findBoneByName scene (nodeNameOf child) of
             Some childBone \<Rightarrow>
               renderCosmeticNode ops partType shadowTexture child childBone zOffset scene
           | None \<Rightarrow>
               renderCosmeticNode ops partType shadowTexture child grp 0 scene) of
       Inl e \<Rightarrow> Inl e
     | Inr scene' \<Rightarrow>
         renderCosmeticChildren ops partType shadowTexture rest grp zOffset scene')"

text \<open>The loop of \<^verbatim>\<open>_renderCosmeticModel\<close>: every node with the same parent and offset.\<close>

fun renderCosmeticNodes ::
    "three \<Rightarrow> string \<Rightarrow> bool \<Rightarrow> modelNode list \<Rightarrow> path \<Rightarrow> real \<Rightarrow> object3d
      \<Rightarrow> (error \<times> object3d) + object3d" where
  "renderCosmeticNodes ops partType shadowTexture [] parent zOffset scene = Inr scene"
| "renderCosmeticNodes ops partType shadowTexture (node # rest) parent zOffset scene =
    (case renderCosmeticNode ops partType shadowTexture node parent zOffset scene of
       Inl e \<Rightarrow> Inl e
     | Inr scene' \<Rightarrow>
         renderCosmeticNodes ops partType shadowTexture rest parent zOffset scene')"

definition renderCosmeticModel ::
    "three \<Rightarrow> modelNode list option \<Rightarrow> path \<Rightarrow> string \<Rightarrow> real \<Rightarrow> bool \<Rightarrow> object3d
      \<Rightarrow> (error \<times> object3d) + object3d" where
  "renderCosmeticModel ops nodes parent partType zOffset shadowTexture scene =
     (case nodes of
        None \<Rightarrow> Inr scene
      | Some ns \<Rightarrow> renderCosmeticNodes ops partType shadowTexture ns parent zOffset scene)"

text \<open>The slots in render order, each with its z-offset.\<close>

definition cosmeticOrder :: "(string \<times> real) list" where
  "cosmeticOrder =
     [(''underwear'', 0), (''pants'', 0.001), (''overpants'', 0.002), (''shoes'', 0.001),
      (''undertop'', 0.001), (''overtop'', 0.002), (''gloves'', 0.001), (''face'', 0.01),
      (''mouth'', 0.015), (''eyes'', 0.02), (''eyebrows'', 0.025), (''ears'', 0),
      (''haircut'', 0.005), (''facialHair'', 0.004), (''headAccessory'', 0.006),
      (''faceAccessory'', 0.005), (''earAccessory'', 0.001), (''cape'', - 0.001)]"

subsection \<open>Skin tones and default colours\<close>

definition tones :: "(string \<times> nat) list" where
  "tones =
     [(''01'', 0xf4c39a), (''02'', 0xf5c490), (''03'', 0xe0ae72), (''04'', 0xba7f5b),
      (''05'', 0x945d44), (''06'', 0x6f3b2c), (''07'', 0x4f2a24), (''08'', 0xdcc7a8),
      (''09'', 0xf5bc83), (''10'', 0xd98c5b), (''11'', 0xab7a4c), (''12'', 0x7d432b),
      (''13'', 0x513425), (''14'', 0x31221f), (''15'', 0xd5a082), (''16'', 0x63492f),
      (''17'', 0x5e3a2f), (''18'', 0x4d272b), (''19'', 0x8aacfb), (''20'', 0xa78af1),
      (''21'', 0xfc8572), (''22'', 0x9bc55d), (''25'', 0x4354e6), (''26'', 0x6c2abd),
      (''27'', 0x765e48), (''28'', 0xf3f3f3), (''29'', 0x998d71), (''30'', 0x50843a),
      (''31'', 0xb22a2a), (''32'', 0x3276c3), (''33'', 0x092029), (''35'', 0x5eae37),
      (''36'', 0xff72c2), (''37'', 0xf4c944), (''38'', 0x6c3f40), (''39'', 0xff9c5b),
      (''41'', 0xff95cd), (''42'', 0xa0dfff), (''45'', 0xd5f0a0), (''46'', 0xddbfe8),
      (''47'', 0xf0b9f2), (''48'', 0xdcc5b0), (''49'', 0xec6ff7), (''50'', 0x2b2b2f),
      (''51'', 0xf06f47), (''52'', 0x131111)]"

text \<open>\<^verbatim>\<open>tones[tone] || tones['01']\<close>, for a tone that is a key of the table or of no object.\<close>

definition getSkinToneColor :: "string \<Rightarrow> nat" where
  "getSkinToneColor tone = (case map_of tones tone of Some c \<Rightarrow> c | None \<Rightarrow> 0xf4c39a)"

definition validTones :: "string list" where
  "validTones =
     [''01'', ''02'', ''03'', ''04'', ''05'', ''06'', ''07'', ''08'', ''09'', ''10'',
      ''11'', ''12'', ''13'', ''14'', ''15'', ''16'', ''17'', ''18'', ''19'', ''20'',
      ''21'', ''22'', ''25'', ''26'', ''27'', ''28'', ''29'', ''30'', ''31'', ''32'',
      ''33'', ''35'', ''36'', ''37'', ''38'', ''39'', ''41'', ''42'', ''45'', ''46'',
      ''47'', ''48'', ''49'', ''50'', ''51'', ''52'']"

definition getSkinToneGradientPath :: "string \<Rightarrow> string" where
  "getSkinToneGradientPath tone =
     (if tone \<in> set validTones then ''TintGradients/Skin_Tones/'' @ tone @ ''.png''
      else ''TintGradients/Skin_Tones/01.png'')"

definition defaults :: "nat \<Rightarrow> (string \<times> nat) list" where
  "defaults skinColor =
     [(''haircut'', 0x4a3728), (''facialHair'', 0x4a3728), (''eyebrows'', 0x4a3728),
      (''pants'', 0x2c3e50), (''overpants'', 0x34495e),
      (''undertop'', 0x5dade2), (''overtop'', 0x2980b9),
      (''shoes'', 0x1a1a1a), (''gloves'', 0x8b4513),
      (''face'', skinColor), (''mouth'', 0xc0392b), (''ears'', skinColor),
      (''eyes'', 0x3498db), (''underwear'', 0xecf0f1), (''cape'', 0x8e44ad),
      (''headAccessory'', 0xf1c40f), (''faceAccessory'', 0xbdc3c7),
      (''earAccessory'', 0xf1c40f)]"

text \<open>\<^verbatim>\<open>defaults[type] || 0x888888\<close>.\<close>

definition getDefaultColor :: "string \<Rightarrow> nat \<Rightarrow> nat" where
  "getDefaultColor type skinColor =
     (case map_of (defaults skinColor) type of
        Some c \<Rightarrow> if c = 0 then 0x888888 else c
      | None \<Rightarrow> 0x888888)"

text \<open>
  \<^verbatim>\<open>'#' + n.toString(16).padStart(6, '0')\<close> for a colour below \<open>16 ^ 6\<close>, which the
  colours of the two tables are: six hexadecimal digits.
\<close>

definition hexChar :: "nat \<Rightarrow> char" where
  "hexChar d = (if d < 10 then char_of (48 + d) else char_of (87 + d))"

definition hexColor :: "nat \<Rightarrow> string" where
  "hexColor n =
     CHR ''#'' # map (\<lambda>k. hexChar ((n div 16 ^ k) mod 16)) [5, 4, 3, 2, 1, 0]"

subsection \<open>Building the character\<close>

text \<open>
  What the viewer fetches: the avatar descriptor of a UUID (\<open>None\<close> when the request
  fails or the document reports an error), a model document by URL (\<open>None\<close> when the
  request fails, else its \<^verbatim>\<open>nodes\<close>, which it may lack), an animation document by URL,
  an image by URL, and the two readings of the clock in \<^verbatim>\<open>loadAvatar\<close>.
\<close>

record env =
  fetchAvatar :: "string \<Rightarrow> modelData option"
  fetchModel :: "string \<Rightarrow> modelNode list option option"
  fetchAnimation :: "string \<Rightarrow> animation option"
  loadImage :: "string \<Rightarrow> image option"
  loadedAt :: real
  frameAt :: real

text \<open>
  The scene that a rendering leaves, whether it returned or threw: what was added
  before a \<^verbatim>\<open>TypeError\<close> stays in the graph.
\<close>

definition sceneAfter :: "(error \<times> object3d) + object3d \<Rightarrow> object3d" where
  "sceneAfter r = (case r of Inl (e, scene) \<Rightarrow> scene | Inr scene \<Rightarrow> scene)"

text \<open>
  The first block of \<^verbatim>\<open>_buildCharacter\<close>: the player model with the tinted body
  texture. The block catches what is thrown in it; without a character nothing can be
  added. Colours and textures reach the materials only, which the scene leaves out.
\<close>

definition buildPlayer :: "env \<Rightarrow> three \<Rightarrow> modelData \<Rightarrow> viewer \<Rightarrow> viewer" where
  "buildPlayer e ops data st =
    (let skinColor = getSkinToneColor (skinTone data);
         skinColorHex = hexColor skinColor;
         skinToneGradient = getSkinToneGradientPath (skinTone data)
     in case fetchModel e ''/asset/Common/Characters/Player.blockymodel'' of
          None \<Rightarrow> st
        | Some nodes \<Rightarrow>
           (let bodyTexturePath =
                  (if bodyType data = ''Muscular''
                   then ''Characters/Player_Textures/Player_Muscular_Greyscale.png''
                   else ''Characters/Player_Textures/Player_Greyscale.png'')
            in case createTintedTexture (loadImage e) bodyTexturePath (JStr skinColorHex)
                      (Some skinToneGradient) (textureCache st) of
                 (Inl err, cache') \<Rightarrow> st\<lparr>textureCache := cache'\<rparr>
               | (Inr bodyTexture, cache') \<Rightarrow>
                   (case character st of
                      None \<Rightarrow> st\<lparr>textureCache := cache'\<rparr>
                    | Some ch \<Rightarrow>
                        st\<lparr>character :=
                             Some (renderPlayerModel ops (hiddenBodyParts st) nodes [] ch),
                           textureCache := cache'\<rparr>)))"

text \<open>Whether a colour or a path counts as absent (\<^verbatim>\<open>!v\<close>).\<close>

definition falsyColor :: "jsval option \<Rightarrow> bool" where
  "falsyColor v = (v = None \<or> v = Some JOther \<or> v = Some (JNum 0) \<or> v = Some (JStr []))"

definition falsyPath :: "string option \<Rightarrow> bool" where
  "falsyPath v = (v = None \<or> v = Some [])"

definition orEmpty :: "string option \<Rightarrow> string" where
  "orEmpty v = (case v of None \<Rightarrow> [] | Some str \<Rightarrow> str)"

text \<open>
  The texture of a slot: the direct texture when the part has one, else the tinted
  greyscale texture, else none. The \<^verbatim>\<open>IndexSizeError\<close> of a tinting request is not
  caught here.
\<close>

definition slotTexture ::
    "env \<Rightarrow> modelData \<Rightarrow> string \<Rightarrow> cosmeticPart \<Rightarrow> (string \<rightharpoonup> image)
      \<Rightarrow> (error + image option) \<times> (string \<rightharpoonup> image)" where
  "slotTexture e data key p cache =
    (let skinColor = getSkinToneColor (skinTone data);
         skinColorHex = hexColor skinColor;
         skinToneGradient = getSkinToneGradientPath (skinTone data);
         isSkinPart = (part_gradientSet p = Some ''Skin'' \<or>
                       key \<in> {''face'', ''ears'', ''mouth''})
     in if \<not> falsyPath (part_texture p) then
          (case loadTexture (loadImage e) (orEmpty (part_texture p)) cache of
             (tex, cache') \<Rightarrow> (Inr tex, cache'))
        else if \<not> falsyPath (part_greyscaleTexture p) then
          (let gradientPath = (if isSkinPart then Some skinToneGradient
                               else part_gradientTexture p);
               baseCol = (if isSkinPart then Some (JStr skinColorHex) else part_baseColor p);
               baseCol' = (if falsyPath gradientPath \<and> falsyColor baseCol
                           then Some (JStr (hexColor (getDefaultColor key skinColor)))
                           else baseCol)
           in createTintedTexture (loadImage e) (orEmpty (part_greyscaleTexture p))
                (case baseCol' of None \<Rightarrow> JOther | Some c \<Rightarrow> c) gradientPath cache)
        else (Inr None, cache))"

text \<open>
  One round of the loop over \<open>cosmeticOrder\<close>: a slot without part or without model
  is skipped; the texture is resolved; then, in a block that catches what is thrown in
  it, the model is fetched, the shadow texture of the eyes is made (which throws for an
  image without pixels) and the model is rendered into the character with the slot's
  z-offset.
\<close>

definition buildSlot ::
    "env \<Rightarrow> three \<Rightarrow> modelData \<Rightarrow> string \<times> real \<Rightarrow> viewer \<Rightarrow> (error \<times> viewer) + viewer" where
  "buildSlot e ops data slot st =
    (let key = fst slot; zOffset = snd slot in
     case part data key of
       None \<Rightarrow> Inr st
     | Some p \<Rightarrow>
        if falsyPath (part_model p) then Inr st
        else
          (case slotTexture e data key p (textureCache st) of
             (Inl err, cache') \<Rightarrow> Inl (err, st\<lparr>textureCache := cache'\<rparr>)
           | (Inr tex, cache') \<Rightarrow>
              (let st1 = st\<lparr>textureCache := cache'\<rparr>;
                   pm = orEmpty (part_model p);
                   modelPath = (if startsWith pm ''Common/'' then pm else ''Common/'' @ pm)
               in case fetchModel e (''/asset/'' @ modelPath) of
                    None \<Rightarrow> Inr st1
                  | Some nodes \<Rightarrow>
                     (let emptyImage = (case tex of
                                          None \<Rightarrow> False
                                        | Some img \<Rightarrow> img_width img = 0 \<or> img_height img = 0);
                          shadowTexture = (key = ''eyes'' \<and> tex \<noteq> None)
                      in if shadowTexture \<and> emptyImage then Inr st1
                         else
                           (case character st1 of
                              None \<Rightarrow> Inr st1
                            | Some ch \<Rightarrow>
                                Inr (st1\<lparr>character := Some (sceneAfter
                                  (renderCosmeticModel ops nodes [] key zOffset shadowTexture
                                     ch))\<rparr>))))))"

fun buildSlots ::
    "env \<Rightarrow> three \<Rightarrow> modelData \<Rightarrow> (string \<times> real) list \<Rightarrow> viewer \<Rightarrow> (error \<times> viewer) + viewer" where
  "buildSlots e ops data [] st = Inr st"
| "buildSlots e ops data (slot # rest) st =
     (case buildSlot e ops data slot st of
        Inl err \<Rightarrow> Inl err
      | Inr st' \<Rightarrow> buildSlots e ops data rest st')"

text \<open>\<^verbatim>\<open>_buildCharacter\<close>: the player model, then the slots in render order.\<close>

definition buildCharacter ::
    "env \<Rightarrow> three \<Rightarrow> modelData \<Rightarrow> viewer \<Rightarrow> (error \<times> viewer) + viewer" where
  "buildCharacter e ops data st = buildSlots e ops data cosmeticOrder (buildPlayer e ops data st)"

subsection \<open>Loading an avatar\<close>

text \<open>\<^verbatim>\<open>_loadAnimation\<close>: nothing without a path, else the fetched document.\<close>

definition loadAnimation :: "env \<Rightarrow> string option \<Rightarrow> animation option" where
  "loadAnimation e animPath =
     (case animPath of
        None \<Rightarrow> None
      | Some ap \<Rightarrow>
          if ap = [] then None
          else fetchAnimation e
                 (''/asset/Common/Characters/Animations/'' @ ap @ ''.blockyanim''))"

text \<open>
  \<^verbatim>\<open>loadAvatar\<close>. The descriptor is fetched, the hidden parts are determined from it,
  the character is built, the current animation is loaded and the first frame runs.
  Nothing is cleared before. An error is rethrown with the viewer as it is then;
  without \<^verbatim>\<open>init\<close> the first frame throws when it reaches the renderer.
\<close>

definition loadAvatar :: "env \<Rightarrow> three \<Rightarrow> string \<Rightarrow> viewer \<Rightarrow> (error \<times> viewer) + viewer" where
  "loadAvatar e ops uuid st =
    (case fetchAvatar e uuid of
       None \<Rightarrow> Inl (LoadError, st)
     | Some data \<Rightarrow>
        (let st1 = determineHiddenParts data st in
         case buildCharacter e ops data st1 of
           Inl err \<Rightarrow> Inl err
         | Inr st2 \<Rightarrow>
            (let st3 = st2\<lparr>currentAnimation := loadAnimation e (currentAnimationPath st2),
                           lastFrameTime := loadedAt e\<rparr>;
                 st4 = animate ops (frameAt e) st3
             in if character st4 = None then Inl (TypeError, st4) else Inr st4)))"

text \<open>
  \<^verbatim>\<open>loadFromSkinData\<close>. The children of the character are removed, the rest-pose
  cache and the two sets of body parts are cleared, and the character is built from a
  descriptor that has the skin tone and body type of the skin data (or their defaults)
  and no parts.
\<close>

definition loadFromSkinData ::
    "env \<Rightarrow> three \<Rightarrow> modelData \<Rightarrow> viewer \<Rightarrow> (error \<times> viewer) + viewer" where
  "loadFromSkinData e ops skinData st =
    (case character st of
       None \<Rightarrow> Inl (TypeError, st)
     | Some ch \<Rightarrow>
        (let st1 = st\<lparr>character :=
                        Some (Object3D (name ch) (isMesh ch) (position ch) (quaternion ch) []),
                      originalTransforms := [], hiddenBodyParts := {},
                      polygonOffsetParts := {}\<rparr>;
             data = \<lparr>skinTone = (if skinTone skinData = [] then ''01'' else skinTone skinData),
                     bodyType = (if bodyType skinData = [] then ''Regular''
                                 else bodyType skinData),
                     parts = Some Map.empty\<rparr>;
             st2 = determineHiddenParts data st1
         in buildCharacter e ops data st2))"

section \<open>Properties of the hidden-part table\<close>

lemma determineHiddenParts_hidden:
  "hiddenBodyParts (determineHiddenParts data st) =
     hiddenBodyParts st
     \<union> (if equipped data ''pants'' \<or> equipped data ''overpants''
        then {''Pelvis'', ''L-Thigh'', ''R-Thigh'', ''L-Calf'', ''R-Calf''} else {})
     \<union> (if equipped data ''overtop'' \<or> equipped data ''undertop''
        then {''Belly'', ''Chest''} else {})
     \<union> (if equipped data ''shoes'' then {''L-Foot'', ''R-Foot''} else {})
     \<union> (if equipped data ''haircut'' then {''HeadTop'', ''HairBase''} else {})"
  unfolding determineHiddenParts_def Let_def by auto

lemma determineHiddenParts_offset:
  "polygonOffsetParts (determineHiddenParts data st) =
     polygonOffsetParts st
     \<union> (if equipped data ''overtop'' \<or> equipped data ''undertop''
        then {''L-Arm'', ''R-Arm'', ''L-Forearm'', ''R-Forearm''} else {})"
  unfolding determineHiddenParts_def Let_def by auto

lemma determineHiddenParts_originalTransforms:
  "originalTransforms (determineHiddenParts data st) = originalTransforms st"
  unfolding determineHiddenParts_def Let_def by simp

text \<open>
  C6. With a pants or overpants slot equipped, \<open>determineHiddenParts\<close> adds the five
  names Pelvis, L-Thigh, R-Thigh, L-Calf and R-Calf to the hidden set, and what it adds
  beyond them comes from the other slots of the table (tops, shoes, haircut) alone;
  with neither slot equipped it adds none of the five.
\<close>

theorem determineHiddenParts_pants:
  "((equipped data ''pants'' \<or> equipped data ''overpants'') \<longrightarrow>
      hiddenBodyParts (determineHiddenParts data st) =
        hiddenBodyParts st
        \<union> {''Pelvis'', ''L-Thigh'', ''R-Thigh'', ''L-Calf'', ''R-Calf''}
        \<union> (if equipped data ''overtop'' \<or> equipped data ''undertop''
           then {''Belly'', ''Chest''} else {})
        \<union> (if equipped data ''shoes'' then {''L-Foot'', ''R-Foot''} else {})
        \<union> (if equipped data ''haircut'' then {''HeadTop'', ''HairBase''} else {}))
   \<and> (\<not> equipped data ''pants'' \<and> \<not> equipped data ''overpants'' \<longrightarrow>
      {''Pelvis'', ''L-Thigh'', ''R-Thigh'', ''L-Calf'', ''R-Calf''}
        \<inter> hiddenBodyParts (determineHiddenParts data st)
      = {''Pelvis'', ''L-Thigh'', ''R-Thigh'', ''L-Calf'', ''R-Calf''}
        \<inter> hiddenBodyParts st)"
  unfolding determineHiddenParts_hidden by auto

theorem determineHiddenParts_pants_witness:
  "equipped \<lparr>skinTone = ''01'', bodyType = ''Regular'',
       parts = Some [''pants'' \<mapsto> \<lparr>part_model = Some ''Cosmetics/Pants.blockymodel'',
         part_texture = None, part_greyscaleTexture = None, part_gradientTexture = None,
         part_baseColor = None, part_gradientSet = None\<rparr>]\<rparr> ''pants''
   \<and> hiddenBodyParts (determineHiddenParts
       \<lparr>skinTone = ''01'', bodyType = ''Regular'',
        parts = Some [''pants'' \<mapsto> \<lparr>part_model = Some ''Cosmetics/Pants.blockymodel'',
          part_texture = None, part_greyscaleTexture = None, part_gradientTexture = None,
          part_baseColor = None, part_gradientSet = None\<rparr>]\<rparr> newViewer)
     = {''Pelvis'', ''L-Thigh'', ''R-Thigh'', ''L-Calf'', ''R-Calf''}
   \<and> \<not> equipped \<lparr>skinTone = ''01'', bodyType = ''Regular'', parts = Some Map.empty\<rparr> ''pants''
   \<and> \<not> equipped \<lparr>skinTone = ''01'', bodyType = ''Regular'', parts = Some Map.empty\<rparr> ''overpants''
   \<and> {''Pelvis'', ''L-Thigh'', ''R-Thigh'', ''L-Calf'', ''R-Calf''}
        \<inter> hiddenBodyParts (determineHiddenParts
            \<lparr>skinTone = ''01'', bodyType = ''Regular'', parts = Some Map.empty\<rparr> newViewer)
      = {}"
  using determineHiddenParts_pants
    [of "\<lparr>skinTone = ''01'', bodyType = ''Regular'',
          parts = Some [''pants'' \<mapsto> \<lparr>part_model = Some ''Cosmetics/Pants.blockymodel'',
            part_texture = None, part_greyscaleTexture = None, part_gradientTexture = None,
            part_baseColor = None, part_gradientSet = None\<rparr>]\<rparr>" newViewer]
    determineHiddenParts_pants
    [of "\<lparr>skinTone = ''01'', bodyType = ''Regular'', parts = Some Map.empty\<rparr>" newViewer]
  by (simp add: equipped_def part_def newViewer_def)

section \<open>Properties of the animation sampler\<close>

text \<open>The definitions that evaluate \<open>rnd\<close> on a number.\<close>

lemmas rnd_eval = rnd_def expo_def pow2_def roundEven_def ilog2.simps Let_def
  fadd_def fsub_def fmul_def fdiv_def

lemma loopTime_example: "loopTime 7.5 10 = Some 7.5"
  by (simp add: loopTime_def jsmod_def trunc_def rnd_eval)

text \<open>
  C4. With duration 10 and two keyframes, at times 0 and 5 (in either order in the
  document), the frame at time 7.5 has loop time 7.5 and brackets from the keyframe at 5
  to the keyframe at 0 with fraction 1/2.
\<close>

theorem findKeyframes_wrap_example:
  "findKeyframes
      (Some [\<lparr>time = 0, delta = d0, interpolationType = i0\<rparr>,
             \<lparr>time = 5, delta = d5, interpolationType = i5\<rparr>]) (loopTime 7.5 10) 10
    = Some \<lparr>kf_k1 = \<lparr>time = 5, delta = d5, interpolationType = i5\<rparr>,
             kf_k2 = \<lparr>time = 0, delta = d0, interpolationType = i0\<rparr>,
             kf_t = Some (1 / 2), kf_smooth = (i5 = ''smooth'')\<rparr>
   \<and> findKeyframes
      (Some [\<lparr>time = 5, delta = d5, interpolationType = i5\<rparr>,
             \<lparr>time = 0, delta = d0, interpolationType = i0\<rparr>]) (loopTime 7.5 10) 10
    = Some \<lparr>kf_k1 = \<lparr>time = 5, delta = d5, interpolationType = i5\<rparr>,
             kf_k2 = \<lparr>time = 0, delta = d0, interpolationType = i0\<rparr>,
             kf_t = Some (1 / 2), kf_smooth = (i5 = ''smooth'')\<rparr>"
  unfolding loopTime_example
  by (simp add: findKeyframes_def bracket_def jssub_def jsdiv_def clamp01_def rnd_eval)

subsection \<open>The loop time is periodic on each side of 0\<close>

lemma trunc_frac: "\<bar>x - of_int (trunc x)\<bar> < 1"
  unfolding trunc_def by (auto; linarith)

lemma trunc_shift:
  assumes "(0 \<le> x \<and> 0 \<le> x + of_int k) \<or> (x \<le> 0 \<and> x + of_int k \<le> 0)"
  shows "trunc (x + of_int k) = trunc x + k"
proof -
  have np: "\<And>y::real. y \<le> 0 \<Longrightarrow> trunc y = \<lceil>y\<rceil>"
    by (auto simp: trunc_def)
  from assms show ?thesis
  proof
    assume "0 \<le> x \<and> 0 \<le> x + of_int k"
    then show ?thesis by (simp add: trunc_def)
  next
    assume a: "x \<le> 0 \<and> x + of_int k \<le> 0"
    then have "trunc (x + of_int k) = \<lceil>x + of_int k\<rceil>" "trunc x = \<lceil>x\<rceil>"
      by (simp_all add: np)
    then show ?thesis by simp
  qed
qed

lemma jsmod_periodic:
  assumes "(0 \<le> a \<and> 0 \<le> a + of_int k * d) \<or> (a \<le> 0 \<and> a + of_int k * d \<le> 0)"
  shows "jsmod (a + of_int k * d) d = jsmod a d"
proof (cases "d = 0")
  case True
  then show ?thesis by (simp add: jsmod_def)
next
  case False
  have q: "(a + of_int k * d) / d = a / d + of_int k"
    using False by (simp add: field_simps)
  have s: "(0 \<le> a / d \<and> 0 \<le> a / d + of_int k) \<or> (a / d \<le> 0 \<and> a / d + of_int k \<le> 0)"
  proof (cases "0 < d")
    case True
    from assms show ?thesis
    proof
      assume h: "0 \<le> a \<and> 0 \<le> a + of_int k * d"
      then have "0 \<le> a / d" "0 \<le> (a + of_int k * d) / d"
        using True by simp_all
      then show ?thesis unfolding q by simp
    next
      assume h: "a \<le> 0 \<and> a + of_int k * d \<le> 0"
      then have "a / d \<le> 0" "(a + of_int k * d) / d \<le> 0"
        using True by (simp_all add: divide_le_0_iff)
      then show ?thesis unfolding q by simp
    qed
  next
    case dneg: False
    then have dn: "d < 0" using False by simp
    from assms show ?thesis
    proof
      assume h: "0 \<le> a \<and> 0 \<le> a + of_int k * d"
      then have "a / d \<le> 0" "(a + of_int k * d) / d \<le> 0"
        using dn by (simp_all add: divide_le_0_iff)
      then show ?thesis unfolding q by simp
    next
      assume h: "a \<le> 0 \<and> a + of_int k * d \<le> 0"
      then have "0 \<le> a / d" "0 \<le> (a + of_int k * d) / d"
        using dn by (simp_all add: zero_le_divide_iff)
      then show ?thesis unfolding q by simp
    qed
  qed
  have "trunc ((a + of_int k * d) / d) = trunc (a / d) + k"
    unfolding q using s by (rule trunc_shift)
  then show ?thesis
    using False by (simp add: jsmod_def algebra_simps)
qed

lemma loopTime_periodic:
  assumes "(0 \<le> a \<and> 0 \<le> a + of_int k * d) \<or> (a \<le> 0 \<and> a + of_int k * d \<le> 0)"
  shows "loopTime (a + of_int k * d) d = loopTime a d"
  unfolding loopTime_def jsmod_periodic[OF assms] by (rule refl)

lemma loopTime_duration: "loopTime d d = loopTime 0 d"
  by (simp add: loopTime_def jsmod_def trunc_def)

lemma applyAnimation_loopTime:
  "loopTime tm (duration a) = loopTime tm' (duration a) \<Longrightarrow>
   applyAnimation ops (Some a) tm st = applyAnimation ops (Some a) tm' st"
  by (simp add: applyAnimation_def split: option.splits)

text \<open>
  C3. Without \<open>holdLastKeyframe\<close> the pose that a frame applies is the same at two
  times that differ by a whole number of durations and lie on the same side of 0: their
  remainders by the duration are the same double, and the pose is a function of that
  remainder. With \<open>holdLastKeyframe\<close> every time from the duration on applies the
  pose that the duration itself applies.
\<close>

theorem sample_periodic:
  "(\<not> holdLastKeyframe a
      \<and> ((0 \<le> tm \<and> 0 \<le> tm + of_int k * duration a)
         \<or> (tm \<le> 0 \<and> tm + of_int k * duration a \<le> 0)) \<longrightarrow>
      sample ops a (tm + of_int k * duration a) st = sample ops a tm st)
   \<and> (holdLastKeyframe a \<and> duration a \<le> tm \<longrightarrow>
      sample ops a tm st = sample ops a (duration a) st)"
proof (intro conjI impI)
  assume h: "\<not> holdLastKeyframe a
      \<and> ((0 \<le> tm \<and> 0 \<le> tm + of_int k * duration a)
         \<or> (tm \<le> 0 \<and> tm + of_int k * duration a \<le> 0))"
  then have "loopTime (tm + of_int k * duration a) (duration a) = loopTime tm (duration a)"
    by (intro loopTime_periodic) simp
  then have "applyAnimation ops (Some a) (tm + of_int k * duration a) st
      = applyAnimation ops (Some a) tm st"
    by (rule applyAnimation_loopTime)
  then show "sample ops a (tm + of_int k * duration a) st = sample ops a tm st"
    using h by (simp add: sample_def frameTime_def)
next
  assume "holdLastKeyframe a \<and> duration a \<le> tm"
  then show "sample ops a tm st = sample ops a (duration a) st"
    by (auto simp: sample_def frameTime_def min_def)
qed

theorem sample_periodic_witness:
  "\<not> holdLastKeyframe \<lparr>duration = 10, holdLastKeyframe = False,
        nodeAnimations = Some [(''Chest'', \<lparr>positionTrack = None, orientationTrack = Some
          [\<lparr>time = 0, delta = Quaternion 0 0 0 1, interpolationType = ''linear''\<rparr>,
           \<lparr>time = 5, delta = Quaternion 0 1 0 0, interpolationType = ''smooth''\<rparr>]\<rparr>)]\<rparr>
   \<and> (0::real) \<le> 7.5 \<and> (0::real) \<le> 7.5 + of_int 2 * 10
   \<and> sample \<lparr>slerpQuaternions = (\<lambda>q1 q2 f. if f = Some 0 then q1 else q2),
             lerpVectors = (\<lambda>v1 v2 f. if f = Some 0 then v1 else v2),
             applyQuaternion = (\<lambda>v q. v)\<rparr>
        \<lparr>duration = 10, holdLastKeyframe = False,
        nodeAnimations = Some [(''Chest'', \<lparr>positionTrack = None, orientationTrack = Some
          [\<lparr>time = 0, delta = Quaternion 0 0 0 1, interpolationType = ''linear''\<rparr>,
           \<lparr>time = 5, delta = Quaternion 0 1 0 0, interpolationType = ''smooth''\<rparr>]\<rparr>)]\<rparr>
        (7.5 + of_int 2 * 10)
        (newViewer\<lparr>character := Some (Object3D [] False zeroVec (Quaternion 0 1 0 0)
           [Object3D ''Chest'' False zeroVec identityQuat []])\<rparr>)
     = sample \<lparr>slerpQuaternions = (\<lambda>q1 q2 f. if f = Some 0 then q1 else q2),
             lerpVectors = (\<lambda>v1 v2 f. if f = Some 0 then v1 else v2),
             applyQuaternion = (\<lambda>v q. v)\<rparr>
        \<lparr>duration = 10, holdLastKeyframe = False,
        nodeAnimations = Some [(''Chest'', \<lparr>positionTrack = None, orientationTrack = Some
          [\<lparr>time = 0, delta = Quaternion 0 0 0 1, interpolationType = ''linear''\<rparr>,
           \<lparr>time = 5, delta = Quaternion 0 1 0 0, interpolationType = ''smooth''\<rparr>]\<rparr>)]\<rparr>
        7.5
        (newViewer\<lparr>character := Some (Object3D [] False zeroVec (Quaternion 0 1 0 0)
           [Object3D ''Chest'' False zeroVec identityQuat []])\<rparr>)
   \<and> holdLastKeyframe \<lparr>duration = 10, holdLastKeyframe = True,
        nodeAnimations = Some [(''Chest'', \<lparr>positionTrack = None, orientationTrack = Some
          [\<lparr>time = 0, delta = Quaternion 0 0 0 1, interpolationType = ''linear''\<rparr>,
           \<lparr>time = 5, delta = Quaternion 0 1 0 0, interpolationType = ''smooth''\<rparr>]\<rparr>)]\<rparr>
   \<and> duration \<lparr>duration = 10, holdLastKeyframe = True,
        nodeAnimations = Some [(''Chest'', \<lparr>positionTrack = None, orientationTrack = Some
          [\<lparr>time = 0, delta = Quaternion 0 0 0 1, interpolationType = ''linear''\<rparr>,
           \<lparr>time = 5, delta = Quaternion 0 1 0 0, interpolationType = ''smooth''\<rparr>]\<rparr>)]\<rparr>
       \<le> (12::real)
   \<and> sample \<lparr>slerpQuaternions = (\<lambda>q1 q2 f. if f = Some 0 then q1 else q2),
             lerpVectors = (\<lambda>v1 v2 f. if f = Some 0 then v1 else v2),
             applyQuaternion = (\<lambda>v q. v)\<rparr>
        \<lparr>duration = 10, holdLastKeyframe = True,
        nodeAnimations = Some [(''Chest'', \<lparr>positionTrack = None, orientationTrack = Some
          [\<lparr>time = 0, delta = Quaternion 0 0 0 1, interpolationType = ''linear''\<rparr>,
           \<lparr>time = 5, delta = Quaternion 0 1 0 0, interpolationType = ''smooth''\<rparr>]\<rparr>)]\<rparr>
        12
        (newViewer\<lparr>character := Some (Object3D [] False zeroVec (Quaternion 0 1 0 0)
           [Object3D ''Chest'' False zeroVec identityQuat []])\<rparr>)
     = sample \<lparr>slerpQuaternions = (\<lambda>q1 q2 f. if f = Some 0 then q1 else q2),
             lerpVectors = (\<lambda>v1 v2 f. if f = Some 0 then v1 else v2),
             applyQuaternion = (\<lambda>v q. v)\<rparr>
        \<lparr>duration = 10, holdLastKeyframe = True,
        nodeAnimations = Some [(''Chest'', \<lparr>positionTrack = None, orientationTrack = Some
          [\<lparr>time = 0, delta = Quaternion 0 0 0 1, interpolationType = ''linear''\<rparr>,
           \<lparr>time = 5, delta = Quaternion 0 1 0 0, interpolationType = ''smooth''\<rparr>]\<rparr>)]\<rparr>
        10
        (newViewer\<lparr>character := Some (Object3D [] False zeroVec (Quaternion 0 1 0 0)
           [Object3D ''Chest'' False zeroVec identityQuat []])\<rparr>)"
  using sample_periodic
    [of "\<lparr>duration = 10, holdLastKeyframe = False,
        nodeAnimations = Some [(''Chest'', \<lparr>positionTrack = None, orientationTrack = Some
          [\<lparr>time = 0, delta = Quaternion 0 0 0 1, interpolationType = ''linear''\<rparr>,
           \<lparr>time = 5, delta = Quaternion 0 1 0 0, interpolationType = ''smooth''\<rparr>]\<rparr>)]\<rparr>"
      "7.5" 2
      "\<lparr>slerpQuaternions = (\<lambda>q1 q2 f. if f = Some 0 then q1 else q2),
             lerpVectors = (\<lambda>v1 v2 f. if f = Some 0 then v1 else v2),
             applyQuaternion = (\<lambda>v q. v)\<rparr>"
      "newViewer\<lparr>character := Some (Object3D [] False zeroVec (Quaternion 0 1 0 0)
           [Object3D ''Chest'' False zeroVec identityQuat []])\<rparr>"]
    sample_periodic
    [of "\<lparr>duration = 10, holdLastKeyframe = True,
        nodeAnimations = Some [(''Chest'', \<lparr>positionTrack = None, orientationTrack = Some
          [\<lparr>time = 0, delta = Quaternion 0 0 0 1, interpolationType = ''linear''\<rparr>,
           \<lparr>time = 5, delta = Quaternion 0 1 0 0, interpolationType = ''smooth''\<rparr>]\<rparr>)]\<rparr>"
      12 0
      "\<lparr>slerpQuaternions = (\<lambda>q1 q2 f. if f = Some 0 then q1 else q2),
             lerpVectors = (\<lambda>v1 v2 f. if f = Some 0 then v1 else v2),
             applyQuaternion = (\<lambda>v q. v)\<rparr>"
      "newViewer\<lparr>character := Some (Object3D [] False zeroVec (Quaternion 0 1 0 0)
           [Object3D ''Chest'' False zeroVec identityQuat []])\<rparr>"]
  by simp

text \<open>
  Across 0 the claim fails: the remainder of a negative time is negative, and the sum
  \<^verbatim>\<open>(time % duration) + duration\<close> is rounded. With duration 10 the doubles
  \<open>5 + 2 ^ - 50\<close> and \<open>5 + 2 ^ - 50 - 10\<close> have the loop times 5 and \<open>5 + 2 ^ - 50\<close>; with
  two keyframes at \<open>5 + 2 ^ - 50\<close> the first time is bracketed before them and the
  second after, and the poses are those of different keyframes.
\<close>

lemma loopTime_above: "loopTime (5 + 1 / 2 ^ 50) 10 = Some 5"
  by (simp add: loopTime_def jsmod_def trunc_def rnd_eval)

lemma loopTime_below: "loopTime (5 + 1 / 2 ^ 50 - 10) 10 = Some (5 + 1 / 2 ^ 50)"
  by (simp add: loopTime_def jsmod_def trunc_def rnd_eval)

theorem sample_sign_counterexample:
  "rnd (5 + 1 / 2 ^ 50) = 5 + 1 / 2 ^ 50
   \<and> rnd (5 + 1 / 2 ^ 50 - 10) = 5 + 1 / 2 ^ 50 - 10
   \<and> loopTime (5 + 1 / 2 ^ 50) 10 = Some 5
   \<and> loopTime (5 + 1 / 2 ^ 50 - 10) 10 = Some (5 + 1 / 2 ^ 50)
   \<and> character (sample
        \<lparr>slerpQuaternions = (\<lambda>q1 q2 f. if f = Some 0 then q1 else q2),
         lerpVectors = (\<lambda>v1 v2 f. if f = Some 0 then v1 else v2),
         applyQuaternion = (\<lambda>v q. v)\<rparr>
        \<lparr>duration = 10, holdLastKeyframe = False,
         nodeAnimations = Some [(''Chest'', \<lparr>positionTrack = None, orientationTrack = Some
          [\<lparr>time = 0, delta = Quaternion 0 0 0 1, interpolationType = ''linear''\<rparr>,
           \<lparr>time = 5 + 1 / 2 ^ 50, delta = Quaternion 0 0 0 1, interpolationType = ''linear''\<rparr>,
           \<lparr>time = 5 + 1 / 2 ^ 50, delta = Quaternion 0 0 1 0, interpolationType = ''linear''\<rparr>]\<rparr>)]\<rparr>
        (5 + 1 / 2 ^ 50)
        (newViewer\<lparr>character := Some (Object3D [] False zeroVec (Quaternion 0 1 0 0)
           [Object3D ''Chest'' False zeroVec identityQuat []])\<rparr>))
     = Some (Object3D [] False zeroVec (Quaternion 0 1 0 0)
           [Object3D ''Chest'' False zeroVec (Quaternion 0 0 0 1) []])
   \<and> character (sample
        \<lparr>slerpQuaternions = (\<lambda>q1 q2 f. if f = Some 0 then q1 else q2),
         lerpVectors = (\<lambda>v1 v2 f. if f = Some 0 then v1 else v2),
         applyQuaternion = (\<lambda>v q. v)\<rparr>
        \<lparr>duration = 10, holdLastKeyframe = False,
         nodeAnimations = Some [(''Chest'', \<lparr>positionTrack = None, orientationTrack = Some
          [\<lparr>time = 0, delta = Quaternion 0 0 0 1, interpolationType = ''linear''\<rparr>,
           \<lparr>time = 5 + 1 / 2 ^ 50, delta = Quaternion 0 0 0 1, interpolationType = ''linear''\<rparr>,
           \<lparr>time = 5 + 1 / 2 ^ 50, delta = Quaternion 0 0 1 0, interpolationType = ''linear''\<rparr>]\<rparr>)]\<rparr>
        (5 + 1 / 2 ^ 50 - 10)
        (newViewer\<lparr>character := Some (Object3D [] False zeroVec (Quaternion 0 1 0 0)
           [Object3D ''Chest'' False zeroVec identityQuat []])\<rparr>))
     = Some (Object3D [] False zeroVec (Quaternion 0 1 0 0)
           [Object3D ''Chest'' False zeroVec (Quaternion 0 0 1 0) []])"
proof -
  define x :: real where "x = 5 + 1 / 2 ^ 50"
  have d: "rnd x = x" "rnd (x - 10) = x - 10"
    unfolding x_def by (simp_all add: rnd_eval)
  have l: "loopTime x 10 = Some 5" "loopTime (x - 10) 10 = Some x"
    unfolding x_def by (rule loopTime_above, rule loopTime_below)
  have m: "multiply identityQuat (Quaternion 0 0 0 1) = Quaternion 0 0 0 1"
     "multiply identityQuat (Quaternion 0 0 1 0) = Quaternion 0 0 1 0"
    by (simp_all add: multiply_def identityQuat_def rnd_eval)
  let ?ks = "[\<lparr>time = 0, delta = Quaternion 0 0 0 1, interpolationType = ''linear''\<rparr>,
           \<lparr>time = x, delta = Quaternion 0 0 0 1, interpolationType = ''linear''\<rparr>,
           \<lparr>time = x, delta = Quaternion 0 0 1 0, interpolationType = ''linear''\<rparr>]"
  have f1: "findKeyframes (Some ?ks) (Some 5) 10 =
      Some \<lparr>kf_k1 = \<lparr>time = 0, delta = Quaternion 0 0 0 1, interpolationType = ''linear''\<rparr>,
            kf_k2 = \<lparr>time = x, delta = Quaternion 0 0 0 1, interpolationType = ''linear''\<rparr>,
            kf_t = Some (1 - 1 / 2 ^ 52), kf_smooth = False\<rparr>"
    unfolding x_def
    by (simp add: findKeyframes_def bracket_def jssub_def jsdiv_def clamp01_def rnd_eval)
  have f2: "findKeyframes (Some ?ks) (Some x) 10 =
      Some \<lparr>kf_k1 = \<lparr>time = x, delta = Quaternion 0 0 1 0, interpolationType = ''linear''\<rparr>,
            kf_k2 = \<lparr>time = 0, delta = Quaternion 0 0 0 1, interpolationType = ''linear''\<rparr>,
            kf_t = Some 0, kf_smooth = False\<rparr>"
    unfolding x_def
    by (simp add: findKeyframes_def bracket_def jssub_def jsdiv_def clamp01_def rnd_eval)
  show ?thesis
    unfolding x_def[symmetric]
    by (simp add: d l sample_def frameTime_def applyAnimation_def applyNode_def
        getObjectByName_def newViewer_def interpolateQuaternion_def f1 f2 m setQuaternion_def
        zeroVec_def Let_def)
qed

subsection \<open>Entries that do nothing\<close>

lemma findPath_alt:
  "findPath nm obj = (if name obj = nm then Some [] else findPathList nm 0 (children obj))"
  by (cases obj) simp

lemma findPathList_cong:
  "map (findPath nm) cs = map (findPath nm) cs' \<Longrightarrow>
   findPathList nm k cs = findPathList nm k cs'"
proof (induction cs arbitrary: cs' k)
  case Nil
  then show ?case by simp
next
  case (Cons c cs)
  then obtain c' cs'' where cs': "cs' = c' # cs''" by (cases cs') auto
  with Cons.prems have "findPath nm c = findPath nm c'" "map (findPath nm) cs = map (findPath nm) cs''"
    by simp_all
  with Cons.IH[of cs'' "Suc k"] show ?case
    by (simp add: cs' split: option.splits)
qed

lemma findPath_updateAt:
  assumes "\<And>ob. name (f ob) = name ob" and "\<And>ob. children (f ob) = children ob"
  shows "findPath nm (updateAt p f obj) = findPath nm obj"
proof (induction p arbitrary: obj)
  case Nil
  show ?case by (simp add: findPath_alt[of nm "f obj"] findPath_alt[of nm obj] assms)
next
  case (Cons i p)
  obtain n m pos q cs where obj: "obj = Object3D n m pos q cs" by (cases obj)
  show ?case
  proof (cases "i < length cs")
    case True
    have "map (findPath nm) (cs[i := updateAt p f (cs ! i)]) = map (findPath nm) cs"
      using True
      by (simp add: map_update Cons.IH list_update_same_conv)
    then have "findPathList nm 0 (cs[i := updateAt p f (cs ! i)]) = findPathList nm 0 cs"
      by (rule findPathList_cong)
    then show ?thesis
      using True by (simp add: obj)
  next
    case False
    then show ?thesis by (simp add: obj)
  qed
qed

lemma getAt_updateAt_field:
  assumes "\<And>ob. children (f ob) = children ob" and "\<And>ob. g (f ob) = g ob"
    and "\<And>n m pos qt cs cs'. g (Object3D n m pos qt cs) = g (Object3D n m pos qt cs')"
  shows "map_option g (getAt r (updateAt p f obj)) = map_option g (getAt r obj)"
proof (induction p arbitrary: obj r)
  case Nil
  show ?case by (cases r) (simp_all add: assms)
next
  case (Cons i p)
  obtain n m pos q cs where obj: "obj = Object3D n m pos q cs" by (cases obj)
  show ?case
  proof (cases r)
    case Nil
    then show ?thesis using assms(3) by (simp add: obj)
  next
    case (Cons j r')
    then show ?thesis
      using Cons.IH by (simp add: obj nth_list_update)
  qed
qed

lemma applyNode_missing:
  "character st = Some ch \<Longrightarrow> getObjectByName ch nm = None \<Longrightarrow>
   applyNode ops lt dur (nm, na) st = st"
  by (simp add: applyNode_def)

lemma applyNode_shape:
  assumes "character st = Some ch"
  shows "\<exists>f1 f2.
      character (applyNode ops lt dur (nm, na) st) = Some (f2 (f1 ch))
    \<and> (f1 = id \<or> (\<exists>p q. f1 = updateAt p (setQuaternion q)))
    \<and> (f2 = id \<or> (\<exists>p v. f2 = updateAt p (setPosition v)))
    \<and> (orientationTrack na = None \<or> orientationTrack na = Some [] \<longrightarrow> f1 = id)
    \<and> (positionTrack na = None \<or> positionTrack na = Some [] \<longrightarrow> f2 = id)"
proof (cases "getObjectByName ch nm")
  case None
  then have "character (applyNode ops lt dur (nm, na) st) = Some (id (id ch))"
    using assms by (simp add: applyNode_def)
  then show ?thesis by blast
next
  case (Some p)
  show ?thesis
  proof (cases "getAt p ch")
    case None
    then have "character (applyNode ops lt dur (nm, na) st) = Some (id (id ch))"
      using assms Some by (simp add: applyNode_def)
    then show ?thesis by blast
  next
    case (Some node)
    define original where "original =
       (case map_of (originalTransforms st) nm of
          Some tr \<Rightarrow> tr
        | None \<Rightarrow> \<lparr>t_position = position node, t_quaternion = quaternion node\<rparr>)"
    define f1 where "f1 =
       (case orientationTrack na of
          None \<Rightarrow> id
        | Some ks \<Rightarrow>
            if length ks > 0 then
              (case interpolateQuaternion ops (Some ks) lt dur of
                 None \<Rightarrow> id
               | Some animQuat \<Rightarrow>
                   updateAt p (setQuaternion (multiply (t_quaternion original) animQuat)))
            else id)"
    define f2 where "f2 =
       (case positionTrack na of
          None \<Rightarrow> id
        | Some ks \<Rightarrow>
            if length ks > 0 then
              (case interpolatePosition ops (Some ks) lt dur of
                 None \<Rightarrow> id
               | Some animPos \<Rightarrow>
                   updateAt p (setPosition (addVec (t_position original) animPos)))
            else id)"
    have c: "character (applyNode ops lt dur (nm, na) st) = Some (f2 (f1 ch))"
      using assms \<open>getObjectByName ch nm = Some p\<close> Some
      by (simp add: applyNode_def Let_def f1_def f2_def original_def split: option.splits)
    have a1: "f1 = id \<or> (\<exists>p q. f1 = updateAt p (setQuaternion q))"
      unfolding f1_def by (auto split: option.splits)
    have a2: "f2 = id \<or> (\<exists>p v. f2 = updateAt p (setPosition v))"
      unfolding f2_def by (auto split: option.splits)
    have a3: "orientationTrack na = None \<or> orientationTrack na = Some [] \<longrightarrow> f1 = id"
      unfolding f1_def by auto
    have a4: "positionTrack na = None \<or> positionTrack na = Some [] \<longrightarrow> f2 = id"
      unfolding f2_def by auto
    show ?thesis
      using c a1 a2 a3 a4 by blast
  qed
qed

lemma findPath_setQuaternion:
  "findPath nm (updateAt p (setQuaternion q) obj) = findPath nm obj"
  by (rule findPath_updateAt) (simp_all add: setQuaternion_def)

lemma findPath_setPosition:
  "findPath nm (updateAt p (setPosition v) obj) = findPath nm obj"
  by (rule findPath_updateAt) (simp_all add: setPosition_def)

lemma quaternion_setPosition:
  "map_option quaternion (getAt r (updateAt p (setPosition v) obj)) =
   map_option quaternion (getAt r obj)"
  by (rule getAt_updateAt_field) (simp_all add: setPosition_def)

lemma position_setQuaternion:
  "map_option position (getAt r (updateAt p (setQuaternion q) obj)) =
   map_option position (getAt r obj)"
  by (rule getAt_updateAt_field) (simp_all add: setQuaternion_def)

lemma applyNode_names:
  assumes "character st = Some ch"
  shows "\<exists>ch'. character (applyNode ops lt dur e st) = Some ch' \<and>
           (\<forall>nm. findPath nm ch' = findPath nm ch)"
proof -
  obtain nm na where e: "e = (nm, na)" by (cases e)
  from applyNode_shape[OF assms, of ops lt dur nm na]
  obtain f1 f2 where c: "character (applyNode ops lt dur (nm, na) st) = Some (f2 (f1 ch))"
    and a1: "f1 = id \<or> (\<exists>p q. f1 = updateAt p (setQuaternion q))"
    and a2: "f2 = id \<or> (\<exists>p v. f2 = updateAt p (setPosition v))"
    by blast
  have "\<forall>nm. findPath nm (f1 ch) = findPath nm ch"
    using a1 by (auto simp: findPath_setQuaternion)
  moreover have "\<forall>nm. findPath nm (f2 (f1 ch)) = findPath nm (f1 ch)"
    using a2 by (auto simp: findPath_setPosition)
  ultimately show ?thesis
    using c e by simp
qed

lemma foldl_applyNode_names:
  assumes "character st = Some ch"
  shows "\<exists>ch'. character (foldl (\<lambda>s e. applyNode ops lt dur e s) st es) = Some ch' \<and>
           (\<forall>nm. findPath nm ch' = findPath nm ch)"
  using assms
proof (induction es arbitrary: st ch)
  case Nil
  then show ?case by simp
next
  case (Cons e es)
  from applyNode_names[OF Cons.prems, of ops lt dur e]
  obtain ch1 where c1: "character (applyNode ops lt dur e st) = Some ch1"
    and n1: "\<forall>nm. findPath nm ch1 = findPath nm ch" by blast
  from Cons.IH[OF c1] n1 show ?case by simp
qed

lemma foldl_skip_missing:
  assumes "character st = Some ch" and "getObjectByName ch nm = None"
  shows "foldl (\<lambda>s e. applyNode ops lt dur e s) st (es1 @ (nm, na) # es2) =
         foldl (\<lambda>s e. applyNode ops lt dur e s) st (es1 @ es2)"
proof -
  from foldl_applyNode_names[OF assms(1), of ops lt dur es1]
  obtain ch1 where c1: "character (foldl (\<lambda>s e. applyNode ops lt dur e s) st es1) = Some ch1"
    and n1: "\<forall>nm. findPath nm ch1 = findPath nm ch" by blast
  have "getObjectByName ch1 nm = None"
    using n1 assms(2) by (simp add: getObjectByName_def)
  from applyNode_missing[OF c1 this] show ?thesis by simp
qed

lemma applyNode_no_orientation:
  assumes "character st = Some ch"
    and "orientationTrack na = None \<or> orientationTrack na = Some []"
  shows "\<exists>ch'. character (applyNode ops lt dur (nm, na) st) = Some ch' \<and>
     (\<forall>r. map_option quaternion (getAt r ch') = map_option quaternion (getAt r ch))"
proof -
  from applyNode_shape[OF assms(1), of ops lt dur nm na] assms(2)
  obtain f2 where c: "character (applyNode ops lt dur (nm, na) st) = Some (f2 ch)"
    and a2: "f2 = id \<or> (\<exists>p v. f2 = updateAt p (setPosition v))"
    by auto
  have "\<forall>r. map_option quaternion (getAt r (f2 ch)) = map_option quaternion (getAt r ch)"
    using a2 by (auto simp: quaternion_setPosition)
  then show ?thesis using c by simp
qed

lemma applyNode_no_position:
  assumes "character st = Some ch"
    and "positionTrack na = None \<or> positionTrack na = Some []"
  shows "\<exists>ch'. character (applyNode ops lt dur (nm, na) st) = Some ch' \<and>
     (\<forall>r. map_option position (getAt r ch') = map_option position (getAt r ch))"
proof -
  from applyNode_shape[OF assms(1), of ops lt dur nm na] assms(2)
  obtain f1 where c: "character (applyNode ops lt dur (nm, na) st) = Some (f1 ch)"
    and a1: "f1 = id \<or> (\<exists>p q. f1 = updateAt p (setQuaternion q))"
    by auto
  have "\<forall>r. map_option position (getAt r (f1 ch)) = map_option position (getAt r ch)"
    using a1 by (auto simp: position_setQuaternion)
  then show ?thesis using c by simp
qed

text \<open>
  C9. \<open>applyAnimation\<close> is a total function of the document and the viewer: for a
  document of the schema no read of the code can fail, and the frame has no branch that
  aborts. An entry whose name matches no object leaves the viewer as it is, and the
  frame gives the same result as without that entry; an entry without an orientation
  track, or with an empty one, leaves every quaternion of the scene as it is, and
  likewise for the position track and the positions; and after any entry the entries
  that follow it are processed from the state it leaves.
\<close>

theorem applyAnimation_degrades:
  assumes "character st = Some ch"
  shows
   "(getObjectByName ch nm = None \<longrightarrow>
       applyNode ops lt dur (nm, na) st = st
     \<and> applyAnimation ops (Some (a\<lparr>nodeAnimations := Some (es1 @ (nm, na) # es2)\<rparr>)) tm st
       = applyAnimation ops (Some (a\<lparr>nodeAnimations := Some (es1 @ es2)\<rparr>)) tm st)
  \<and> (orientationTrack na = None \<or> orientationTrack na = Some [] \<longrightarrow>
       (\<exists>ch'. character (applyNode ops lt dur (nm, na) st) = Some ch'
          \<and> (\<forall>r. map_option quaternion (getAt r ch') = map_option quaternion (getAt r ch))))
  \<and> (positionTrack na = None \<or> positionTrack na = Some [] \<longrightarrow>
       (\<exists>ch'. character (applyNode ops lt dur (nm, na) st) = Some ch'
          \<and> (\<forall>r. map_option position (getAt r ch') = map_option position (getAt r ch))))
  \<and> applyAnimation ops (Some (a\<lparr>nodeAnimations := Some (es1 @ e # es2)\<rparr>)) tm st =
      foldl (\<lambda>s e. applyNode ops (loopTime tm (duration a)) (duration a) e s)
        (applyNode ops (loopTime tm (duration a)) (duration a) e
          (foldl (\<lambda>s e. applyNode ops (loopTime tm (duration a)) (duration a) e s) st es1))
        es2"
proof -
  have p1: "getObjectByName ch nm = None \<Longrightarrow> applyNode ops lt dur (nm, na) st = st"
    using assms by (rule applyNode_missing)
  have p2: "getObjectByName ch nm = None \<Longrightarrow>
      applyAnimation ops (Some (a\<lparr>nodeAnimations := Some (es1 @ (nm, na) # es2)\<rparr>)) tm st
       = applyAnimation ops (Some (a\<lparr>nodeAnimations := Some (es1 @ es2)\<rparr>)) tm st"
    using assms foldl_skip_missing[OF assms, of nm ops "loopTime tm (duration a)" "duration a" es1 na es2]
    by (simp add: applyAnimation_def)
  have p5: "applyAnimation ops (Some (a\<lparr>nodeAnimations := Some (es1 @ e # es2)\<rparr>)) tm st =
      foldl (\<lambda>s e. applyNode ops (loopTime tm (duration a)) (duration a) e s)
        (applyNode ops (loopTime tm (duration a)) (duration a) e
          (foldl (\<lambda>s e. applyNode ops (loopTime tm (duration a)) (duration a) e s) st es1))
        es2"
    using assms by (simp add: applyAnimation_def)
  show ?thesis
    using p1 p2 p5 applyNode_no_orientation[OF assms, of na ops lt dur nm]
      applyNode_no_position[OF assms, of na ops lt dur nm]
    by blast
qed

theorem applyAnimation_degrades_witness:
  "getObjectByName (Object3D [] False zeroVec (Quaternion 0 1 0 0)
       [Object3D ''Chest'' False zeroVec identityQuat []]) ''Tail'' = None
   \<and> applyAnimation
        \<lparr>slerpQuaternions = (\<lambda>q1 q2 f. if f = Some 0 then q1 else q2),
         lerpVectors = (\<lambda>v1 v2 f. if f = Some 0 then v1 else v2),
         applyQuaternion = (\<lambda>v q. v)\<rparr>
        (Some \<lparr>duration = 10, holdLastKeyframe = False, nodeAnimations = Some
           ([] @ (''Tail'', \<lparr>positionTrack = None, orientationTrack = Some
               [\<lparr>time = 0, delta = Quaternion 1 0 0 0, interpolationType = ''linear''\<rparr>]\<rparr>)
             # [(''Chest'', \<lparr>positionTrack = Some [], orientationTrack = Some
               [\<lparr>time = 0, delta = Quaternion 0 0 1 0, interpolationType = ''linear''\<rparr>]\<rparr>)])\<rparr>)
        3
        (newViewer\<lparr>character := Some (Object3D [] False zeroVec (Quaternion 0 1 0 0)
           [Object3D ''Chest'' False zeroVec identityQuat []])\<rparr>)
     = newViewer\<lparr>character := Some (Object3D [] False zeroVec (Quaternion 0 1 0 0)
           [Object3D ''Chest'' False zeroVec (Quaternion 0 0 1 0) []]),
         originalTransforms := [(''Chest'',
           \<lparr>t_position = zeroVec, t_quaternion = identityQuat\<rparr>)]\<rparr>
   \<and> (\<exists>ch'. character (applyNode
        \<lparr>slerpQuaternions = (\<lambda>q1 q2 f. if f = Some 0 then q1 else q2),
         lerpVectors = (\<lambda>v1 v2 f. if f = Some 0 then v1 else v2),
         applyQuaternion = (\<lambda>v q. v)\<rparr> (Some 3) 10
        (''Chest'', \<lparr>positionTrack = Some [], orientationTrack = Some
               [\<lparr>time = 0, delta = Quaternion 0 0 1 0, interpolationType = ''linear''\<rparr>]\<rparr>)
        (newViewer\<lparr>character := Some (Object3D [] False zeroVec (Quaternion 0 1 0 0)
           [Object3D ''Chest'' False zeroVec identityQuat []])\<rparr>)) = Some ch'
      \<and> map_option position (getAt [0] ch') = Some zeroVec)"
proof -
  let ?ch = "Object3D [] False zeroVec (Quaternion 0 1 0 0)
       [Object3D ''Chest'' False zeroVec identityQuat []]"
  let ?st = "newViewer\<lparr>character := Some ?ch\<rparr>"
  let ?ops = "\<lparr>slerpQuaternions = (\<lambda>q1 q2 f. if f = Some (0::real) then q1 else q2),
         lerpVectors = (\<lambda>v1 v2 f. if f = Some (0::real) then v1 else v2),
         applyQuaternion = (\<lambda>v q. v)\<rparr>"
  let ?chest = "(''Chest'', \<lparr>positionTrack = Some [], orientationTrack = Some
               [\<lparr>time = 0, delta = Quaternion 0 0 1 0, interpolationType = ''linear''\<rparr>]\<rparr>)"
  let ?a = "\<lparr>duration = 10, holdLastKeyframe = False, nodeAnimations = Some [?chest]\<rparr>"
  have c: "character ?st = Some ?ch" by simp
  have m: "getObjectByName ?ch ''Tail'' = None" by (simp add: getObjectByName_def)
  have lt: "loopTime 3 10 = Some 3" by (simp add: loopTime_def jsmod_def trunc_def rnd_eval)
  have r: "applyAnimation ?ops (Some ?a) 3 ?st =
     newViewer\<lparr>character := Some (Object3D [] False zeroVec (Quaternion 0 1 0 0)
           [Object3D ''Chest'' False zeroVec (Quaternion 0 0 1 0) []]),
         originalTransforms := [(''Chest'',
           \<lparr>t_position = zeroVec, t_quaternion = identityQuat\<rparr>)]\<rparr>"
    by (simp add: applyAnimation_def lt applyNode_def getObjectByName_def newViewer_def
        interpolateQuaternion_def findKeyframes_def multiply_def setQuaternion_def
        identityQuat_def zeroVec_def rnd_eval)
  let ?tail = "\<lparr>positionTrack = None, orientationTrack = Some
               [\<lparr>time = 0, delta = Quaternion 1 0 0 0, interpolationType = ''linear''\<rparr>]\<rparr>"
  from applyAnimation_degrades[OF c, where nm = "''Tail''" and ops = ?ops and lt = "Some 3"
      and dur = 10 and na = ?tail and a = ?a and ?es1.0 = "[]" and ?es2.0 = "[?chest]"
      and tm = 3 and e = ?chest] m
  have "applyAnimation ?ops
      (Some (?a\<lparr>nodeAnimations := Some ([] @ (''Tail'', ?tail) # [?chest])\<rparr>)) 3 ?st =
    applyAnimation ?ops (Some (?a\<lparr>nodeAnimations := Some ([] @ [?chest])\<rparr>)) 3 ?st"
    by blast
  then have e1: "applyAnimation ?ops
      (Some \<lparr>duration = 10, holdLastKeyframe = False,
        nodeAnimations = Some ([] @ (''Tail'', ?tail) # [?chest])\<rparr>) 3 ?st =
     newViewer\<lparr>character := Some (Object3D [] False zeroVec (Quaternion 0 1 0 0)
           [Object3D ''Chest'' False zeroVec (Quaternion 0 0 1 0) []]),
         originalTransforms := [(''Chest'',
           \<lparr>t_position = zeroVec, t_quaternion = identityQuat\<rparr>)]\<rparr>"
    using r by simp
  have pt: "positionTrack (snd ?chest) = None \<or> positionTrack (snd ?chest) = Some []"
    by simp
  from applyAnimation_degrades[OF c, where nm = "''Chest''" and ops = ?ops and lt = "Some 3"
      and dur = 10 and na = "snd ?chest" and a = ?a and ?es1.0 = "[]" and ?es2.0 = "[]"
      and tm = 3 and e = ?chest] pt
  obtain ch' where c': "character (applyNode ?ops (Some 3) 10 (''Chest'', snd ?chest) ?st)
        = Some ch'"
    and p': "\<forall>r. map_option position (getAt r ch') = map_option position (getAt r ?ch)"
    by blast
  have "map_option position (getAt [0] ch') = map_option position (getAt [0] ?ch)"
    using p' by (rule spec)
  then have "map_option position (getAt [0] ch') = Some zeroVec"
    by simp
  then have e2: "\<exists>ch'. character (applyNode ?ops (Some 3) 10 ?chest ?st) = Some ch'
      \<and> map_option position (getAt [0] ch') = Some zeroVec"
    using c' by simp
  show ?thesis
    using m e1 e2 by blast
qed

subsection \<open>The keyframe arrays are not changed\<close>

lemma findKeyframesIn_keeps:
  assumes "b < length h"
  shows "snd (findKeyframesIn a tm dur h) ! b = h ! b"
    and "length h \<le> length (snd (findKeyframesIn a tm dur h))"
  using assms
  by (simp_all add: findKeyframesIn_def spread_def sortInPlace_def Let_def nth_append)

lemma findKeyframesIn_result:
  assumes "a < length h"
  shows "fst (findKeyframesIn a tm dur h) = findKeyframes (Some (h ! a)) tm dur"
  using assms
  by (simp add: findKeyframesIn_def findKeyframes_def spread_def sortInPlace_def Let_def
      nth_append)

lemma findKeyframesIn_sequence:
  assumes "b < length h"
  shows "foldl (\<lambda>h' (a, tm, dur). snd (findKeyframesIn a tm dur h')) h reqs ! b = h ! b
     \<and> length h \<le> length (foldl (\<lambda>h' (a, tm, dur). snd (findKeyframesIn a tm dur h')) h reqs)"
  using assms
proof (induction reqs arbitrary: h)
  case Nil
  then show ?case by simp
next
  case (Cons r reqs)
  obtain a tm dur where r: "r = (a, tm, dur)" by (cases r)
  let ?h1 = "snd (findKeyframesIn a tm dur h)"
  have k: "?h1 ! b = h ! b" and l: "length h \<le> length ?h1"
    using findKeyframesIn_keeps[OF Cons.prems] by simp_all
  have "b < length ?h1" using Cons.prems l by simp
  from Cons.IH[OF this] k l show ?case
    by (simp add: r)
qed

text \<open>
  C10. With the keyframe arrays in a store, \<open>findKeyframesIn\<close> sorts the copy that
  \<open>spread\<close> allocates and no array that existed before the call: after one call, and
  after any sequence of calls for any arrays, times and durations, every array of the
  store has the elements it had, in their order. What the call returns is what
  \<open>findKeyframes\<close> returns for the elements of the array; the two interpolation
  functions read the time, the delta and the interpolation type of the two keyframes it
  returns and write nothing.
\<close>

theorem findKeyframesIn_frame:
  "(b < length h \<longrightarrow>
      snd (findKeyframesIn a tm dur h) ! b = h ! b
    \<and> foldl (\<lambda>h' (a, tm, dur). snd (findKeyframesIn a tm dur h')) h reqs ! b = h ! b)
   \<and> (a < length h \<longrightarrow>
      fst (findKeyframesIn a tm dur h) = findKeyframes (Some (h ! a)) tm dur)"
  using findKeyframesIn_keeps(1)[of b h a tm dur] findKeyframesIn_sequence[of b h reqs]
    findKeyframesIn_result[of a h tm dur]
  by blast

theorem findKeyframesIn_frame_witness:
  "snd (findKeyframesIn 0 (Some 7.5) 10
      [[\<lparr>time = 5, delta = Quaternion 0 1 0 0, interpolationType = ''smooth''\<rparr>,
        \<lparr>time = 0, delta = Quaternion 0 0 0 1, interpolationType = ''linear''\<rparr>]])
    = [[\<lparr>time = 5, delta = Quaternion 0 1 0 0, interpolationType = ''smooth''\<rparr>,
        \<lparr>time = 0, delta = Quaternion 0 0 0 1, interpolationType = ''linear''\<rparr>],
       [\<lparr>time = 0, delta = Quaternion 0 0 0 1, interpolationType = ''linear''\<rparr>,
        \<lparr>time = 5, delta = Quaternion 0 1 0 0, interpolationType = ''smooth''\<rparr>]]
   \<and> foldl (\<lambda>h' (a, tm, dur). snd (findKeyframesIn a tm dur h'))
      [[\<lparr>time = 5, delta = Quaternion 0 1 0 0, interpolationType = ''smooth''\<rparr>,
        \<lparr>time = 0, delta = Quaternion 0 0 0 1, interpolationType = ''linear''\<rparr>]]
      [(0, Some 7.5, 10), (0, Some 2, 10)] ! 0
    = [\<lparr>time = 5, delta = Quaternion 0 1 0 0, interpolationType = ''smooth''\<rparr>,
       \<lparr>time = 0, delta = Quaternion 0 0 0 1, interpolationType = ''linear''\<rparr>]
   \<and> fst (findKeyframesIn 0 (Some 7.5) 10
      [[\<lparr>time = 5, delta = Quaternion 0 1 0 0, interpolationType = ''smooth''\<rparr>,
        \<lparr>time = 0, delta = Quaternion 0 0 0 1, interpolationType = ''linear''\<rparr>]])
    = findKeyframes (Some
       [\<lparr>time = 5, delta = Quaternion 0 1 0 0, interpolationType = ''smooth''\<rparr>,
        \<lparr>time = 0, delta = Quaternion 0 0 0 1, interpolationType = ''linear''\<rparr>])
       (Some 7.5) 10"
  using findKeyframesIn_frame
    [of 0 "[[\<lparr>time = 5, delta = Quaternion 0 1 0 0, interpolationType = ''smooth''\<rparr>,
        \<lparr>time = 0, delta = Quaternion 0 0 0 1, interpolationType = ''linear''\<rparr>]]"
      0 "Some 7.5" 10 "[(0, Some 7.5, 10), (0, Some 2, 10)]"]
  by (simp add: findKeyframesIn_def spread_def sortInPlace_def)

text \<open>
  With \<open>holdLastKeyframe\<close> the pose that is held is the pose of loop time 0: the
  duration itself wraps to 0.
\<close>

lemma sample_held_pose:
  assumes "holdLastKeyframe a" and "duration a \<le> tm"
  shows "sample ops a tm st = applyAnimation ops (Some a) 0 st"
proof -
  have "applyAnimation ops (Some a) (duration a) st = applyAnimation ops (Some a) 0 st"
    using loopTime_duration by (rule applyAnimation_loopTime)
  then show ?thesis
    using assms by (auto simp: sample_def frameTime_def min_def)
qed

section \<open>Properties of the texture synthesizer\<close>

subsection \<open>The pixel loop\<close>

lemma tintPixel_length: "length (tintPixel gd c r g b a) = 4"
  by (simp add: tintPixel_def Let_def split: option.splits)

lemma tintData_length: "length (tintData gd c d) = length d"
  by (induction gd c d rule: tintData.induct) (simp_all add: tintPixel_length)

lemma tintData_pixelAt:
  "4 * i + 3 < length d \<Longrightarrow>
   pixelAt (tintData gd c d) i =
     tintPixel gd c (d ! (4 * i)) (d ! (4 * i + 1)) (d ! (4 * i + 2)) (d ! (4 * i + 3))"
proof (induction gd c d arbitrary: i rule: tintData.induct)
  case (1 gd c r g b a rest)
  show ?case
  proof (cases i)
    case 0
    then show ?thesis by (simp add: pixelAt_def tintPixel_length)
  next
    case (Suc j)
    have "4 * j + 3 < length rest"
      using 1(2) Suc by simp
    from 1(1)[OF this] show ?thesis
      using Suc by (simp add: pixelAt_def tintPixel_length add.commute)
  qed
qed simp_all

lemma parseColor_Some: "parseColor v \<noteq> None"
  by (induction v rule: parseColor.induct) (simp_all add: Let_def)

text \<open>
  For a channel that is not negative the stored byte is the rounded product, capped at
  255: rounding and the cap commute.
\<close>

lemma tintChannel_valid:
  assumes "0 \<le> v"
  shows "int (tintChannel (Some v) grey) = min 255 (jsround (of_int v * 2 * real grey / 255))"
proof -
  have "0 \<le> of_int v * (real grey / 255) * 2"
    using assms by simp
  then have "0 \<le> min 255 (of_int v * (real grey / 255) * 2)"
    by simp
  then have nn: "0 \<le> jsround (min 255 (of_int v * (real grey / 255) * 2))"
    unfolding jsround_def by linarith
  have le: "jsround (min 255 (of_int v * (real grey / 255) * 2)) \<le> 255"
    unfolding jsround_def by (simp add: floor_le_iff)
  have comm: "jsround (min 255 (of_int v * (real grey / 255) * 2)) =
      min 255 (jsround (of_int v * 2 * real grey / 255))"
    unfolding jsround_def min_def by (auto simp: algebra_simps; linarith)
  show ?thesis
    using nn le by (simp add: tintChannel_def toUint8Clamped_def comm[symmetric])
qed

text \<open>
  The product that is rounded is never half-way between two integers (its distance to
  the nearest such point is at least 1/510), so the rounding does not depend on the last
  bits of a floating-point product.
\<close>

lemma tint_product_not_half: "of_int v * 2 * real grey / 255 \<noteq> of_int k + 1 / 2"
proof
  assume "of_int v * 2 * real grey / 255 = of_int k + 1 / 2"
  then have "of_int v * 4 * real grey = of_int k * 510 + (255::real)"
    by (simp add: field_simps)
  then have "(of_int (v * 4 * int grey) :: real) = of_int (k * 510 + 255)"
    by simp
  then have eq: "v * 4 * int grey = k * 510 + 255"
    by (simp only: of_int_eq_iff)
  have "even (v * 4 * int grey)" and "odd (k * 510 + 255)"
    by simp_all
  with eq show False
    by simp
qed

subsection \<open>What a tinting request returns\<close>

lemma createTintedTexture_result:
  assumes "loadTexture ld greyscalePath cache = (Some tex, cache1)"
    and "0 < img_width tex" and "0 < img_height tex"
    and "loadGradientData ld gradientTexturePath cache1 = (gd, cache2)"
  shows "createTintedTexture ld greyscalePath baseColor gradientTexturePath cache =
    (Inr (Some \<lparr>img_width = img_width tex, img_height = img_height tex,
            img_data = tintData gd (parseColor baseColor) (img_data tex)\<rparr>), cache2)"
  using assms by (simp add: createTintedTexture_def)

lemma loadTexture_cached:
  "cache path = Some tex \<Longrightarrow> loadTexture ld path cache = (Some tex, cache)"
  by (simp add: loadTexture_def)

lemma loadTexture_keeps:
  "cache q = Some tex \<Longrightarrow> snd (loadTexture ld path cache) q = Some tex"
  by (auto simp: loadTexture_def split: option.splits)

lemma loadTexture_entries:
  "snd (loadTexture ld path cache) q = Some tex \<Longrightarrow>
   cache q = Some tex \<or> (\<exists>u. ld u = Some tex)"
proof -
  have fl: "\<And>us. firstLoaded ld us = Some tex \<Longrightarrow> \<exists>u. ld u = Some tex"
  proof -
    fix us
    show "firstLoaded ld us = Some tex \<Longrightarrow> \<exists>u. ld u = Some tex"
      by (induction us) (auto split: option.splits)
  qed
  assume "snd (loadTexture ld path cache) q = Some tex"
  then show ?thesis
    using fl by (auto simp: loadTexture_def split: option.splits if_splits)
qed

lemma loadGradientData_keeps:
  assumes "cache q = Some tex"
  shows "snd (loadGradientData ld gp cache) q = Some tex"
proof -
  have "\<And>p r c'. loadTexture ld p cache = (r, c') \<Longrightarrow> c' q = Some tex"
    using loadTexture_keeps[of cache q tex ld] assms by (metis snd_conv)
  then show ?thesis
    using assms by (auto simp: loadGradientData_def split: option.splits prod.splits)
qed

lemma loadGradientData_entries:
  assumes "snd (loadGradientData ld gp cache) q = Some tex"
  shows "cache q = Some tex \<or> (\<exists>u. ld u = Some tex)"
proof -
  have "\<And>p r c'. loadTexture ld p cache = (r, c') \<Longrightarrow> c' q = Some tex \<Longrightarrow>
      cache q = Some tex \<or> (\<exists>u. ld u = Some tex)"
    using loadTexture_entries[of ld _ cache q tex] by (metis snd_conv)
  then show ?thesis
    using assms
    by (auto simp: loadGradientData_def split: option.splits prod.splits if_splits)
qed

lemma loadGradientData_size:
  "fst (loadGradientData ld gp cache) = Some g \<Longrightarrow> 0 < img_width g \<and> 0 < img_height g"
  by (auto simp: loadGradientData_def split: option.splits prod.splits if_splits)

lemma pixelAt_nth:
  assumes "4 * i + 3 < length d"
  shows "pixelAt d i = [d ! (4 * i), d ! (4 * i + 1), d ! (4 * i + 2), d ! (4 * i + 3)]"
proof -
  have l: "length (pixelAt d i) = 4"
    using assms by (simp add: pixelAt_def)
  have n: "\<And>k. k < 4 \<Longrightarrow> pixelAt d i ! k = d ! (4 * i + k)"
    using assms by (simp add: pixelAt_def)
  show ?thesis
    by (rule nth_equalityI) (auto simp: l n less_Suc_eq numeral_eq_Suc nth_Cons')
qed

lemma gradient_column:
  assumes "0 < img_width g" and "4 * img_width g \<le> length (img_data g)" and "k < 4"
  shows "gradientByte g (min (int R) (int (img_width g) - 1) * 4 + int k) =
         img_data g ! (4 * min R (img_width g - 1) + k)"
proof -
  have m: "min (int R) (int (img_width g) - 1) = int (min R (img_width g - 1))"
    using assms(1) by (simp add: min_def) linarith
  have "min R (img_width g - 1) < img_width g"
    using assms(1) by simp
  then have "4 * min R (img_width g - 1) + k < length (img_data g)"
    using assms(2,3) by linarith
  then show ?thesis
    unfolding m gradientByte_def
    by (simp add: nat_add_distrib nat_mult_distrib mult.commute)
qed

text \<open>
  What a tinting request does to a pixel. A request whose greyscale texture loads returns
  an image in which a pixel that is fully transparent or not grey keeps its four bytes;
  a grey pixel with alpha above 0 gets, with gradient data, the red, green and blue of
  the gradient's first row at column min(grey, width - 1), and without gradient data
  the channels of the colour that \<open>parseColor\<close> returns, each scaled by 2 grey / 255,
  rounded and capped at 255.
\<close>

lemma createTintedTexture_pixels:
  assumes src: "loadTexture ld greyscalePath cache = (Some tex, cache1)"
    and size: "0 < img_width tex" "0 < img_height tex"
    and grad: "loadGradientData ld gradientTexturePath cache1 = (gd, cache2)"
    and idx: "4 * i + 3 < length (img_data tex)"
    and px: "pixelAt (img_data tex) i = [R, G, B, A]"
  shows "\<exists>out. fst (createTintedTexture ld greyscalePath baseColor gradientTexturePath cache)
            = Inr (Some out)
      \<and> (A = 0 \<or> \<not> (R = G \<and> G = B) \<longrightarrow> pixelAt (img_data out) i = [R, G, B, A])
      \<and> (0 < A \<and> R = G \<and> G = B \<longrightarrow>
           (\<forall>g. gd = Some g \<and> 4 * img_width g \<le> length (img_data g) \<longrightarrow>
              pixelAt (img_data out) i =
                [img_data g ! (4 * min R (img_width g - 1)),
                 img_data g ! (4 * min R (img_width g - 1) + 1),
                 img_data g ! (4 * min R (img_width g - 1) + 2), A])
         \<and> (gd = None \<longrightarrow>
              (\<exists>c. parseColor baseColor = Some c \<and>
                 pixelAt (img_data out) i =
                   [tintChannel (c_r c) R, tintChannel (c_g c) R, tintChannel (c_b c) R, A])))
      \<and> (\<forall>v. 0 \<le> v \<longrightarrow>
            int (tintChannel (Some v) R) = min 255 (jsround (of_int v * 2 * real R / 255)))
      \<and> parseColor JOther = Some \<lparr>c_r = Some 200, c_g = Some 200, c_b = Some 200\<rparr>"
proof -
  let ?out = "\<lparr>img_width = img_width tex, img_height = img_height tex,
            img_data = tintData gd (parseColor baseColor) (img_data tex)\<rparr>"
  have res: "fst (createTintedTexture ld greyscalePath baseColor gradientTexturePath cache)
      = Inr (Some ?out)"
    using createTintedTexture_result[OF src size grad] by simp
  have nth: "img_data tex ! (4 * i) = R" "img_data tex ! (4 * i + 1) = G"
      "img_data tex ! (4 * i + 2) = B" "img_data tex ! (4 * i + 3) = A"
    using px pixelAt_nth[OF idx] by simp_all
  have out: "pixelAt (img_data ?out) i = tintPixel gd (parseColor baseColor) R G B A"
    using tintData_pixelAt[OF idx] nth by simp
  have keep: "A = 0 \<or> \<not> (R = G \<and> G = B) \<Longrightarrow>
      tintPixel gd (parseColor baseColor) R G B A = [R, G, B, A]"
    by (auto simp: tintPixel_def)
  have gradc: "\<And>g. 0 < A \<Longrightarrow> R = G \<Longrightarrow> G = B \<Longrightarrow> gd = Some g \<Longrightarrow>
      4 * img_width g \<le> length (img_data g) \<Longrightarrow>
      tintPixel gd (parseColor baseColor) R G B A =
        [img_data g ! (4 * min R (img_width g - 1)),
         img_data g ! (4 * min R (img_width g - 1) + 1),
         img_data g ! (4 * min R (img_width g - 1) + 2), A]"
  proof -
    fix g
    assume a: "0 < A" "R = G" "G = B" "gd = Some g" "4 * img_width g \<le> length (img_data g)"
    have w: "0 < img_width g"
      using loadGradientData_size[of ld gradientTexturePath cache1 g] grad a(4) by simp
    show "tintPixel gd (parseColor baseColor) R G B A =
        [img_data g ! (4 * min R (img_width g - 1)),
         img_data g ! (4 * min R (img_width g - 1) + 1),
         img_data g ! (4 * min R (img_width g - 1) + 2), A]"
      using a gradient_column[OF w a(5), of 0 B] gradient_column[OF w a(5), of 1 B]
        gradient_column[OF w a(5), of 2 B]
      by (simp add: tintPixel_def Let_def)
  qed
  have flat: "0 < A \<Longrightarrow> R = G \<Longrightarrow> G = B \<Longrightarrow> gd = None \<Longrightarrow>
     (\<exists>c. parseColor baseColor = Some c \<and>
        tintPixel gd (parseColor baseColor) R G B A =
          [tintChannel (c_r c) R, tintChannel (c_g c) R, tintChannel (c_b c) R, A])"
    using parseColor_Some[of baseColor] by (auto simp: tintPixel_def)
  have chan: "\<forall>v. 0 \<le> v \<longrightarrow>
      int (tintChannel (Some v) R) = min 255 (jsround (of_int v * 2 * real R / 255))"
    using tintChannel_valid by blast
  have dflt: "parseColor JOther = Some \<lparr>c_r = Some 200, c_g = Some 200, c_b = Some 200\<rparr>"
    by simp
  show ?thesis
    apply (rule exI[of _ ?out])
    using res out keep gradc flat chan dflt by (simp only:) blast
qed

lemma createTintedTexture_pixels_example:
  "(\<exists>out. fst (createTintedTexture
       (\<lambda>u. if u = ''/asset/Common/Skin.png''
            then Some \<lparr>img_width = 3, img_height = 1,
                   img_data = [128, 128, 128, 255, 1, 2, 3, 255, 9, 9, 9, 0]\<rparr>
            else None)
       ''Skin.png'' (JStr ''#ff0000'') None Map.empty) = Inr (Some out)
     \<and> pixelAt (img_data out) 0 = [255, 0, 0, 255]
     \<and> pixelAt (img_data out) 1 = [1, 2, 3, 255]
     \<and> pixelAt (img_data out) 2 = [9, 9, 9, 0])
   \<and> (\<exists>out. fst (createTintedTexture
       (\<lambda>u. if u = ''/asset/Common/Skin.png''
            then Some \<lparr>img_width = 1, img_height = 1, img_data = [128, 128, 128, 255]\<rparr>
            else if u = ''/asset/Common/Grad.png''
            then Some \<lparr>img_width = 2, img_height = 1,
                   img_data = [10, 20, 30, 255, 40, 50, 60, 255]\<rparr>
            else None)
       ''Skin.png'' (JStr ''#ff0000'') (Some ''Grad.png'') Map.empty) = Inr (Some out)
     \<and> pixelAt (img_data out) 0 = [40, 50, 60, 255])"
proof (rule conjI)
  show "\<exists>out. fst (createTintedTexture
       (\<lambda>u. if u = ''/asset/Common/Skin.png''
            then Some \<lparr>img_width = 3, img_height = 1,
                   img_data = [128, 128, 128, 255, 1, 2, 3, 255, 9, 9, 9, 0]\<rparr>
            else None)
       ''Skin.png'' (JStr ''#ff0000'') None Map.empty) = Inr (Some out)
     \<and> pixelAt (img_data out) 0 = [255, 0, 0, 255]
     \<and> pixelAt (img_data out) 1 = [1, 2, 3, 255]
     \<and> pixelAt (img_data out) 2 = [9, 9, 9, 0]"
  proof -
    let ?tex = "\<lparr>img_width = 3, img_height = 1,
                     img_data = [128, 128, 128, 255, 1, 2, 3, 255, 9, 9, 9, 0]\<rparr>"
    let ?ld = "\<lambda>u. if u = ''/asset/Common/Skin.png'' then Some ?tex else None"
    have src: "loadTexture ?ld ''Skin.png'' Map.empty = (Some ?tex, [''Skin.png'' \<mapsto> ?tex])"
      by (simp add: loadTexture_def pathsToTry_def startsWith_def)
    have grad: "loadGradientData ?ld None [''Skin.png'' \<mapsto> ?tex] = (None, [''Skin.png'' \<mapsto> ?tex])"
      by (simp add: loadGradientData_def)
    have w: "0 < img_width ?tex" "0 < img_height ?tex" by simp_all
    have px: "pixelAt (img_data ?tex) 0 = [128, 128, 128, 255]"
       "pixelAt (img_data ?tex) 1 = [1, 2, 3, 255]"
       "pixelAt (img_data ?tex) 2 = [9, 9, 9, 0]"
      by (simp_all add: pixelAt_def)
    have i: "4 * 0 + 3 < length (img_data ?tex)" "4 * 1 + 3 < length (img_data ?tex)"
       "4 * 2 + 3 < length (img_data ?tex)" by simp_all
    have pc: "parseColor (JStr ''#ff0000'') = Some \<lparr>c_r = Some 255, c_g = Some 0, c_b = Some 0\<rparr>"
      by (simp add: startsWith_def parseInt16_def substr_def hexDigit_def isSpace_def)
    have tc: "tintChannel (Some 255) 128 = 255" "tintChannel (Some 0) 128 = 0"
      by (simp_all add: tintChannel_def jsround_def toUint8Clamped_def)
    from createTintedTexture_pixels[OF src w grad i(1) px(1), of "JStr ''#ff0000''"]
         createTintedTexture_pixels[OF src w grad i(2) px(2), of "JStr ''#ff0000''"]
         createTintedTexture_pixels[OF src w grad i(3) px(3), of "JStr ''#ff0000''"]
    show ?thesis
      by (auto simp: pc tc simp del: parseColor.simps)
  qed
  show "\<exists>out. fst (createTintedTexture
       (\<lambda>u. if u = ''/asset/Common/Skin.png''
            then Some \<lparr>img_width = 1, img_height = 1, img_data = [128, 128, 128, 255]\<rparr>
            else if u = ''/asset/Common/Grad.png''
            then Some \<lparr>img_width = 2, img_height = 1,
                   img_data = [10, 20, 30, 255, 40, 50, 60, 255]\<rparr>
            else None)
       ''Skin.png'' (JStr ''#ff0000'') (Some ''Grad.png'') Map.empty) = Inr (Some out)
     \<and> pixelAt (img_data out) 0 = [40, 50, 60, 255]"
  proof -
    let ?tex = "\<lparr>img_width = 1, img_height = 1, img_data = [128, 128, 128, 255]\<rparr>"
    let ?g = "\<lparr>img_width = 2, img_height = 1, img_data = [10, 20, 30, 255, 40, 50, 60, 255]\<rparr>"
    let ?ld = "\<lambda>u. if u = ''/asset/Common/Skin.png'' then Some ?tex
              else if u = ''/asset/Common/Grad.png'' then Some ?g else None"
    have src: "loadTexture ?ld ''Skin.png'' Map.empty = (Some ?tex, [''Skin.png'' \<mapsto> ?tex])"
      by (simp add: loadTexture_def pathsToTry_def startsWith_def)
    have grad: "loadGradientData ?ld (Some ''Grad.png'') [''Skin.png'' \<mapsto> ?tex] =
        (Some ?g, [''Skin.png'' \<mapsto> ?tex, ''Grad.png'' \<mapsto> ?g])"
      by (simp add: loadGradientData_def loadTexture_def pathsToTry_def startsWith_def)
    have w: "0 < img_width ?tex" "0 < img_height ?tex" by simp_all
    have px: "pixelAt (img_data ?tex) 0 = [128, 128, 128, 255]"
      by (simp add: pixelAt_def)
    have i: "4 * 0 + 3 < length (img_data ?tex)" by simp
    from createTintedTexture_pixels[OF src w grad i px, of "JStr ''#ff0000''"]
    show ?thesis
      by (auto simp del: parseColor.simps)
  qed
qed

text \<open>
  C7. The last branch of the pixel loop passes the grey value through when there is
  neither gradient data nor a parsed colour, as the claim says: \<open>tintPixel\<close> without
  both leaves the grey 100. No request reaches that branch, because \<open>parseColor\<close>
  returns a colour on every path, (200, 200, 200) for a base colour that is absent: a
  request without gradient and without base colour turns the grey 100 into 157, the
  rounded 200 * 2 * 100 / 255.
\<close>

theorem createTintedTexture_neither:
  "tintPixel None None 100 100 100 255 = [100, 100, 100, 255]
   \<and> parseColor JOther = Some \<lparr>c_r = Some 200, c_g = Some 200, c_b = Some 200\<rparr>
   \<and> fst (createTintedTexture
       (\<lambda>u. if u = ''/asset/Common/Skin.png''
            then Some \<lparr>img_width = 1, img_height = 1, img_data = [100, 100, 100, 255]\<rparr>
            else None)
       ''Skin.png'' JOther None Map.empty)
     = Inr (Some \<lparr>img_width = 1, img_height = 1, img_data = [157, 157, 157, 255]\<rparr>)"
  by (simp add: createTintedTexture_def loadTexture_def pathsToTry_def startsWith_def
      loadGradientData_def tintPixel_def tintChannel_def jsround_def toUint8Clamped_def)

text \<open>
  C2, as the code has it. The texture cache is keyed by the source path and holds the
  loaded source image. A tinting request for a path that is cached takes the source
  from the cache and returns a new image tinted with its own base colour and gradient;
  the cache still maps the path to the untinted source, and every entry of the cache
  after the request was there before or is an image that the loader returned.
\<close>

theorem createTintedTexture_cached_source:
  assumes "cache greyscalePath = Some tex" and "0 < img_width tex" and "0 < img_height tex"
  shows "fst (createTintedTexture ld greyscalePath baseColor gradientTexturePath cache) =
      Inr (Some \<lparr>img_width = img_width tex, img_height = img_height tex,
             img_data = tintData (fst (loadGradientData ld gradientTexturePath cache))
               (parseColor baseColor) (img_data tex)\<rparr>)
    \<and> snd (createTintedTexture ld greyscalePath baseColor gradientTexturePath cache)
        greyscalePath = Some tex
    \<and> (\<forall>q im. snd (createTintedTexture ld greyscalePath baseColor gradientTexturePath cache) q
          = Some im \<longrightarrow> cache q = Some im \<or> (\<exists>u. ld u = Some im))"
proof -
  obtain gd cache2 where g: "loadGradientData ld gradientTexturePath cache = (gd, cache2)"
    by (cases "loadGradientData ld gradientTexturePath cache")
  have r: "createTintedTexture ld greyscalePath baseColor gradientTexturePath cache =
    (Inr (Some \<lparr>img_width = img_width tex, img_height = img_height tex,
            img_data = tintData gd (parseColor baseColor) (img_data tex)\<rparr>), cache2)"
  proof -
    have lt: "loadTexture ld greyscalePath cache = (Some tex, cache)"
      using assms(1) by (rule loadTexture_cached)
    show ?thesis
      using lt assms(2,3) g by (rule createTintedTexture_result)
  qed
  have k: "cache2 greyscalePath = Some tex"
    using loadGradientData_keeps[of cache greyscalePath tex ld gradientTexturePath] assms(1) g
    by simp
  have e: "\<forall>q im. cache2 q = Some im \<longrightarrow> cache q = Some im \<or> (\<exists>u. ld u = Some im)"
    using loadGradientData_entries[of ld gradientTexturePath cache] g by simp
  show ?thesis
    using r g k e by simp
qed

theorem createTintedTexture_cached_source_witness:
  "fst (createTintedTexture (\<lambda>u. None) ''Skin.png'' (JStr ''#0000ff'') None
      [''Skin.png'' \<mapsto> \<lparr>img_width = 1, img_height = 1, img_data = [128, 128, 128, 255]\<rparr>])
    = Inr (Some \<lparr>img_width = 1, img_height = 1, img_data = [0, 0, 255, 255]\<rparr>)
   \<and> snd (createTintedTexture (\<lambda>u. None) ''Skin.png'' (JStr ''#0000ff'') None
      [''Skin.png'' \<mapsto> \<lparr>img_width = 1, img_height = 1, img_data = [128, 128, 128, 255]\<rparr>])
      ''Skin.png''
    = Some \<lparr>img_width = 1, img_height = 1, img_data = [128, 128, 128, 255]\<rparr>"
  using createTintedTexture_cached_source
    [of "[''Skin.png'' \<mapsto> \<lparr>img_width = 1, img_height = 1, img_data = [128, 128, 128, 255]\<rparr>]"
        "''Skin.png''" "\<lparr>img_width = 1, img_height = 1, img_data = [128, 128, 128, 255]\<rparr>"
        "\<lambda>u. None" "JStr ''#0000ff''" None]
  by (simp add: loadGradientData_def tintPixel_def tintChannel_def jsround_def toUint8Clamped_def
      startsWith_def parseInt16_def substr_def hexDigit_def isSpace_def)

text \<open>
  The claim as written fails: two requests for the same path with different base
  colours return different images, the second tinted with its own colour.
\<close>

theorem tint_cache_counterexample:
  "fst (createTintedTexture
     (\<lambda>u. if u = ''/asset/Common/Skin.png''
          then Some \<lparr>img_width = 1, img_height = 1, img_data = [128, 128, 128, 255]\<rparr>
          else None)
     ''Skin.png'' (JStr ''#ff0000'') None Map.empty)
   = Inr (Some \<lparr>img_width = 1, img_height = 1, img_data = [255, 0, 0, 255]\<rparr>)
  \<and> fst (createTintedTexture
     (\<lambda>u. if u = ''/asset/Common/Skin.png''
          then Some \<lparr>img_width = 1, img_height = 1, img_data = [128, 128, 128, 255]\<rparr>
          else None)
     ''Skin.png'' (JStr ''#0000ff'') None
     (snd (createTintedTexture
       (\<lambda>u. if u = ''/asset/Common/Skin.png''
            then Some \<lparr>img_width = 1, img_height = 1, img_data = [128, 128, 128, 255]\<rparr>
            else None)
       ''Skin.png'' (JStr ''#ff0000'') None Map.empty)))
   = Inr (Some \<lparr>img_width = 1, img_height = 1, img_data = [0, 0, 255, 255]\<rparr>)"
  by (simp add: createTintedTexture_def loadTexture_def pathsToTry_def startsWith_def
      loadGradientData_def tintPixel_def tintChannel_def jsround_def toUint8Clamped_def
      parseInt16_def substr_def hexDigit_def isSpace_def)

section \<open>Properties of the UV layout resolver\<close>

lemma uvVertices_angle0:
  "uvVertices 0 (uvResult 0 (sx, sy) (1, 1) (offx, offy)) texW texH =
   [offx / texW, 1 - offy / texH, (offx + sx) / texW, 1 - offy / texH,
    offx / texW, 1 - (offy + sy) / texH, (offx + sx) / texW, 1 - (offy + sy) / texH]"
  by (simp add: uvVertices_def uvResult_def Let_def)

text \<open>
  C8. For a layout with angle 0 and no mirror flag, a quad's front layout and a box
  face's layout give the corners (offset.x / texW, 1 - offset.y / texH) and
  ((offset.x + size.x) / texW, 1 - (offset.y + size.y) / texH), written to the four
  vertex slots in the order (u1, v1), (u2, v1), (u1, v2), (u2, v2). The size of a box
  face is (depth, height) for left and right, (width, depth) for top and bottom and
  (width, height) for front and back.
\<close>

theorem uv_angle0:
  assumes "layoutAngle l = 0" and "layoutMirror l = (1, 1)" and "l_offset l = Some (offx, offy)"
    and "tex = Some img" and "img_width img \<noteq> 0" and "img_height img \<noteq> 0"
    and "shapeSize shp = Some (Vector3 pixelW pixelH pixelD)"
    and "s_textureLayout shp = Some tlay"
    and "texW = real (img_width img)" and "texH = real (img_height img)"
  shows "(map_of tlay ''front'' = Some l \<longrightarrow>
           quadUV tex shp = Some
            [offx / texW, 1 - offy / texH, (offx + pixelW) / texW, 1 - offy / texH,
             offx / texW, 1 - (offy + pixelH) / texH,
             (offx + pixelW) / texW, 1 - (offy + pixelH) / texH])
     \<and> (map_of tlay faceName = Some l \<longrightarrow>
           boxFaceUV tex shp faceName = Some
            (let sx = (if faceName = ''left'' \<or> faceName = ''right'' then pixelD else pixelW);
                 sy = (if faceName = ''top'' \<or> faceName = ''bottom'' then pixelD else pixelH)
             in [offx / texW, 1 - offy / texH, (offx + sx) / texW, 1 - offy / texH,
                 offx / texW, 1 - (offy + sy) / texH,
                 (offx + sx) / texW, 1 - (offy + sy) / texH]))"
proof -
  have q: "map_of tlay ''front'' = Some l \<Longrightarrow> quadUV tex shp = Some
      [offx / texW, 1 - offy / texH, (offx + pixelW) / texW, 1 - offy / texH,
       offx / texW, 1 - (offy + pixelH) / texH,
       (offx + pixelW) / texW, 1 - (offy + pixelH) / texH]"
    using assms by (simp add: quadUV_def uvVertices_angle0)
  have ne: "map_of tlay faceName = Some l \<Longrightarrow> tlay \<noteq> []"
    by auto
  have b: "map_of tlay faceName = Some l \<Longrightarrow> boxFaceUV tex shp faceName = Some
      (let sx = (if faceName = ''left'' \<or> faceName = ''right'' then pixelD else pixelW);
           sy = (if faceName = ''top'' \<or> faceName = ''bottom'' then pixelD else pixelH)
       in [offx / texW, 1 - offy / texH, (offx + sx) / texW, 1 - offy / texH,
           offx / texW, 1 - (offy + sy) / texH,
           (offx + sx) / texW, 1 - (offy + sy) / texH])"
    using assms ne by (simp add: boxFaceUV_def uvVertices_angle0 Let_def)
  show ?thesis
    using q b by blast
qed

theorem uv_angle0_witness:
  "quadUV (Some \<lparr>img_width = 64, img_height = 32, img_data = []\<rparr>)
      \<lparr>s_type = ''quad'', s_visible = None, s_offset = None,
       s_settings = Some \<lparr>set_size = Some (Vector3 8 4 2), set_normal = None\<rparr>,
       s_textureLayout = Some [(''front'',
          \<lparr>l_offset = Some (16, 8), l_angle = Some 0, l_mirror = None\<rparr>)]\<rparr>
    = Some [1 / 4, 3 / 4, 3 / 8, 3 / 4, 1 / 4, 5 / 8, 3 / 8, 5 / 8]
   \<and> boxFaceUV (Some \<lparr>img_width = 64, img_height = 32, img_data = []\<rparr>)
      \<lparr>s_type = ''box'', s_visible = None, s_offset = None,
       s_settings = Some \<lparr>set_size = Some (Vector3 8 4 2), set_normal = None\<rparr>,
       s_textureLayout = Some [(''left'',
          \<lparr>l_offset = Some (16, 8), l_angle = None, l_mirror = Some (False, False)\<rparr>)]\<rparr>
      ''left''
    = Some [1 / 4, 3 / 4, 9 / 32, 3 / 4, 1 / 4, 5 / 8, 9 / 32, 5 / 8]"
  using uv_angle0
    [of "\<lparr>l_offset = Some (16, 8), l_angle = Some 0, l_mirror = None\<rparr>" 16 8
        "Some \<lparr>img_width = 64, img_height = 32, img_data = []\<rparr>"
        "\<lparr>img_width = 64, img_height = 32, img_data = []\<rparr>"
        "\<lparr>s_type = ''quad'', s_visible = None, s_offset = None,
          s_settings = Some \<lparr>set_size = Some (Vector3 8 4 2), set_normal = None\<rparr>,
          s_textureLayout = Some [(''front'',
            \<lparr>l_offset = Some (16, 8), l_angle = Some 0, l_mirror = None\<rparr>)]\<rparr>"
        8 4 2 "[(''front'', \<lparr>l_offset = Some (16, 8), l_angle = Some 0, l_mirror = None\<rparr>)]"
        64 32 "''front''"]
    uv_angle0
    [of "\<lparr>l_offset = Some (16, 8), l_angle = None, l_mirror = Some (False, False)\<rparr>" 16 8
        "Some \<lparr>img_width = 64, img_height = 32, img_data = []\<rparr>"
        "\<lparr>img_width = 64, img_height = 32, img_data = []\<rparr>"
        "\<lparr>s_type = ''box'', s_visible = None, s_offset = None,
          s_settings = Some \<lparr>set_size = Some (Vector3 8 4 2), set_normal = None\<rparr>,
          s_textureLayout = Some [(''left'',
            \<lparr>l_offset = Some (16, 8), l_angle = None, l_mirror = Some (False, False)\<rparr>)]\<rparr>"
        8 4 2 "[(''left'', \<lparr>l_offset = Some (16, 8), l_angle = None, l_mirror = Some (False, False)\<rparr>)]"
        64 32 "''left''"]
  by (simp add: layoutAngle_def layoutMirror_def shapeSize_def)

section \<open>Properties of the model assembler\<close>

lemma keeps_refl: "keeps scene scene"
  by (simp add: keeps_def)

lemma keeps_trans:
  assumes "keeps a b" and "keeps b c"
  shows "keeps a c"
  unfolding keeps_def
proof (intro allI impI)
  fix r obj
  assume "getAt r a = Some obj"
  with assms(1) obtain ob1 where 1: "getAt r b = Some ob1" "label ob1 = label obj"
    unfolding keeps_def by blast
  with assms(2) obtain ob2 where 2: "getAt r c = Some ob2" "label ob2 = label ob1"
    unfolding keeps_def by blast
  show "\<exists>obj'. getAt r c = Some obj' \<and> label obj' = label obj"
    using 1 2 by simp
qed

lemma getAt_add:
  assumes "getAt r obj = Some ob"
  shows "\<exists>ob'. getAt r (add c obj) = Some ob' \<and> label ob' = label ob"
proof (cases r)
  case Nil
  then show ?thesis using assms by (simp add: add_def label_def)
next
  case (Cons i r')
  then show ?thesis using assms
    by (auto simp: add_def nth_append split: if_splits)
qed

lemma keeps_updateAt_add: "keeps obj (updateAt p (add c) obj)"
proof (induction p arbitrary: obj)
  case Nil
  show ?case unfolding keeps_def using getAt_add by simp
next
  case (Cons i p)
  obtain n m pos q cs where obj: "obj = Object3D n m pos q cs" by (cases obj)
  show ?case
  proof (cases "i < length cs")
    case False
    then show ?thesis by (simp add: obj keeps_refl)
  next
    case True
    have k: "keeps (cs ! i) (updateAt p (add c) (cs ! i))" by (rule Cons.IH)
    show ?thesis
      unfolding keeps_def
    proof (intro allI impI)
      fix r ob
      assume g: "getAt r obj = Some ob"
      show "\<exists>obj'. getAt r (updateAt (i # p) (add c) obj) = Some obj' \<and> label obj' = label ob"
      proof (cases r)
        case Nil
        have "ob = Object3D n m pos q cs" using g Nil by (simp add: obj)
        then show ?thesis using True Nil by (simp add: obj label_def)
      next
        case (Cons j r')
        show ?thesis
        proof (cases "j = i")
          case True
          with g Cons \<open>i < length cs\<close> have "getAt r' (cs ! i) = Some ob" by (simp add: obj)
          with k obtain ob' where "getAt r' (updateAt p (add c) (cs ! i)) = Some ob'"
            "label ob' = label ob" unfolding keeps_def by blast
          then show ?thesis using Cons True \<open>i < length cs\<close> by (simp add: obj)
        next
          case False
          then show ?thesis using g Cons \<open>i < length cs\<close>
            by (auto simp: obj split: if_splits)
        qed
      qed
    qed
  qed
qed

lemma keeps_addAt: "keeps scene (addAt p c scene)"
  by (simp add: addAt_def keeps_updateAt_add)

lemma getAt_addAt_new:
  assumes "getAt p scene = Some par"
  shows "getAt (p @ [length (children par)]) (addAt p c scene) = Some c"
  using assms
proof (induction p arbitrary: scene)
  case Nil
  then show ?case by (simp add: addAt_def add_def)
next
  case (Cons i p)
  obtain n m pos q cs where obj: "scene = Object3D n m pos q cs" by (cases scene)
  from Cons.prems have i: "i < length cs" and g: "getAt p (cs ! i) = Some par"
    by (auto simp: obj split: if_splits)
  from Cons.IH[OF g] show ?case
    using i by (simp add: obj addAt_def)
qed

lemma keeps_render:
  "keeps scene (sceneAfter (renderCosmeticNode ops pt sh node parent z scene))"
  "keeps scene (sceneAfter (renderCosmeticChildren ops pt sh chs grp z scene))"
proof (induction ops pt sh node parent z scene and ops pt sh chs grp z scene
    rule: renderCosmeticNode_renderCosmeticChildren.induct)
  case (1 ops partType shadowTexture nm idn pos ori shp chs parent zOffset scene)
  show ?case
  proof (cases "cosmeticMesh partType shadowTexture (nodeNameOf (ModelNode nm idn pos ori shp chs)) shp")
    case (Inl e)
    then show ?thesis by (simp add: sceneAfter_def keeps_refl)
  next
    case (Inr b)
    let ?node = "ModelNode nm idn pos ori shp chs"
    let ?mb = "if nodeNameOf ?node \<noteq> [] then findBoneByName scene (nodeNameOf ?node) else None"
    let ?tp = "case ?mb of None \<Rightarrow> parent | Some bone \<Rightarrow> bone"
    let ?g0 = "cosmeticGroup ops ?node (?mb \<noteq> None) zOffset"
    let ?g = "if b then add newMesh ?g0 else ?g0"
    let ?s1 = "addAt ?tp ?g scene"
    let ?res = "renderCosmeticChildren ops partType shadowTexture chs
        (?tp @ [childCount ?tp scene]) zOffset ?s1"
    have ih: "keeps ?s1 (sceneAfter ?res)"
      by (rule 1[OF refl refl refl refl refl refl Inr refl refl refl])
    have eq: "renderCosmeticNode ops partType shadowTexture ?node parent zOffset scene = ?res"
      using Inr by (simp add: Let_def)
    have "keeps scene ?s1" by (rule keeps_addAt)
    then have "keeps scene (sceneAfter ?res)" using ih by (rule keeps_trans)
    then show ?thesis unfolding eq .
  qed
next
  case (2 ops partType shadowTexture grp zOffset scene)
  then show ?case by (simp add: sceneAfter_def keeps_refl)
next
  case (3 ops partType shadowTexture child rest grp zOffset scene)
  let ?r = "(case findBoneByName scene (nodeNameOf child) of
            None \<Rightarrow> renderCosmeticNode ops partType shadowTexture child grp 0 scene
            | Some childBone \<Rightarrow>
                renderCosmeticNode ops partType shadowTexture child childBone zOffset scene)"
  have k1: "keeps scene (sceneAfter ?r)"
    using 3(1) 3(2) by (cases "findBoneByName scene (nodeNameOf child)") simp_all
  show ?case
  proof (cases ?r)
    case (Inl e)
    then show ?thesis using k1 by (simp add: sceneAfter_def)
  next
    case (Inr b)
    have "keeps scene b" using k1 Inr by (simp add: sceneAfter_def)
    moreover have "keeps b (sceneAfter (renderCosmeticChildren ops partType shadowTexture rest grp zOffset b))"
      by (rule 3(3)[OF Inr])
    ultimately have "keeps scene (sceneAfter (renderCosmeticChildren ops partType shadowTexture rest grp zOffset b))"
      by (rule keeps_trans)
    then show ?thesis using Inr by simp
  qed
qed


lemma findPath_valid:
  "findPath nm obj = Some p \<Longrightarrow> \<exists>b. getAt p obj = Some b \<and> name b = nm"
  "findPathList nm i cs = Some p \<Longrightarrow>
     \<exists>j r b. p = (i + j) # r \<and> j < length cs \<and> getAt r (cs ! j) = Some b \<and> name b = nm"
proof (induction nm obj and nm i cs arbitrary: p and p rule: findPath_findPathList.induct)
  case (1 nm n m pos q cs)
  show ?case
  proof (cases "n = nm")
    case True
    then show ?thesis using 1(2) by simp
  next
    case False
    with 1(2) have "findPathList nm 0 cs = Some p" by simp
    from 1(1)[OF False this] obtain j r b where
      "p = j # r" "j < length cs" "getAt r (cs ! j) = Some b" "name b = nm" by auto
    then show ?thesis by simp
  qed
next
  case (2 nm i)
  then show ?case by simp
next
  case (3 nm i c cs)
  show ?case
  proof (cases "findPath nm c")
    case (Some r)
    with 3(3) have p: "p = i # r" by simp
    from 3(1)[OF Some] obtain b where "getAt r c = Some b" "name b = nm" by blast
    then have "p = (i + 0) # r \<and> 0 < length (c # cs) \<and> getAt r ((c # cs) ! 0) = Some b \<and> name b = nm"
      using p by simp
    then show ?thesis by blast
  next
    case None
    with 3(3) have "findPathList nm (Suc i) cs = Some p" by simp
    from 3(2)[OF None this] obtain j r b where
      "p = (Suc i + j) # r" "j < length cs" "getAt r (cs ! j) = Some b" "name b = nm" by blast
    then have "p = (i + Suc j) # r \<and> Suc j < length (c # cs) \<and>
        getAt r ((c # cs) ! Suc j) = Some b \<and> name b = nm"
      by simp
    then show ?thesis by blast
  qed
qed

lemma findBoneByName_valid:
  assumes "findBoneByName scene nm = Some p"
  shows "nm \<noteq> [] \<and> (\<exists>b. getAt p scene = Some b \<and> name b = nm)"
  using assms findPath_valid(1)[of nm scene p]
  by (auto simp: findBoneByName_def split: if_splits)

lemma cosmeticGroup_attached:
  "name (cosmeticGroup ops node True zOffset) = nodeNameOf node @ ''_cosmetic''"
  "position (cosmeticGroup ops node True zOffset) = Vector3 0 0 zOffset"
  "quaternion (cosmeticGroup ops node True zOffset) =
     (case node_orientation node of
        Some orientation \<Rightarrow> orientationOf orientation
      | None \<Rightarrow> identityQuat)"
  by (simp_all add: cosmeticGroup_def newGroup_def setQuaternion_def setPosition_def
      zeroVec_def Let_def split: option.splits)

text \<open>
  The group of a node that matches a bone. When the name of a cosmetic node is the name
  of an object of the character and the node's own mesh does not throw, the group of the
  node becomes the last child of the first such object, which keeps its name, position
  and quaternion; the group is named after the node, has the node's authored
  orientation (the identity without one) and the position (0, 0, zOffset), where
  \<open>zOffset\<close> is the offset that this call of \<open>renderCosmeticNode\<close> received. The
  node's position and its shape's offset do not enter. This holds in the scene that the
  call leaves, after the node's children have been rendered.
\<close>

lemma renderCosmeticNode_attaches:
  assumes bone: "findBoneByName scene (nodeNameOf node) = Some bone"
    and mesh: "cosmeticMesh partType shadowTexture (nodeNameOf node) (node_shape node)
        = Inr hasMesh"
    and after: "scene' =
        sceneAfter (renderCosmeticNode ops partType shadowTexture node parent zOffset scene)"
  shows "\<exists>b b' g.
      getAt bone scene = Some b \<and> name b = nodeNameOf node
    \<and> getAt bone scene' = Some b'
    \<and> name b' = name b \<and> position b' = position b \<and> quaternion b' = quaternion b
    \<and> getAt (bone @ [length (children b)]) scene' = Some g
    \<and> name g = nodeNameOf node @ ''_cosmetic''
    \<and> position g = Vector3 0 0 zOffset
    \<and> quaternion g =
        (case node_orientation node of
           Some orientation \<Rightarrow> orientationOf orientation
         | None \<Rightarrow> identityQuat)"
proof -
  obtain nm idn pos ori shp chs where node: "node = ModelNode nm idn pos ori shp chs"
    by (cases node)
  from findBoneByName_valid[OF bone] obtain b where
    ne: "nodeNameOf node \<noteq> []" and b: "getAt bone scene = Some b" "name b = nodeNameOf node"
    by blast
  let ?g0 = "cosmeticGroup ops node True zOffset"
  let ?g = "if hasMesh then add newMesh ?g0 else ?g0"
  let ?s1 = "addAt bone ?g scene"
  let ?gp = "bone @ [childCount bone scene]"
  let ?res = "renderCosmeticChildren ops partType shadowTexture chs ?gp zOffset ?s1"
  have eq: "renderCosmeticNode ops partType shadowTexture node parent zOffset scene = ?res"
    using bone mesh ne by (simp add: node Let_def)
  have cc: "childCount bone scene = length (children b)"
    using b by (simp add: childCount_def)
  have g1: "getAt (bone @ [length (children b)]) ?s1 = Some ?g"
    using b(1) by (rule getAt_addAt_new)
  have k1: "keeps scene ?s1" by (rule keeps_addAt)
  have k2: "keeps ?s1 (sceneAfter ?res)" by (rule keeps_render(2))
  have s': "scene' = sceneAfter ?res" using after eq by simp
  from k1 b(1) obtain b1 where b1: "getAt bone ?s1 = Some b1" "label b1 = label b"
    unfolding keeps_def by blast
  from k2 b1(1) obtain b' where b': "getAt bone scene' = Some b'" "label b' = label b1"
    unfolding keeps_def s' by blast
  from k2 g1 obtain g where g: "getAt (bone @ [length (children b)]) scene' = Some g"
      "label g = label ?g"
    unfolding keeps_def s' by blast
  have lg: "name ?g = nodeNameOf node @ ''_cosmetic''"
    "position ?g = Vector3 0 0 zOffset"
    "quaternion ?g = (case node_orientation node of
           Some orientation \<Rightarrow> orientationOf orientation
         | None \<Rightarrow> identityQuat)"
    by (simp_all add: add_def cosmeticGroup_attached)
  have lgg: "name g = name ?g" "position g = position ?g" "quaternion g = quaternion ?g"
    using g(2) by (simp_all add: label_def)
  have "name g = nodeNameOf node @ ''_cosmetic''" "position g = Vector3 0 0 zOffset"
    "quaternion g = (case node_orientation node of
           Some orientation \<Rightarrow> orientationOf orientation
         | None \<Rightarrow> identityQuat)"
    unfolding lgg lg by (rule refl)+
  moreover have "name b' = name b" "position b' = position b" "quaternion b' = quaternion b"
    using b'(2) b1(2) by (simp_all add: label_def)
  ultimately show ?thesis
    using b b'(1) g(1) by blast
qed

lemma renderCosmeticNode_attaches_example:
  "findBoneByName
      (Object3D [] False zeroVec (Quaternion 0 1 0 0)
        [Object3D ''Chest'' False (Vector3 0 (1 / 2) 0) identityQuat []]) ''Chest'' = Some [0]
   \<and> map_of cosmeticOrder ''pants'' = Some (1 / 1000)
   \<and> (\<exists>g. getAt [0, 0]
        (sceneAfter (renderCosmeticModel
          \<lparr>slerpQuaternions = (\<lambda>q1 q2 f. q1), lerpVectors = (\<lambda>v1 v2 f. v1),
           applyQuaternion = (\<lambda>v q. v)\<rparr>
          (Some [ModelNode (Some ''Chest'') None
             (Some (OptVec (Some 10) (Some 20) (Some 30)))
             (Some (OptQuat (Some 0) (Some 0) (Some 1) (Some 0))) None []])
          [] ''pants'' (1 / 1000) False
          (Object3D [] False zeroVec (Quaternion 0 1 0 0)
            [Object3D ''Chest'' False (Vector3 0 (1 / 2) 0) identityQuat []]))) = Some g
      \<and> name g = ''Chest_cosmetic''
      \<and> position g = Vector3 0 0 (1 / 1000)
      \<and> quaternion g = Quaternion 0 0 1 0)"
proof -
  let ?sk = "Object3D [] False zeroVec (Quaternion 0 1 0 0)
        [Object3D ''Chest'' False (Vector3 0 (1 / 2) 0) identityQuat []]"
  let ?ops = "\<lparr>slerpQuaternions = (\<lambda>q1 q2 f. q1), lerpVectors = (\<lambda>v1 v2 f. v1),
           applyQuaternion = (\<lambda>v q. v)\<rparr>"
  let ?node = "ModelNode (Some ''Chest'') None
             (Some (OptVec (Some 10) (Some 20) (Some 30)))
             (Some (OptQuat (Some 0) (Some 0) (Some 1) (Some 0))) None []"
  have nm: "nodeNameOf ?node = ''Chest''" by (simp add: nodeNameOf_def)
  have bone: "findBoneByName ?sk (nodeNameOf ?node) = Some [0]"
    by (simp add: nm findBoneByName_def)
  have mesh: "cosmeticMesh ''pants'' False (nodeNameOf ?node) (node_shape ?node) = Inr False"
    by (simp add: cosmeticMesh_def)
  have z: "map_of cosmeticOrder ''pants'' = Some (1 / 1000)"
    by (simp add: cosmeticOrder_def)
  have m: "sceneAfter (renderCosmeticModel ?ops (Some [?node]) [] ''pants'' (1 / 1000) False ?sk)
      = sceneAfter (renderCosmeticNode ?ops ''pants'' False ?node [] (1 / 1000) ?sk)"
    by (simp add: renderCosmeticModel_def sceneAfter_def split: sum.splits)
  from renderCosmeticNode_attaches[OF bone mesh refl, of ?ops "[]" "1 / 1000"]
  obtain b b' g where
    b: "getAt [0] ?sk = Some b" and
    g: "getAt ([0] @ [length (children b)])
        (sceneAfter (renderCosmeticNode ?ops ''pants'' False ?node [] (1 / 1000) ?sk)) = Some g"
      "name g = nodeNameOf ?node @ ''_cosmetic''"
      "position g = Vector3 0 0 (1 / 1000)"
      "quaternion g = (case node_orientation ?node of
           Some orientation \<Rightarrow> orientationOf orientation
         | None \<Rightarrow> identityQuat)"
    by blast
  have "children b = []" using b by auto
  then have "getAt [0, 0]
        (sceneAfter (renderCosmeticNode ?ops ''pants'' False ?node [] (1 / 1000) ?sk)) = Some g"
    using g(1) by simp
  moreover have "name g = ''Chest_cosmetic''" using g(2) nm by simp
  moreover have "quaternion g = Quaternion 0 0 1 0"
    using g(4) by (simp add: orientationOf_def orZero_def)
  ultimately show ?thesis
    using bone nm z m g(3) by (simp only:) blast
qed

text \<open>
  C5. The offset that a call receives is the slot's for a root node of the cosmetic
  model and for a child that matches a bone, and 0 for any other child, whose group
  lies under its parent's group and is moved with it. A node that matches a bone below
  such a child is attached to the bone and moved by nothing, and the call passes on the
  0: the slot's offset is lost. In the pants slot, offset 1/1000, with the bones Chest
  and Pelvis: the node Chest under Root gets the position (0, 0, 1/1000) that the claim
  states, the node Pelvis under Decor under Root gets (0, 0, 0).
\<close>

theorem renderCosmeticModel_nested_offset:
  "map_of cosmeticOrder ''pants'' = Some (1 / 1000)
   \<and> renderCosmeticModel
        \<lparr>slerpQuaternions = (\<lambda>q1 q2 f. q1), lerpVectors = (\<lambda>v1 v2 f. v1),
         applyQuaternion = (\<lambda>v q. v)\<rparr>
        (Some [ModelNode (Some ''Root'') None None None None
           [ModelNode (Some ''Chest'') None
              (Some (OptVec (Some 10) (Some 20) (Some 30)))
              (Some (OptQuat (Some 0) (Some 0) (Some 1) (Some 0))) None [],
            ModelNode (Some ''Decor'') None None None None
             [ModelNode (Some ''Pelvis'') None
               (Some (OptVec (Some 10) (Some 20) (Some 30)))
               (Some (OptQuat (Some 0) (Some 0) (Some 1) (Some 0))) None []]]])
        [] ''pants'' (1 / 1000) False
        (Object3D [] False zeroVec (Quaternion 0 1 0 0)
          [Object3D ''Chest'' False (Vector3 0 (1 / 2) 0) identityQuat [],
           Object3D ''Pelvis'' False (Vector3 0 (1 / 4) 0) identityQuat []])
     = Inr (Object3D [] False (Vector3 0 0 0) (Quaternion 0 1 0 0)
         [Object3D ''Chest'' False (Vector3 0 (1 / 2) 0) (Quaternion 0 0 0 1)
           [Object3D ''Chest_cosmetic'' False (Vector3 0 0 (1 / 1000)) (Quaternion 0 0 1 0) []],
          Object3D ''Pelvis'' False (Vector3 0 (1 / 4) 0) (Quaternion 0 0 0 1)
           [Object3D ''Pelvis_cosmetic'' False (Vector3 0 0 0) (Quaternion 0 0 1 0) []],
          Object3D ''Root_cosmetic'' False (Vector3 0 0 (1 / 1000)) (Quaternion 0 0 0 1)
           [Object3D ''Decor_cosmetic'' False (Vector3 0 0 0) (Quaternion 0 0 0 1) []]])"
  by (simp add: findBoneByName_def cosmeticOrder_def renderCosmeticModel_def nodeNameOf_def
      cosmeticMesh_def cosmeticGroup_def newGroup_def applyTransform_def setQuaternion_def
      setPosition_def orientationOf_def orZero_def zeroVec_def identityQuat_def SCALE_def
      addAt_def add_def childCount_def Let_def)

section \<open>Properties of loading\<close>

lemma buildPlayer_frame:
  "hiddenBodyParts (buildPlayer e ops data st) = hiddenBodyParts st"
  "polygonOffsetParts (buildPlayer e ops data st) = polygonOffsetParts st"
  "originalTransforms (buildPlayer e ops data st) = originalTransforms st"
  by (simp_all add: buildPlayer_def Let_def split: option.splits prod.splits sum.splits)

lemma buildSlot_frame:
  assumes "buildSlot e ops data slot st = Inr st' \<or> buildSlot e ops data slot st = Inl (err, st')"
  shows "hiddenBodyParts st' = hiddenBodyParts st \<and> polygonOffsetParts st' = polygonOffsetParts st
     \<and> originalTransforms st' = originalTransforms st"
  using assms
  by (auto simp: buildSlot_def Let_def split: option.splits prod.splits sum.splits if_splits)

lemma buildSlots_frame:
  assumes "buildSlots e ops data slots st = Inr st' \<or> buildSlots e ops data slots st = Inl (err, st')"
  shows "hiddenBodyParts st' = hiddenBodyParts st \<and> polygonOffsetParts st' = polygonOffsetParts st
     \<and> originalTransforms st' = originalTransforms st"
  using assms
proof (induction slots arbitrary: st)
  case Nil
  then show ?case by auto
next
  case (Cons slot rest)
  show ?case
  proof (cases "buildSlot e ops data slot st")
    case (Inl x)
    obtain er s where x: "x = (er, s)" by (cases x)
    with Inl Cons.prems have "st' = s" by simp
    with buildSlot_frame[of e ops data slot st st' er] Inl x show ?thesis by simp
  next
    case (Inr s)
    with Cons.prems have "buildSlots e ops data rest s = Inr st' \<or> buildSlots e ops data rest s = Inl (err, st')"
      by simp
    from Cons.IH[OF this] buildSlot_frame[of e ops data slot st s] Inr show ?thesis by simp
  qed
qed

lemma buildCharacter_frame:
  assumes "buildCharacter e ops data st = Inr st' \<or> buildCharacter e ops data st = Inl (err, st')"
  shows "hiddenBodyParts st' = hiddenBodyParts st \<and> polygonOffsetParts st' = polygonOffsetParts st
     \<and> originalTransforms st' = originalTransforms st"
  using buildSlots_frame[of e ops data cosmeticOrder "buildPlayer e ops data st" st' err] assms
  by (simp add: buildCharacter_def buildPlayer_frame)

lemma applyNode_frame:
  "hiddenBodyParts (applyNode ops lt dur entry st) = hiddenBodyParts st"
  "polygonOffsetParts (applyNode ops lt dur entry st) = polygonOffsetParts st"
  by (simp_all add: applyNode_def Let_def split: option.splits)

lemma foldl_applyNode_frame:
  "hiddenBodyParts (foldl (\<lambda>s en. applyNode ops lt dur en s) st es) = hiddenBodyParts st
   \<and> polygonOffsetParts (foldl (\<lambda>s en. applyNode ops lt dur en s) st es) = polygonOffsetParts st"
  by (induction es arbitrary: st) (simp_all add: applyNode_frame)

lemma applyAnimation_frame:
  "hiddenBodyParts (applyAnimation ops anim tm st) = hiddenBodyParts st"
  "polygonOffsetParts (applyAnimation ops anim tm st) = polygonOffsetParts st"
  by (simp_all add: applyAnimation_def foldl_applyNode_frame split: option.splits)

lemma animate_frame:
  "hiddenBodyParts (animate ops now st) = hiddenBodyParts st"
  "polygonOffsetParts (animate ops now st) = polygonOffsetParts st"
  by (simp_all add: animate_def Let_def applyAnimation_frame split: option.splits)

lemma loadAvatar_not_cleared:
  assumes "loadAvatar e ops uuid st = Inr st'" and "fetchAvatar e uuid = Some data"
  shows "hiddenBodyParts st' = hiddenBodyParts (determineHiddenParts data st)"
    and "polygonOffsetParts st' = polygonOffsetParts (determineHiddenParts data st)"
    and "hiddenBodyParts st \<subseteq> hiddenBodyParts st'"
    and "polygonOffsetParts st \<subseteq> polygonOffsetParts st'"
proof -
  obtain st2 where b: "buildCharacter e ops data (determineHiddenParts data st) = Inr st2"
    and s': "st' = animate ops (frameAt e)
        (st2\<lparr>currentAnimation := loadAnimation e (currentAnimationPath st2),
             lastFrameTime := loadedAt e\<rparr>)"
    using assms by (auto simp: loadAvatar_def Let_def split: sum.splits if_splits)
  from buildCharacter_frame[of e ops data "determineHiddenParts data st" st2] b
  have f: "hiddenBodyParts st2 = hiddenBodyParts (determineHiddenParts data st)"
    "polygonOffsetParts st2 = polygonOffsetParts (determineHiddenParts data st)"
    by simp_all
  show 1: "hiddenBodyParts st' = hiddenBodyParts (determineHiddenParts data st)"
    and 2: "polygonOffsetParts st' = polygonOffsetParts (determineHiddenParts data st)"
    using f by (simp_all add: s' animate_frame)
  show "hiddenBodyParts st \<subseteq> hiddenBodyParts st'"
    unfolding 1 determineHiddenParts_hidden by auto
  show "polygonOffsetParts st \<subseteq> polygonOffsetParts st'"
    unfolding 2 determineHiddenParts_offset by auto
qed

lemma loadFromSkinData_cleared:
  assumes "loadFromSkinData e ops skinData st = Inr st'"
  shows "hiddenBodyParts st' = {} \<and> polygonOffsetParts st' = {} \<and> originalTransforms st' = []"
proof -
  obtain ch where c: "character st = Some ch"
    using assms by (auto simp: loadFromSkinData_def split: option.splits)
  let ?data = "\<lparr>skinTone = (if skinTone skinData = [] then ''01'' else skinTone skinData),
                     bodyType = (if bodyType skinData = [] then ''Regular''
                                 else bodyType skinData),
                     parts = Some Map.empty\<rparr>"
  let ?st1 = "st\<lparr>character :=
                        Some (Object3D (name ch) (isMesh ch) (position ch) (quaternion ch) []),
                      originalTransforms := [], hiddenBodyParts := {},
                      polygonOffsetParts := {}\<rparr>"
  have b: "buildCharacter e ops ?data (determineHiddenParts ?data ?st1) = Inr st'"
    using assms c by (simp add: loadFromSkinData_def Let_def)
  have ne: "\<And>slot. \<not> equipped ?data slot" by (simp add: equipped_def part_def)
  from buildCharacter_frame[of e ops ?data "determineHiddenParts ?data ?st1" st'] b
  show ?thesis
    by (simp add: determineHiddenParts_hidden determineHiddenParts_offset
        determineHiddenParts_originalTransforms ne)
qed

lemma buildSlot_no_assets:
  assumes "fetchModel e = (\<lambda>u. None)"
    and "\<And>k p. part data k = Some p \<Longrightarrow>
          part_texture p = None \<and> part_greyscaleTexture p = None"
  shows "buildSlot e ops data slot st = Inr st"
proof (cases "part data (fst slot)")
  case None
  then show ?thesis by (simp add: buildSlot_def Let_def)
next
  case (Some p)
  with assms(2) have t: "part_texture p = None" "part_greyscaleTexture p = None" by blast+
  have "slotTexture e data (fst slot) p (textureCache st) = (Inr None, textureCache st)"
    using t by (simp add: slotTexture_def falsyPath_def Let_def)
  then show ?thesis
    using Some assms(1) by (simp add: buildSlot_def Let_def)
qed

lemma buildSlots_no_assets:
  assumes "fetchModel e = (\<lambda>u. None)"
    and "\<And>k p. part data k = Some p \<Longrightarrow>
          part_texture p = None \<and> part_greyscaleTexture p = None"
  shows "buildSlots e ops data slots st = Inr st"
  by (induction slots) (simp_all add: buildSlot_no_assets[OF assms])

lemma buildCharacter_no_assets:
  assumes "fetchModel e = (\<lambda>u. None)"
    and "\<And>k p. part data k = Some p \<Longrightarrow>
          part_texture p = None \<and> part_greyscaleTexture p = None"
  shows "buildCharacter e ops data st = Inr st"
  using assms(1) by (simp add: buildCharacter_def buildPlayer_def buildSlots_no_assets[OF assms])

lemma applyAnimation_character:
  assumes "character st \<noteq> None"
  shows "character (applyAnimation ops anim tm st) \<noteq> None"
proof -
  obtain ch where c: "character st = Some ch" using assms by auto
  have "\<And>lt dur es. character (foldl (\<lambda>s en. applyNode ops lt dur en s) st es) \<noteq> None"
  proof -
    fix lt dur es
    from foldl_applyNode_names[OF c, of ops lt dur es]
    show "character (foldl (\<lambda>s en. applyNode ops lt dur en s) st es) \<noteq> None"
      by auto
  qed
  then show ?thesis
    using c by (auto simp: applyAnimation_def split: option.splits)
qed

lemma animate_character:
  assumes "character st \<noteq> None"
  shows "character (animate ops now st) \<noteq> None"
  using assms applyAnimation_character[of _ ops]
  by (simp add: animate_def Let_def split: option.splits)

lemma loadAvatar_returns:
  assumes "fetchAvatar e uuid = Some data"
    and "buildCharacter e ops data (determineHiddenParts data st) = Inr st2"
    and "character st2 \<noteq> None"
  shows "\<exists>st'. loadAvatar e ops uuid st = Inr st' \<and> character st' \<noteq> None"
proof -
  let ?st3 = "st2\<lparr>currentAnimation := loadAnimation e (currentAnimationPath st2),
                           lastFrameTime := loadedAt e\<rparr>"
  have "character ?st3 \<noteq> None" using assms(3) by simp
  then have "character (animate ops (frameAt e) ?st3) \<noteq> None"
    by (rule animate_character)
  then show ?thesis
    using assms(1,2) by (simp add: loadAvatar_def Let_def)
qed

text \<open>
  C1 on the code. \<open>loadFromSkinData\<close> clears the three collections before it builds
  (\<open>loadFromSkinData_cleared\<close>), \<open>loadAvatar\<close> clears nothing
  (\<open>loadAvatar_not_cleared\<close>): on a viewer that has loaded an avatar with pants and an
  overtop, the load of an avatar without parts leaves the seven hidden names and the
  four offset names of the first avatar in the sets, where the same load on a new viewer
  leaves both sets empty.
\<close>

theorem loadAvatar_keeps_parts:
  "\<exists>s1 s2 s3.
     loadAvatar
       \<lparr>fetchAvatar = (\<lambda>u. if u = ''a''
          then Some \<lparr>skinTone = ''01'', bodyType = ''Regular'',
            parts = Some [''pants'' \<mapsto> \<lparr>part_model = Some ''Cosmetics/Pants.blockymodel'',
              part_texture = None, part_greyscaleTexture = None, part_gradientTexture = None,
              part_baseColor = None, part_gradientSet = None\<rparr>,
             ''overtop'' \<mapsto> \<lparr>part_model = Some ''Cosmetics/Coat.blockymodel'',
              part_texture = None, part_greyscaleTexture = None, part_gradientTexture = None,
              part_baseColor = None, part_gradientSet = None\<rparr>]\<rparr>
          else Some \<lparr>skinTone = ''01'', bodyType = ''Regular'', parts = Some Map.empty\<rparr>),
        fetchModel = (\<lambda>u. None), fetchAnimation = (\<lambda>u. None), loadImage = (\<lambda>u. None),
        loadedAt = 0, frameAt = 0\<rparr>
       \<lparr>slerpQuaternions = (\<lambda>q1 q2 f. q1), lerpVectors = (\<lambda>v1 v2 f. v1),
        applyQuaternion = (\<lambda>v q. v)\<rparr> ''a'' (init newViewer) = Inr s1
   \<and> loadAvatar
       \<lparr>fetchAvatar = (\<lambda>u. if u = ''a''
          then Some \<lparr>skinTone = ''01'', bodyType = ''Regular'',
            parts = Some [''pants'' \<mapsto> \<lparr>part_model = Some ''Cosmetics/Pants.blockymodel'',
              part_texture = None, part_greyscaleTexture = None, part_gradientTexture = None,
              part_baseColor = None, part_gradientSet = None\<rparr>,
             ''overtop'' \<mapsto> \<lparr>part_model = Some ''Cosmetics/Coat.blockymodel'',
              part_texture = None, part_greyscaleTexture = None, part_gradientTexture = None,
              part_baseColor = None, part_gradientSet = None\<rparr>]\<rparr>
          else Some \<lparr>skinTone = ''01'', bodyType = ''Regular'', parts = Some Map.empty\<rparr>),
        fetchModel = (\<lambda>u. None), fetchAnimation = (\<lambda>u. None), loadImage = (\<lambda>u. None),
        loadedAt = 0, frameAt = 0\<rparr>
       \<lparr>slerpQuaternions = (\<lambda>q1 q2 f. q1), lerpVectors = (\<lambda>v1 v2 f. v1),
        applyQuaternion = (\<lambda>v q. v)\<rparr> ''b'' s1 = Inr s2
   \<and> loadAvatar
       \<lparr>fetchAvatar = (\<lambda>u. if u = ''a''
          then Some \<lparr>skinTone = ''01'', bodyType = ''Regular'',
            parts = Some [''pants'' \<mapsto> \<lparr>part_model = Some ''Cosmetics/Pants.blockymodel'',
              part_texture = None, part_greyscaleTexture = None, part_gradientTexture = None,
              part_baseColor = None, part_gradientSet = None\<rparr>,
             ''overtop'' \<mapsto> \<lparr>part_model = Some ''Cosmetics/Coat.blockymodel'',
              part_texture = None, part_greyscaleTexture = None, part_gradientTexture = None,
              part_baseColor = None, part_gradientSet = None\<rparr>]\<rparr>
          else Some \<lparr>skinTone = ''01'', bodyType = ''Regular'', parts = Some Map.empty\<rparr>),
        fetchModel = (\<lambda>u. None), fetchAnimation = (\<lambda>u. None), loadImage = (\<lambda>u. None),
        loadedAt = 0, frameAt = 0\<rparr>
       \<lparr>slerpQuaternions = (\<lambda>q1 q2 f. q1), lerpVectors = (\<lambda>v1 v2 f. v1),
        applyQuaternion = (\<lambda>v q. v)\<rparr> ''b'' (init newViewer) = Inr s3
   \<and> hiddenBodyParts s2 =
       {''Pelvis'', ''L-Thigh'', ''R-Thigh'', ''L-Calf'', ''R-Calf'', ''Belly'', ''Chest''}
   \<and> polygonOffsetParts s2 = {''L-Arm'', ''R-Arm'', ''L-Forearm'', ''R-Forearm''}
   \<and> hiddenBodyParts s3 = {}
   \<and> polygonOffsetParts s3 = {}"
proof -
  let ?d1 = "\<lparr>skinTone = ''01'', bodyType = ''Regular'',
            parts = Some [''pants'' \<mapsto> \<lparr>part_model = Some ''Cosmetics/Pants.blockymodel'',
              part_texture = None, part_greyscaleTexture = None, part_gradientTexture = None,
              part_baseColor = None, part_gradientSet = None\<rparr>,
             ''overtop'' \<mapsto> \<lparr>part_model = Some ''Cosmetics/Coat.blockymodel'',
              part_texture = None, part_greyscaleTexture = None, part_gradientTexture = None,
              part_baseColor = None, part_gradientSet = None\<rparr>]\<rparr>"
  let ?d2 = "\<lparr>skinTone = ''01'', bodyType = ''Regular'', parts = Some Map.empty\<rparr>"
  let ?e = "\<lparr>fetchAvatar = (\<lambda>u. if u = ''a'' then Some ?d1 else Some ?d2),
        fetchModel = (\<lambda>u. None), fetchAnimation = (\<lambda>u. None), loadImage = (\<lambda>u. None),
        loadedAt = 0, frameAt = 0\<rparr>"
  let ?ops = "\<lparr>slerpQuaternions = (\<lambda>q1 q2 f. q1), lerpVectors = (\<lambda>v1 v2 f. v1),
        applyQuaternion = (\<lambda>v q. v)\<rparr>"
  have build: "\<And>data (st::viewer). data = ?d1 \<or> data = ?d2 \<Longrightarrow>
      buildCharacter ?e ?ops data st = Inr st"
  proof -
    fix data and st :: viewer
    assume d: "data = ?d1 \<or> data = ?d2"
    have "\<And>k p. part data k = Some p \<Longrightarrow>
          part_texture p = None \<and> part_greyscaleTexture p = None"
      using d by (auto simp: part_def split: if_splits)
    then show "buildCharacter ?e ?ops data st = Inr st"
      by (intro buildCharacter_no_assets) simp_all
  qed
  have load: "\<And>uuid (st::viewer). character st \<noteq> None \<Longrightarrow>
      \<exists>st'. loadAvatar ?e ?ops uuid st = Inr st' \<and> character st' \<noteq> None"
  proof -
    fix uuid and st :: viewer
    assume c: "character st \<noteq> None"
    let ?data = "if uuid = ''a'' then ?d1 else ?d2"
    have f: "fetchAvatar ?e uuid = Some ?data" by simp
    have c2: "character (determineHiddenParts ?data st) \<noteq> None"
      using c by (simp add: determineHiddenParts_def Let_def)
    have b: "buildCharacter ?e ?ops ?data (determineHiddenParts ?data st) =
        Inr (determineHiddenParts ?data st)"
      by (rule build) simp
    show "\<exists>st'. loadAvatar ?e ?ops uuid st = Inr st' \<and> character st' \<noteq> None"
      using f b c2 by (rule loadAvatar_returns)
  qed
  have c0: "character (init newViewer) \<noteq> None" by (simp add: init_def)
  from load[OF c0, of "''a''"] obtain s1 where
    s1: "loadAvatar ?e ?ops ''a'' (init newViewer) = Inr s1" "character s1 \<noteq> None" by blast
  from load[OF s1(2), of "''b''"] obtain s2 where
    s2: "loadAvatar ?e ?ops ''b'' s1 = Inr s2" by blast
  from load[OF c0, of "''b''"] obtain s3 where
    s3: "loadAvatar ?e ?ops ''b'' (init newViewer) = Inr s3" by blast
  have fa: "fetchAvatar ?e ''a'' = Some ?d1" and fb: "fetchAvatar ?e ''b'' = Some ?d2"
    by simp_all
  have h1: "hiddenBodyParts s1 =
       {''Pelvis'', ''L-Thigh'', ''R-Thigh'', ''L-Calf'', ''R-Calf'', ''Belly'', ''Chest''}"
    "polygonOffsetParts s1 = {''L-Arm'', ''R-Arm'', ''L-Forearm'', ''R-Forearm''}"
    using loadAvatar_not_cleared(1,2)[OF s1(1) fa]
    by (auto simp: determineHiddenParts_hidden determineHiddenParts_offset equipped_def part_def
        init_def newViewer_def)
  have h2: "hiddenBodyParts s2 = hiddenBodyParts s1" "polygonOffsetParts s2 = polygonOffsetParts s1"
    using loadAvatar_not_cleared(1,2)[OF s2 fb]
    by (simp_all add: determineHiddenParts_hidden determineHiddenParts_offset equipped_def part_def)
  have h3: "hiddenBodyParts s3 = {}" "polygonOffsetParts s3 = {}"
    using loadAvatar_not_cleared(1,2)[OF s3 fb]
    by (simp_all add: determineHiddenParts_hidden determineHiddenParts_offset equipped_def part_def
        init_def newViewer_def)
  show ?thesis
    using s1(1) s2 s3 h1 h2 h3 by (simp only:) blast
qed

end
